theory Spec2Isabelle
  imports Complex_Main
begin

section \<open>Python values and the library functions the program calls\<close>

text \<open>
  The program is a single Python module, \<^verbatim>\<open>main.py\<close>. Its functions are embedded
  one by one, under their own names. Every \<^verbatim>\<open>raise\<close> is a branch of the model:
  an exception is the value \<open>Inl e\<close>, where \<open>e\<close> is the text \<^verbatim>\<open>str(e)\<close> of the
  exception (the only thing the program ever reads from one). All exceptions of
  the model are subclasses of \<^verbatim>\<open>Exception\<close>, so an \<^verbatim>\<open>except Exception\<close>
  clause catches each of them.

  A \<open>string\<close> is a list of Python characters; the 256 values of \<open>char\<close> stand for
  the code points below 256.
\<close>

type_synonym exn = string

subsection \<open>Floats\<close>

text \<open>
  A Python \<^verbatim>\<open>float\<close> is an IEEE 754 binary64 number. \<open>Fin q\<close> is the finite float
  whose value is the rational \<open>q\<close>, with \<open>Fin 0\<close> for \<^verbatim>\<open>0.0\<close>; \<open>NegZero\<close> is \<^verbatim>\<open>-0.0\<close>;
  the other three are \<^verbatim>\<open>inf\<close>, \<^verbatim>\<open>-inf\<close> and \<^verbatim>\<open>nan\<close>.
\<close>

datatype pyfloat = Fin rat | NegZero | PosInf | NegInf | NaN

definition signed_zero :: "bool \<Rightarrow> pyfloat" where
  "signed_zero neg = (if neg then NegZero else Fin 0)"

definition signed_inf :: "bool \<Rightarrow> pyfloat" where
  "signed_inf neg = (if neg then NegInf else PosInf)"

definition sign_bit :: "pyfloat \<Rightarrow> bool" where
  "sign_bit x = (case x of Fin q \<Rightarrow> q < 0 | NegZero \<Rightarrow> True | NegInf \<Rightarrow> True | _ \<Rightarrow> False)"

definition is_zero :: "pyfloat \<Rightarrow> bool" where
  "is_zero x = (x = Fin 0 \<or> x = NegZero)"

definition is_inf :: "pyfloat \<Rightarrow> bool" where
  "is_inf x = (x = PosInf \<or> x = NegInf)"

definition float_value :: "pyfloat \<Rightarrow> rat" where
  "float_value x = (case x of Fin q \<Rightarrow> q | _ \<Rightarrow> 0)"

text \<open>The integer nearest to \<open>n / d\<close> for \<open>0 < d\<close>, a tie going to the even one.\<close>

definition round_half_even :: "int \<Rightarrow> int \<Rightarrow> int" where
  "round_half_even n d =
     (let q = n div d; r = n mod d
      in if 2 * r < d then q
         else if d < 2 * r then q + 1
         else if even q then q else q + 1)"

function bit_length :: "int \<Rightarrow> int" where
  "bit_length n = (if n \<le> 0 then 0 else 1 + bit_length (n div 2))"
  by pat_completeness auto
termination
  by (relation "measure nat") auto

definition pow2 :: "int \<Rightarrow> rat" where
  "pow2 e = (if 0 \<le> e then 2 ^ nat e else 1 / 2 ^ nat (- e))"

text \<open>\<open>scaled_le k a d\<close> says that 2 to the power \<open>k\<close> is at most \<open>a / d\<close>, for \<open>0 < d\<close>.\<close>

definition scaled_le :: "int \<Rightarrow> int \<Rightarrow> int \<Rightarrow> bool" where
  "scaled_le k a d = (if 0 \<le> k then d * 2 ^ nat k \<le> a else d \<le> a * 2 ^ nat (- k))"

text \<open>
  Rounding to the nearest float, a tie going to the even significand. For \<open>0 < a\<close>
  and \<open>0 < d\<close>, \<open>round_ratio a d\<close> is the pair \<open>(m, e)\<close> for which \<open>m\<close> times 2 to
  the power \<open>e\<close> is the float nearest to \<open>a / d\<close>: \<open>ex\<close> is the binary exponent of
  \<open>a / d\<close>, a significand has 53 bits, and the floats below 2 to the power -1022
  are the multiples of 2 to the power -1074. A rounded value of 2 to the power
  1024 or more is an infinity; a rounded value of 0 keeps the sign.
\<close>

definition round_ratio :: "int \<Rightarrow> int \<Rightarrow> int \<times> int" where
  "round_ratio a d =
     (let k = bit_length a - bit_length d;
          ex = (if scaled_le k a d then k else k - 1);
          e = max (ex - 52) (- 1074);
          m = (if 0 \<le> e then round_half_even a (d * 2 ^ nat e)
               else round_half_even (a * 2 ^ nat (- e)) d)
      in (m, e))"

definition float_of_parts :: "bool \<Rightarrow> int \<times> int \<Rightarrow> pyfloat" where
  "float_of_parts neg me =
     (if fst me = 0 then signed_zero neg
      else if 972 \<le> snd me \<or> (snd me = 971 \<and> 2 ^ 53 \<le> fst me) then signed_inf neg
      else Fin (of_int (if neg then - fst me else fst me) * pow2 (snd me)))"

definition float_of_ratio :: "int \<Rightarrow> int \<Rightarrow> pyfloat" where
  "float_of_ratio n d =
     (if n = 0 then Fin 0
      else float_of_parts (n < 0) (round_ratio (if n < 0 then - n else n) d))"

text \<open>The float nearest to a rational: what Python makes of a decimal literal.\<close>

definition float_of_rat :: "rat \<Rightarrow> pyfloat" where
  "float_of_rat q = float_of_ratio (fst (quotient_of q)) (snd (quotient_of q))"

text \<open>\<^verbatim>\<open>x - y\<close>, \<^verbatim>\<open>x * y\<close> and \<^verbatim>\<open>x / y\<close> on floats. Python raises \<^verbatim>\<open>ZeroDivisionError\<close>
  for a divisor that is zero, whatever the dividend; nothing else raises.\<close>

definition fsub :: "pyfloat \<Rightarrow> pyfloat \<Rightarrow> pyfloat" where
  "fsub x y =
     (if x = NaN \<or> y = NaN then NaN
      else if is_inf x then (if y = x then NaN else x)
      else if is_inf y then signed_inf (y = PosInf)
      else if float_value x = float_value y then signed_zero (x = NegZero \<and> y = Fin 0)
      else float_of_rat (float_value x - float_value y))"

definition fmul :: "pyfloat \<Rightarrow> pyfloat \<Rightarrow> pyfloat" where
  "fmul x y =
     (if x = NaN \<or> y = NaN then NaN
      else if is_inf x \<or> is_inf y then
        (if is_zero x \<or> is_zero y then NaN else signed_inf (sign_bit x \<noteq> sign_bit y))
      else if is_zero x \<or> is_zero y then signed_zero (sign_bit x \<noteq> sign_bit y)
      else float_of_rat (float_value x * float_value y))"

definition fdiv :: "pyfloat \<Rightarrow> pyfloat \<Rightarrow> exn + pyfloat" where
  "fdiv x y =
     (if is_zero y then Inl ''float division by zero''
      else if x = NaN \<or> y = NaN then Inr NaN
      else if is_inf x then
        Inr (if is_inf y then NaN else signed_inf (sign_bit x \<noteq> sign_bit y))
      else if is_inf y \<or> is_zero x then Inr (signed_zero (sign_bit x \<noteq> sign_bit y))
      else Inr (float_of_rat (float_value x / float_value y)))"

text \<open>
  \<^verbatim>\<open>round(x, 2)\<close>. Python rounds the exact value of the float to the nearest multiple
  of 1/100, a tie going to the even one (\<open>round_hundredths\<close> is that multiple, in
  hundredths), and returns the float nearest to this decimal; a result of zero keeps
  the sign of \<open>x\<close>, and an infinity or NaN is returned as it is.
\<close>

definition round_hundredths :: "rat \<Rightarrow> int" where
  "round_hundredths q = round_half_even (fst (quotient_of q) * 100) (snd (quotient_of q))"

definition py_round2 :: "pyfloat \<Rightarrow> pyfloat" where
  "py_round2 x =
     (case x of
        Fin q \<Rightarrow>
          if round_hundredths q = 0 then signed_zero (q < 0)
          else float_of_ratio (round_hundredths q) 100
      | _ \<Rightarrow> x)"

subsection \<open>Values\<close>

datatype pyval =
    PNone
  | PBool bool
  | PInt int
  | PFloat pyfloat
  | PStr string
  | PList "pyval list"
  | PDict "(string \<times> pyval) list"
  | PObj string

text \<open>\<open>PObj t\<close> is any other object, of the type named \<open>t\<close> (a numpy scalar in a
  ticker's info, for example): \<^verbatim>\<open>json.dumps\<close> cannot serialise it.\<close>

definition type_name :: "pyval \<Rightarrow> string" where
  "type_name v =
     (case v of
        PNone \<Rightarrow> ''NoneType''
      | PBool _ \<Rightarrow> ''bool''
      | PInt _ \<Rightarrow> ''int''
      | PFloat _ \<Rightarrow> ''float''
      | PStr _ \<Rightarrow> ''str''
      | PList _ \<Rightarrow> ''list''
      | PDict _ \<Rightarrow> ''dict''
      | PObj t \<Rightarrow> t)"

definition attribute_error :: "pyval \<Rightarrow> string \<Rightarrow> exn" where
  "attribute_error v attr =
     [CHR 0x27] @ type_name v @ [CHR 0x27] @ '' object has no attribute ''
       @ [CHR 0x27] @ attr @ [CHR 0x27]"

text \<open>\<^verbatim>\<open>d.get(key, default)\<close> on a dictionary, and \<^verbatim>\<open>d[key] = value\<close>, which keeps
  the position of a key that is already there and appends a new key.\<close>

definition dict_get :: "(string \<times> pyval) list \<Rightarrow> string \<Rightarrow> pyval \<Rightarrow> pyval" where
  "dict_get d k dflt = (case map_of d k of Some v \<Rightarrow> v | None \<Rightarrow> dflt)"

fun dict_set :: "(string \<times> pyval) list \<Rightarrow> string \<Rightarrow> pyval \<Rightarrow> (string \<times> pyval) list" where
  "dict_set [] k v = [(k, v)]"
| "dict_set ((k', v') # d) k v = (if k' = k then (k, v) # d else (k', v') # dict_set d k v)"

text \<open>\<^verbatim>\<open>arguments.get("symbol", "")\<close> where \<^verbatim>\<open>arguments\<close> is whatever \<^verbatim>\<open>json.loads\<close>
  returned: only a dictionary has the method.\<close>

definition py_get :: "pyval \<Rightarrow> string \<Rightarrow> pyval \<Rightarrow> exn + pyval" where
  "py_get v k dflt =
     (case v of
        PDict d \<Rightarrow> Inr (dict_get d k dflt)
      | _ \<Rightarrow> Inl (attribute_error v ''get''))"

text \<open>\<^verbatim>\<open>str.upper\<close>, on the ASCII letters (ticker symbols are ASCII).\<close>

definition upper_char :: "char \<Rightarrow> char" where
  "upper_char c =
     (case map_of (zip ''abcdefghijklmnopqrstuvwxyz'' ''ABCDEFGHIJKLMNOPQRSTUVWXYZ'') c of
        Some u \<Rightarrow> u
      | None \<Rightarrow> c)"

definition upper :: "string \<Rightarrow> string" where
  "upper s = map upper_char s"

definition py_upper :: "pyval \<Rightarrow> exn + string" where
  "py_upper v =
     (case v of
        PStr s \<Rightarrow> Inr (upper s)
      | _ \<Rightarrow> Inl (attribute_error v ''upper''))"

subsection \<open>\<^verbatim>\<open>json.dumps\<close>\<close>

definition digit_char :: "nat \<Rightarrow> char" where
  "digit_char n = ''0123456789abcdef'' ! n"

function dec_nat :: "nat \<Rightarrow> string" where
  "dec_nat n = (if n < 10 then [digit_char n] else dec_nat (n div 10) @ [digit_char (n mod 10)])"
  by pat_completeness auto
termination
  by (relation "measure id") auto

definition dec_int :: "int \<Rightarrow> string" where
  "dec_int i = (if i < 0 then ''-'' @ dec_nat (nat (- i)) else dec_nat (nat i))"

text \<open>The default encoder (\<^verbatim>\<open>ensure_ascii=True\<close>): the backslash, the double quote
  and five control characters have short escapes; every other character outside
  the range from the space to the tilde is written \<^verbatim>\<open>\uXXXX\<close>.\<close>

definition escape_char :: "char \<Rightarrow> string" where
  "escape_char c =
     (if c = CHR 0x5C then [CHR 0x5C, CHR 0x5C]
      else if c = CHR 0x22 then [CHR 0x5C, CHR 0x22]
      else if c = CHR 0x08 then [CHR 0x5C, CHR ''b'']
      else if c = CHR 0x0C then [CHR 0x5C, CHR ''f'']
      else if c = CHR 0x0A then [CHR 0x5C, CHR ''n'']
      else if c = CHR 0x0D then [CHR 0x5C, CHR ''r'']
      else if c = CHR 0x09 then [CHR 0x5C, CHR ''t'']
      else (let n = (of_char c :: nat)
            in if 32 \<le> n \<and> n \<le> 126 then [c]
               else [CHR 0x5C] @ ''u00'' @ [digit_char (n div 16), digit_char (n mod 16)]))"

definition json_string :: "string \<Rightarrow> string" where
  "json_string s = [CHR 0x22] @ concat (map escape_char s) @ [CHR 0x22]"

fun py_join :: "string \<Rightarrow> string list \<Rightarrow> string" where
  "py_join sep [] = []"
| "py_join sep [x] = x"
| "py_join sep (x # y # ys) = x @ sep @ py_join sep (y # ys)"

text \<open>\<^verbatim>\<open>json.dumps(value)\<close> with the default separators. The text of a finite float
  is Python's \<^verbatim>\<open>float.__repr__\<close>, taken as the parameter \<open>fr\<close>; the encoder has
  texts of its own for NaN and the infinities. A value that is not serialisable
  raises \<^verbatim>\<open>TypeError\<close>.\<close>

definition float_text :: "(pyfloat \<Rightarrow> string) \<Rightarrow> pyfloat \<Rightarrow> string" where
  "float_text fr x =
     (case x of
        NaN \<Rightarrow> ''NaN''
      | PosInf \<Rightarrow> ''Infinity''
      | NegInf \<Rightarrow> ''-Infinity''
      | _ \<Rightarrow> fr x)"

fun json_dumps :: "(pyfloat \<Rightarrow> string) \<Rightarrow> pyval \<Rightarrow> exn + string"
  and json_dumps_list :: "(pyfloat \<Rightarrow> string) \<Rightarrow> pyval list \<Rightarrow> exn + string list"
  and json_dumps_items :: "(pyfloat \<Rightarrow> string) \<Rightarrow> (string \<times> pyval) list \<Rightarrow> exn + string list"
where
  "json_dumps fr PNone = Inr ''null''"
| "json_dumps fr (PBool b) = Inr (if b then ''true'' else ''false'')"
| "json_dumps fr (PInt i) = Inr (dec_int i)"
| "json_dumps fr (PFloat x) = Inr (float_text fr x)"
| "json_dumps fr (PStr s) = Inr (json_string s)"
| "json_dumps fr (PList xs) =
     (case json_dumps_list fr xs of
        Inl e \<Rightarrow> Inl e
      | Inr ss \<Rightarrow> Inr (''['' @ py_join '', '' ss @ '']''))"
| "json_dumps fr (PDict kvs) =
     (case json_dumps_items fr kvs of
        Inl e \<Rightarrow> Inl e
      | Inr ss \<Rightarrow> Inr (''{'' @ py_join '', '' ss @ ''}''))"
| "json_dumps fr (PObj t) = Inl (''Object of type '' @ t @ '' is not JSON serializable'')"
| "json_dumps_list fr [] = Inr []"
| "json_dumps_list fr (x # xs) =
     (case json_dumps fr x of
        Inl e \<Rightarrow> Inl e
      | Inr s \<Rightarrow>
          (case json_dumps_list fr xs of
             Inl e \<Rightarrow> Inl e
           | Inr ss \<Rightarrow> Inr (s # ss)))"
| "json_dumps_items fr [] = Inr []"
| "json_dumps_items fr ((k, v) # kvs) =
     (case json_dumps fr v of
        Inl e \<Rightarrow> Inl e
      | Inr s \<Rightarrow>
          (case json_dumps_items fr kvs of
             Inl e \<Rightarrow> Inl e
           | Inr ss \<Rightarrow> Inr ((json_string k @ '': '' @ s) # ss)))"

section \<open>The environment of the tool functions\<close>

text \<open>
  What the module does not define is a parameter of the model: \<^verbatim>\<open>json.loads\<close>, the
  text Python gives a finite float and an arbitrary value, and the market-data provider
  (\<^verbatim>\<open>yfinance\<close>). \<open>ticker_info sym\<close> is \<^verbatim>\<open>yf.Ticker(sym).info\<close>; \<open>ticker_history sym p\<close>
  is the \<^verbatim>\<open>Close\<close> column of \<^verbatim>\<open>yf.Ticker(sym).history(period=p)\<close>, oldest row first,
  each value as \<^verbatim>\<open>float\<close> makes it, the empty list for an empty frame. Either may raise. The Streamlit cache
  decorator around the two tool functions is not modelled.
\<close>

record env =
  json_loads :: "string \<Rightarrow> exn + pyval"
  float_repr :: "pyfloat \<Rightarrow> string"
  py_str :: "pyval \<Rightarrow> string"
  ticker_info :: "string \<Rightarrow> exn + (string \<times> pyval) list"
  ticker_history :: "string \<Rightarrow> string \<Rightarrow> exn + pyfloat list"

text \<open>\<^verbatim>\<open>f"{symbol}"\<close>: a string is inserted as it is.\<close>

definition py_format :: "env \<Rightarrow> pyval \<Rightarrow> string" where
  "py_format E v = (case v of PStr s \<Rightarrow> s | _ \<Rightarrow> py_str E v)"

definition error_dict :: "string \<Rightarrow> pyval" where
  "error_dict msg = PDict [(''error'', PStr msg)]"

section \<open>Financial data functions\<close>

text \<open>The body of the \<^verbatim>\<open>try\<close> block of \<^verbatim>\<open>get_stock_data\<close>.\<close>

definition get_stock_data_try :: "env \<Rightarrow> pyval \<Rightarrow> exn + pyval" where
  "get_stock_data_try E symbol =
     (case py_upper symbol of
        Inl e \<Rightarrow> Inl e
      | Inr symbol_upper \<Rightarrow>
          (case ticker_info E symbol_upper of
             Inl e \<Rightarrow> Inl e
           | Inr info \<Rightarrow>
               (case ticker_history E symbol_upper ''1d'' of
                  Inl e \<Rightarrow> Inl e
                | Inr hist \<Rightarrow>
                    if hist = [] then
                      Inr (error_dict (''No data available for '' @ py_format E symbol))
                    else
                      (let current_price = last hist
                       in Inr (PDict
                            [(''symbol'', PStr symbol_upper),
                             (''current_price'', PFloat (py_round2 current_price)),
                             (''company_name'', dict_get info ''longName'' symbol),
                             (''market_cap'', dict_get info ''marketCap'' PNone),
                             (''pe_ratio'', dict_get info ''trailingPE'' PNone),
                             (''52_week_high'', dict_get info ''fiftyTwoWeekHigh'' PNone),
                             (''52_week_low'', dict_get info ''fiftyTwoWeekLow'' PNone),
                             (''volume'', dict_get info ''volume'' PNone)])))))"

definition get_stock_data :: "env \<Rightarrow> pyval \<Rightarrow> pyval" where
  "get_stock_data E symbol =
     (case get_stock_data_try E symbol of
        Inr result \<Rightarrow> result
      | Inl e \<Rightarrow>
          error_dict (''Could not fetch data for '' @ py_format E symbol @ '': '' @ e))"

definition indices :: "(string \<times> string) list" where
  "indices =
     [(''S&P 500'', ''^GSPC''),
      (''NASDAQ'', ''^IXIC''),
      (''NVIDIA'', ''NVDA''),
      (''Russell 2000'', ''^RUT''),
      (''Bitcoin'', ''BTC-USD''),
      (''Ethereum'', ''ETH-USD''),
      (''Crude Oil'', ''CL=F''),
      (''Gold'', ''GC=F''),
      (''Silver'', ''SI=F''),
      (''FTSE 100'', ''^FTSE''),
      (''DAX'', ''^GDAXI''),
      (''Nikkei 225'', ''^N225''),
      (''Hang Seng'', ''^HSI''),
      (''S&P/TSX Composite'', ''^GSPTSE''),
      (''Euro Stoxx 50'', ''^STOXX50E''),
      (''CAC 40'', ''^FCHI''),
      (''ASX 200'', ''^AXJO''),
      (''Bovespa'', ''^BVSP''),
      (''Sensex'', ''^BSESN''),
      (''Swiss Market Index'', ''^SSMI''),
      (''KOSPI'', ''^KS11''),
      (''Nifty 50'', ''^NSEI''),
      (''Jakarta Composite'', ''^JKSE''),
      (''Straits Times'', ''^STI'')]"

text \<open>
  The body of the \<^verbatim>\<open>try\<close> block for one index: \<open>Inr None\<close> when the frame is empty
  (nothing is stored), \<open>Inr (Some entry)\<close> when an entry is stored. The division
  raises \<^verbatim>\<open>ZeroDivisionError\<close> when \<^verbatim>\<open>prev\<close> is zero; the integer 100 is multiplied
  as the float 100.0.
\<close>

definition overview_try :: "env \<Rightarrow> string \<Rightarrow> exn + pyval option" where
  "overview_try E symbol =
     (case ticker_history E symbol ''2d'' of
        Inl e \<Rightarrow> Inl e
      | Inr hist \<Rightarrow>
          if hist \<noteq> [] then
            (let current = last hist;
                 prev = (if length hist > 1 then hist ! (length hist - 2) else current);
                 change = fsub current prev
             in case fdiv change prev of
                  Inl e \<Rightarrow> Inl e
                | Inr ratio \<Rightarrow>
                    (let change_pct = fmul ratio (Fin 100)
                     in Inr (Some (PDict
                          [(''current'', PFloat (py_round2 current)),
                           (''change'', PFloat (py_round2 change)),
                           (''change_percent'', PFloat (py_round2 change_pct))]))))
          else Inr None)"

definition overview_step ::
  "env \<Rightarrow> string \<Rightarrow> string \<Rightarrow> (string \<times> pyval) list \<Rightarrow> (string \<times> pyval) list" where
  "overview_step E name symbol results =
     (case overview_try E symbol of
        Inr None \<Rightarrow> results
      | Inr (Some entry) \<Rightarrow> dict_set results name entry
      | Inl e \<Rightarrow> dict_set results name (error_dict e))"

fun overview_loop ::
  "env \<Rightarrow> (string \<times> string) list \<Rightarrow> (string \<times> pyval) list \<Rightarrow> (string \<times> pyval) list" where
  "overview_loop E [] results = results"
| "overview_loop E ((name, symbol) # rest) results =
     overview_loop E rest (overview_step E name symbol results)"

definition get_market_overview :: "env \<Rightarrow> (string \<times> pyval) list" where
  "get_market_overview E = overview_loop E indices []"

text \<open>What one index adds to \<^verbatim>\<open>results\<close>: nothing, its entry, or an error entry.\<close>

definition overview_entry :: "env \<Rightarrow> string \<times> string \<Rightarrow> (string \<times> pyval) list" where
  "overview_entry E idx =
     (case overview_try E (snd idx) of
        Inr None \<Rightarrow> []
      | Inr (Some entry) \<Rightarrow> [(fst idx, entry)]
      | Inl e \<Rightarrow> [(fst idx, error_dict e)])"

section \<open>The remote assistant service\<close>

text \<open>
  The OpenAI client is a remote service with a state of its own. Each operation
  the module calls is a function from the service's state \<open>'s\<close> to a result,
  an exception or a value, and the next state; the model is stated for every
  such service. The objects it returns keep the fields the module reads.
\<close>

record tool_call =
  tc_id :: string
  tc_function_name :: string
  tc_function_arguments :: string

text \<open>An element of \<^verbatim>\<open>tool_outputs\<close>: the dictionary with the keys \<^verbatim>\<open>tool_call_id\<close> and
  \<^verbatim>\<open>output\<close> (the field \<open>output_str\<close>).\<close>

record tool_output =
  tool_call_id :: string
  output_str :: string

text \<open>\<open>required_action\<close> is \<^verbatim>\<open>run.required_action.submit_tool_outputs.tool_calls\<close>,
  \<open>None\<close> when \<^verbatim>\<open>run.required_action\<close> is \<^verbatim>\<open>None\<close>.\<close>

record run =
  run_id :: string
  status :: string
  required_action :: "tool_call list option"

datatype content_block = TextBlock string | ImageFileBlock string

record message =
  role :: string
  content :: "content_block list"

record 's remote =
  threads_create :: "'s \<Rightarrow> (exn + string) \<times> 's"
  messages_create :: "string \<Rightarrow> string \<Rightarrow> string \<Rightarrow> 's \<Rightarrow> (exn + unit) \<times> 's"
  runs_create :: "string \<Rightarrow> string \<Rightarrow> 's \<Rightarrow> (exn + run) \<times> 's"
  submit_tool_outputs :: "string \<Rightarrow> string \<Rightarrow> tool_output list \<Rightarrow> 's \<Rightarrow> (exn + run) \<times> 's"
  runs_retrieve :: "string \<Rightarrow> string \<Rightarrow> 's \<Rightarrow> (exn + run) \<times> 's"
  messages_list :: "string \<Rightarrow> 's \<Rightarrow> (exn + message list) \<times> 's"
  speech_create :: "string \<Rightarrow> string \<Rightarrow> string \<Rightarrow> string \<Rightarrow> 's \<Rightarrow> (exn + string) \<times> 's"

text \<open>
  What a call of the module does, in order: the calls to the remote service with
  their arguments, the calls of \<^verbatim>\<open>handle_function_call\<close>, the sleeps, and the
  Streamlit calls that show something.
\<close>

datatype event =
    ThreadsCreate
  | MessagesCreate string string string
  | RunsCreate string string
  | HandlerCall string pyval
  | SubmitToolOutputs string string "tool_output list"
  | Sleep nat
  | RunsRetrieve string string
  | MessagesList string
  | SpeechCreate string string string string
  | StError string
  | StWrite string
  | StAudio string

section \<open>OpenAI functions\<close>

definition text_to_speech ::
  "'s remote \<Rightarrow> string \<Rightarrow> string \<Rightarrow> 's \<Rightarrow> string option \<times> event list \<times> 's" where
  "text_to_speech R text0 voice s =
     (let text1 = (if length text0 > 4000 then take 4000 text0 @ ''...'' else text0)
      in case speech_create R ''tts-1'' voice text1 ''mp3'' s of
           (Inr response_content, s') \<Rightarrow>
             (Some response_content, [SpeechCreate ''tts-1'' voice text1 ''mp3''], s')
         | (Inl e, s') \<Rightarrow>
             (None, [SpeechCreate ''tts-1'' voice text1 ''mp3'', StError (''TTS Error: '' @ e)], s'))"

text \<open>The body of the \<^verbatim>\<open>try\<close> block of \<^verbatim>\<open>handle_function_call\<close>, then the function
  with its \<^verbatim>\<open>except\<close> clause.\<close>

definition handle_function_call_try :: "env \<Rightarrow> string \<Rightarrow> pyval \<Rightarrow> exn + string" where
  "handle_function_call_try E function_name arguments =
     (if function_name = ''get_stock_data'' then
        (case py_get arguments ''symbol'' (PStr []) of
           Inl e \<Rightarrow> Inl e
         | Inr symbol \<Rightarrow> json_dumps (float_repr E) (get_stock_data E symbol))
      else if function_name = ''get_market_overview'' then
        json_dumps (float_repr E) (PDict (get_market_overview E))
      else json_dumps (float_repr E) (error_dict ''Function not implemented''))"

definition handle_function_call :: "env \<Rightarrow> string \<Rightarrow> pyval \<Rightarrow> exn + string" where
  "handle_function_call E function_name arguments =
     (case handle_function_call_try E function_name arguments of
        Inr out \<Rightarrow> Inr out
      | Inl e \<Rightarrow> json_dumps (float_repr E) (error_dict e))"

text \<open>The \<^verbatim>\<open>for tool_call in tool_calls\<close> loop of \<^verbatim>\<open>chat_with_assistant\<close>, with the
  list \<^verbatim>\<open>tool_outputs\<close> it appends to. \<^verbatim>\<open>json.loads\<close> is called in the loop itself,
  outside \<^verbatim>\<open>handle_function_call\<close>.\<close>

fun tool_outputs_loop ::
  "env \<Rightarrow> tool_call list \<Rightarrow> tool_output list \<Rightarrow> event list
     \<Rightarrow> (exn + tool_output list) \<times> event list" where
  "tool_outputs_loop E [] tool_outputs evs = (Inr tool_outputs, evs)"
| "tool_outputs_loop E (tc # rest) tool_outputs evs =
     (case json_loads E (tc_function_arguments tc) of
        Inl e \<Rightarrow> (Inl e, evs)
      | Inr arguments \<Rightarrow>
          (case handle_function_call E (tc_function_name tc) arguments of
             Inl e \<Rightarrow> (Inl e, evs @ [HandlerCall (tc_function_name tc) arguments])
           | Inr out \<Rightarrow>
               tool_outputs_loop E rest
                 (tool_outputs @ [\<lparr>tool_call_id = tc_id tc, output_str = out\<rparr>])
                 (evs @ [HandlerCall (tc_function_name tc) arguments])))"

text \<open>One pass through the body of the \<^verbatim>\<open>while\<close> loop, for a run whose status is
  one of the three the loop goes on with: the next run, or the exception that
  leaves the loop.\<close>

definition loop_body ::
  "'s remote \<Rightarrow> env \<Rightarrow> string \<Rightarrow> run \<Rightarrow> 's \<Rightarrow> (exn + run) \<times> event list \<times> 's" where
  "loop_body R E thread_id run s =
     (if status run = ''requires_action'' then
        (case required_action run of
           None \<Rightarrow> (Inl (attribute_error PNone ''submit_tool_outputs''), [], s)
         | Some tool_calls \<Rightarrow>
             (case tool_outputs_loop E tool_calls [] [] of
                (Inl e, evs) \<Rightarrow> (Inl e, evs, s)
              | (Inr tool_outputs, evs) \<Rightarrow>
                  (case submit_tool_outputs R thread_id (run_id run) tool_outputs s of
                     (res, s') \<Rightarrow>
                       (res, evs @ [SubmitToolOutputs thread_id (run_id run) tool_outputs], s'))))
      else
        (case runs_retrieve R thread_id (run_id run) s of
           (res, s') \<Rightarrow> (res, [Sleep 1, RunsRetrieve thread_id (run_id run)], s')))"

definition active :: "string \<Rightarrow> bool" where
  "active st = (st \<in> set [''queued'', ''in_progress'', ''requires_action''])"

text \<open>The \<^verbatim>\<open>while\<close> loop. It has no bound: where it never ends, the value is \<open>None\<close>.
  It ends with the run that left the loop, or with the exception raised in it.\<close>

partial_function (option) poll_loop ::
  "'s remote \<Rightarrow> env \<Rightarrow> string \<Rightarrow> run \<Rightarrow> event list \<Rightarrow> 's
     \<Rightarrow> ((exn + run) \<times> event list \<times> 's) option" where
  "poll_loop R E thread_id run evs s =
     (if active (status run) then
        (case loop_body R E thread_id run s of
           (Inl e, evs', s') \<Rightarrow> Some (Inl e, evs @ evs', s')
         | (Inr run', evs', s') \<Rightarrow> poll_loop R E thread_id run' (evs @ evs') s')
      else Some (Inr run, evs, s))"

text \<open>\<^verbatim>\<open>messages.data[0].content[0].text.value\<close>.\<close>

definition first_text :: "message list \<Rightarrow> exn + string" where
  "first_text msgs =
     (case msgs of
        [] \<Rightarrow> Inl ''list index out of range''
      | m # _ \<Rightarrow>
          (case content m of
             [] \<Rightarrow> Inl ''list index out of range''
           | TextBlock t # _ \<Rightarrow> Inr t
           | ImageFileBlock _ # _ \<Rightarrow>
               Inl ([CHR 0x27] @ ''ImageFileContentBlock'' @ [CHR 0x27]
                     @ '' object has no attribute '' @ [CHR 0x27] @ ''text'' @ [CHR 0x27])))"

definition truthy :: "string option \<Rightarrow> bool" where
  "truthy thread_id = (case thread_id of None \<Rightarrow> False | Some t \<Rightarrow> t \<noteq> [])"

text \<open>\<^verbatim>\<open>if not thread_id: thread = client.beta.threads.create(); thread_id = thread.id\<close>.\<close>

definition ensure_thread ::
  "'s remote \<Rightarrow> string option \<Rightarrow> 's \<Rightarrow> (exn + string) \<times> event list \<times> 's" where
  "ensure_thread R thread_id s =
     (if \<not> truthy thread_id then
        (case threads_create R s of (res, s') \<Rightarrow> (res, [ThreadsCreate], s'))
      else (Inr (case thread_id of Some t \<Rightarrow> t | None \<Rightarrow> []), [], s))"

text \<open>The rest of the \<^verbatim>\<open>try\<close> block, once \<^verbatim>\<open>thread_id\<close> is a thread: the text it
  returns, or the exception it raises.\<close>

definition run_to_answer ::
  "'s remote \<Rightarrow> env \<Rightarrow> string \<Rightarrow> string \<Rightarrow> string \<Rightarrow> event list \<Rightarrow> 's
     \<Rightarrow> ((exn + string) \<times> event list \<times> 's) option" where
  "run_to_answer R E assistant_id msg thread_id evs s =
     (case messages_create R thread_id ''user'' msg s of
        (Inl e, s1) \<Rightarrow> Some (Inl e, evs @ [MessagesCreate thread_id ''user'' msg], s1)
      | (Inr _, s1) \<Rightarrow>
          (case runs_create R thread_id assistant_id s1 of
             (Inl e, s2) \<Rightarrow>
               Some (Inl e, evs @ [MessagesCreate thread_id ''user'' msg,
                                    RunsCreate thread_id assistant_id], s2)
           | (Inr run, s2) \<Rightarrow>
               (case poll_loop R E thread_id run
                       (evs @ [MessagesCreate thread_id ''user'' msg,
                               RunsCreate thread_id assistant_id]) s2 of
                  None \<Rightarrow> None
                | Some (Inl e, evs', s3) \<Rightarrow> Some (Inl e, evs', s3)
                | Some (Inr run', evs', s3) \<Rightarrow>
                    if status run' = ''completed'' then
                      (case messages_list R thread_id s3 of
                         (Inl e, s4) \<Rightarrow> Some (Inl e, evs' @ [MessagesList thread_id], s4)
                       | (Inr msgs, s4) \<Rightarrow>
                           Some (first_text msgs, evs' @ [MessagesList thread_id], s4))
                    else
                      Some (Inr (''Error: Run failed with status '' @ status run'), evs', s3))))"

text \<open>\<^verbatim>\<open>chat_with_assistant\<close>: the \<^verbatim>\<open>except\<close> clause returns the text of the exception
  with the value \<^verbatim>\<open>thread_id\<close> has at that point.\<close>

definition chat_with_assistant ::
  "'s remote \<Rightarrow> env \<Rightarrow> string \<Rightarrow> string \<Rightarrow> string option \<Rightarrow> 's
     \<Rightarrow> ((string \<times> string option) \<times> event list \<times> 's) option" where
  "chat_with_assistant R E assistant_id msg thread_id s =
     (case ensure_thread R thread_id s of
        (Inl e, evs, s1) \<Rightarrow> Some ((''Error: '' @ e, thread_id), evs, s1)
      | (Inr t, evs, s1) \<Rightarrow>
          (case run_to_answer R E assistant_id msg t evs s1 of
             None \<Rightarrow> None
           | Some (Inl e, evs', s2) \<Rightarrow> Some ((''Error: '' @ e, Some t), evs', s2)
           | Some (Inr response, evs', s2) \<Rightarrow> Some ((response, Some t), evs', s2)))"

section \<open>The session\<close>

text \<open>\<^verbatim>\<open>st.session_state\<close>, and the two places that write its \<^verbatim>\<open>thread_id\<close>:
  \<^verbatim>\<open>process_user_input\<close> and the Clear Chat button.\<close>

record session =
  ss_messages :: "(string \<times> string) list"
  ss_openai_api_key :: string
  ss_assistant_id :: string
  ss_thread_id :: "string option"
  ss_enable_tts :: bool
  ss_selected_voice :: string

definition process_user_input ::
  "'s remote \<Rightarrow> env \<Rightarrow> string \<Rightarrow> session \<Rightarrow> 's \<Rightarrow> (session \<times> event list \<times> 's) option" where
  "process_user_input R E prompt sess s =
     (let sess1 = sess\<lparr>ss_messages := ss_messages sess @ [(''user'', prompt)]\<rparr>
      in case chat_with_assistant R E (ss_assistant_id sess1) prompt (ss_thread_id sess1) s of
           None \<Rightarrow> None
         | Some ((response, thread_id), evs, s1) \<Rightarrow>
             (let sess2 = sess1\<lparr>ss_thread_id := thread_id\<rparr>;
                  sess3 = sess2\<lparr>ss_messages := ss_messages sess2 @ [(''assistant'', response)]\<rparr>;
                  shown = [StWrite prompt] @ evs @ [StWrite response]
              in if ss_enable_tts sess3 then
                   (case text_to_speech R response (ss_selected_voice sess3) s1 of
                      (audio_data, evs', s2) \<Rightarrow>
                        Some (sess3,
                              shown @ evs' @
                                (case audio_data of
                                   Some a \<Rightarrow> if a \<noteq> [] then [StAudio a] else []
                                 | None \<Rightarrow> []),
                              s2))
                 else Some (sess3, shown, s1)))"

definition clear_chat :: "session \<Rightarrow> session" where
  "clear_chat sess = sess\<lparr>ss_messages := [], ss_thread_id := None\<rparr>"

section \<open>The loop, pass by pass\<close>

text \<open>
  \<open>loop_state R E thread_id n run s\<close> is where the \<^verbatim>\<open>while\<close> loop stands after at most
  \<open>n\<close> passes from \<open>run\<close>: the run at the head of the loop, or the exception that
  left it. The loop has \<open>halted\<close> there when an exception was raised or the
  status is none of the three the loop goes on with.
\<close>

fun loop_state :: "'s remote \<Rightarrow> env \<Rightarrow> string \<Rightarrow> nat \<Rightarrow> run \<Rightarrow> 's \<Rightarrow> (exn + run) \<times> 's" where
  "loop_state R E thread_id 0 run s = (Inr run, s)"
| "loop_state R E thread_id (Suc n) run s =
     (if active (status run) then
        (case loop_body R E thread_id run s of
           (Inl e, evs, s') \<Rightarrow> (Inl e, s')
         | (Inr run', evs, s') \<Rightarrow> loop_state R E thread_id n run' s')
      else (Inr run, s))"

definition halted :: "(exn + run) \<times> 's \<Rightarrow> bool" where
  "halted c = (case fst c of Inl e \<Rightarrow> True | Inr r \<Rightarrow> \<not> active (status r))"

text \<open>The events a pass of the loop can add, and those of the \<^verbatim>\<open>for\<close> loop in it.\<close>

definition loop_event :: "event \<Rightarrow> bool" where
  "loop_event ev =
     (case ev of
        HandlerCall n a \<Rightarrow> True
      | SubmitToolOutputs t r outs \<Rightarrow> True
      | Sleep n \<Rightarrow> True
      | RunsRetrieve t r \<Rightarrow> True
      | _ \<Rightarrow> False)"

definition handler_event :: "event \<Rightarrow> bool" where
  "handler_event ev = (case ev of HandlerCall n a \<Rightarrow> True | _ \<Rightarrow> False)"

section \<open>Test doubles\<close>

text \<open>
  A stub of the remote service for concrete runs: its state is the script of
  the runs it still has to answer with, one for each of \<^verbatim>\<open>runs.create\<close>,
  \<^verbatim>\<open>runs.retrieve\<close> and \<^verbatim>\<open>submit_tool_outputs\<close>; when the script is used up the
  call fails. The message log is fixed.
\<close>

definition next_run :: "run list \<Rightarrow> (exn + run) \<times> run list" where
  "next_run script =
     (case script of
        [] \<Rightarrow> (Inl ''Connection error.'', [])
      | r # rest \<Rightarrow> (Inr r, rest))"

definition stub_remote :: "message list \<Rightarrow> (run list) remote" where
  "stub_remote msgs =
     \<lparr>threads_create = (\<lambda>s. (Inr ''thread_1'', s)),
      messages_create = (\<lambda>thread_id r c s. (Inr (), s)),
      runs_create = (\<lambda>thread_id assistant_id s. next_run s),
      submit_tool_outputs = (\<lambda>thread_id rid outs s. next_run s),
      runs_retrieve = (\<lambda>thread_id rid s. next_run s),
      messages_list = (\<lambda>thread_id s. (Inr msgs, s)),
      speech_create = (\<lambda>model voice input fmt s. (Inr (''mp3:'' @ input), s))\<rparr>"

text \<open>
  A stub of the environment. \<open>stub_loads\<close> agrees with \<^verbatim>\<open>json.loads\<close> on the texts
  listed in it, and \<open>stub_repr\<close> with Python's text of a float on the numbers
  listed in it; the provider knows three tickers and six of the indices. Crude
  Oil and Silver have one day of history, with the closes 0.0 and NaN; Russell
  2000 went from 1.0 to 3.275, a difference that is not a float.
\<close>

definition stub_repr :: "pyfloat \<Rightarrow> string" where
  "stub_repr x =
     (if x = float_of_rat (15012 / 100) then ''150.12''
      else if x = float_of_rat (2875 / 100) then ''28.75''
      else if x = float_of_rat (41005 / 100) then ''410.05''
      else if x = Fin 4545 then ''4545.0''
      else if x = Fin 45 then ''45.0''
      else if x = Fin 1 then ''1.0''
      else if x = Fin 14000 then ''14000.0''
      else if x = NegZero then ''-0.0''
      else ''0.0'')"

definition stub_loads :: "string \<Rightarrow> exn + pyval" where
  "stub_loads txt =
     (if txt = ''{\"symbol\": \"AAPL\"}'' then Inr (PDict [(''symbol'', PStr ''AAPL'')])
      else if txt = ''{\"symbol\": \"msft\"}'' then Inr (PDict [(''symbol'', PStr ''msft'')])
      else if txt = ''{\"symbol\": \"ZZZZ\"}'' then Inr (PDict [(''symbol'', PStr ''ZZZZ'')])
      else if txt = ''{\"city\": \"Paris\"}'' then Inr (PDict [(''city'', PStr ''Paris'')])
      else if txt = ''{}'' then Inr (PDict [])
      else if txt = ''{bad'' then
        Inl ''Expecting property name enclosed in double quotes: line 1 column 2 (char 1)''
      else Inl ''Expecting value: line 1 column 1 (char 0)'')"

definition stub_env :: env where
  "stub_env =
     \<lparr>json_loads = stub_loads,
      float_repr = stub_repr,
      py_str = (\<lambda>v. case v of PInt i \<Rightarrow> dec_int i | PNone \<Rightarrow> ''None'' | _ \<Rightarrow> type_name v),
      ticker_info = (\<lambda>symbol.
        if symbol = ''AAPL'' then
          Inr [(''longName'', PStr ''Apple Inc.''), (''marketCap'', PInt 2300000000000),
               (''trailingPE'', PFloat (float_of_rat (2875 / 100))), (''volume'', PInt 51000000)]
        else if symbol = ''MSFT'' then
          Inr [(''longName'', PStr ''Microsoft Corporation''), (''volume'', PObj ''int64'')]
        else if symbol = ''FAIL'' then Inl ''HTTP Error 404: Not Found''
        else Inr []),
      ticker_history = (\<lambda>symbol period.
        if symbol = ''AAPL'' then Inr [float_of_rat (150123 / 1000)]
        else if symbol = ''MSFT'' then Inr [float_of_rat (41005 / 100)]
        else if symbol = ''^GSPC'' then Inr [Fin 4500, Fin 4545]
        else if symbol = ''^IXIC'' then Inr [Fin 14000]
        else if symbol = ''NVDA'' then Inl ''Too Many Requests. Rate limited. Try after a while.''
        else if symbol = ''CL=F'' then Inr [Fin 0]
        else if symbol = ''SI=F'' then Inr [NaN]
        else if symbol = ''^RUT'' then Inr [Fin 1, float_of_rat (3275 / 1000)]
        else Inr [])\<rparr>"

definition completed_run :: run where
  "completed_run = \<lparr>run_id = ''run_1'', status = ''completed'', required_action = None\<rparr>"

definition assistant_reply :: "message list" where
  "assistant_reply = [\<lparr>role = ''assistant'', content = [TextBlock ''Apple trades at 150.12'']\<rparr>]"

definition batch_calls :: "tool_call list" where
  "batch_calls =
     [\<lparr>tc_id = ''call_1'', tc_function_name = ''get_stock_data'',
       tc_function_arguments = ''{\"symbol\": \"AAPL\"}''\<rparr>,
      \<lparr>tc_id = ''call_2'', tc_function_name = ''get_stock_data'',
       tc_function_arguments = ''{\"symbol\": \"msft\"}''\<rparr>,
      \<lparr>tc_id = ''call_3'', tc_function_name = ''get_weather'',
       tc_function_arguments = ''{\"city\": \"Paris\"}''\<rparr>]"

definition batch_run :: run where
  "batch_run =
     \<lparr>run_id = ''run_1'', status = ''requires_action'', required_action = Some batch_calls\<rparr>"

definition bad_batch_run :: run where
  "bad_batch_run =
     \<lparr>run_id = ''run_1'', status = ''requires_action'',
      required_action = Some
        [\<lparr>tc_id = ''call_1'', tc_function_name = ''get_stock_data'',
          tc_function_arguments = ''{\"symbol\": \"AAPL\"}''\<rparr>,
         \<lparr>tc_id = ''call_2'', tc_function_name = ''get_market_overview'',
          tc_function_arguments = ''{bad''\<rparr>]\<rparr>"

definition weather_bad_run :: run where
  "weather_bad_run =
     \<lparr>run_id = ''run_1'', status = ''requires_action'',
      required_action = Some
        [\<lparr>tc_id = ''call_1'', tc_function_name = ''get_weather'',
          tc_function_arguments = ''{bad''\<rparr>]\<rparr>"

definition failed_run :: run where
  "failed_run = \<lparr>run_id = ''run_1'', status = ''failed'', required_action = None\<rparr>"

definition queued_run :: run where
  "queued_run = \<lparr>run_id = ''run_1'', status = ''queued'', required_action = None\<rparr>"

definition expired_run :: run where
  "expired_run = \<lparr>run_id = ''run_1'', status = ''expired'', required_action = None\<rparr>"

definition in_progress_run :: run where
  "in_progress_run = \<lparr>run_id = ''run_1'', status = ''in_progress'', required_action = None\<rparr>"

definition stock_run :: run where
  "stock_run =
     \<lparr>run_id = ''run_1'', status = ''requires_action'',
      required_action = Some
        [\<lparr>tc_id = ''call_1'', tc_function_name = ''get_stock_data'',
          tc_function_arguments = ''{\"symbol\": \"AAPL\"}''\<rparr>]\<rparr>"

definition stuck_remote :: "unit remote" where
  "stuck_remote =
     \<lparr>threads_create = (\<lambda>s. (Inr ''thread_1'', s)),
      messages_create = (\<lambda>thread_id r c s. (Inr (), s)),
      runs_create = (\<lambda>thread_id assistant_id s. (Inr queued_run, s)),
      submit_tool_outputs = (\<lambda>thread_id rid outs s. (Inr queued_run, s)),
      runs_retrieve = (\<lambda>thread_id rid s. (Inr queued_run, s)),
      messages_list = (\<lambda>thread_id s. (Inr [], s)),
      speech_create = (\<lambda>model voice input fmt s. (Inr [], s))\<rparr>"

definition failing_remote :: "string \<Rightarrow> (run list) remote" where
  "failing_remote op =
     \<lparr>threads_create = (\<lambda>s.
        if op = ''threads.create'' then (Inl ''Connection error.'', s) else (Inr ''thread_1'', s)),
      messages_create = (\<lambda>thread_id r c s.
        if op = ''messages.create'' then (Inl ''Connection error.'', s) else (Inr (), s)),
      runs_create = (\<lambda>thread_id assistant_id s.
        if op = ''runs.create'' then (Inl ''Connection error.'', s) else next_run s),
      submit_tool_outputs = (\<lambda>thread_id rid outs s.
        if op = ''runs.submit_tool_outputs'' then (Inl ''Connection error.'', s) else next_run s),
      runs_retrieve = (\<lambda>thread_id rid s.
        if op = ''runs.retrieve'' then (Inl ''Connection error.'', s) else next_run s),
      messages_list = (\<lambda>thread_id s.
        if op = ''messages.list'' then (Inl ''Connection error.'', s) else (Inr assistant_reply, s)),
      speech_create = (\<lambda>model voice input fmt s.
        if op = ''audio.speech.create'' then (Inl ''Connection error.'', s)
        else (Inr (''mp3:'' @ input), s))\<rparr>"

definition new_session :: session where
  "new_session =
     \<lparr>ss_messages = [], ss_openai_api_key = ''sk-0123456789abcdefghij'', ss_assistant_id = ''asst_1'',
      ss_thread_id = None, ss_enable_tts = False, ss_selected_voice = ''alloy''\<rparr>"

text \<open>The texts sent to speech synthesis, read off the calls made.\<close>

definition speech_inputs :: "event list \<Rightarrow> string list" where
  "speech_inputs evs =
     concat (map (\<lambda>ev. case ev of SpeechCreate m v input f \<Rightarrow> [input] | _ \<Rightarrow> []) evs)"

section \<open>Facts about the model\<close>

subsection \<open>Evaluating float arithmetic\<close>

lemma quotient_of_ratio:
  "coprime n d \<Longrightarrow> 0 < d \<Longrightarrow> quotient_of (of_int n / of_int d) = (n, d)"
  by (metis Fract_of_int_quotient quotient_of_Fract normalize_stable)

lemma gcd_step: "gcd (numeral a) (numeral b :: int) = gcd (numeral b) (numeral a mod numeral b)"
  by (metis gcd_red_int)

lemma quotient_of_numeral_ratio:
  "gcd (numeral a) (numeral b :: int) = 1 \<Longrightarrow>
     quotient_of (numeral a / numeral b) = (numeral a, numeral b)"
  "gcd (numeral a) (numeral b :: int) = 1 \<Longrightarrow>
     quotient_of (- (numeral a / numeral b)) = (- numeral a, numeral b)"
  "quotient_of (1 / numeral b) = (1, numeral b)"
  "quotient_of (- (1 / numeral b)) = (- 1, numeral b)"
  using quotient_of_ratio [of "numeral a" "numeral b"]
    quotient_of_ratio [of "- numeral a" "numeral b"]
    quotient_of_ratio [of 1 "numeral b"] quotient_of_ratio [of "- 1" "numeral b"]
  by (simp_all add: coprime_iff_gcd_eq_1)

lemmas float_eval = float_of_rat_def float_of_ratio_def float_of_parts_def round_ratio_def
  round_half_even_def scaled_le_def pow2_def round_hundredths_def py_round2_def
  fsub_def fmul_def fdiv_def is_zero_def is_inf_def sign_bit_def float_value_def
  Let_def gcd_step quotient_of_numeral_ratio signed_zero_def signed_inf_def

lemma float_literals:
  "float_of_rat (150123 / 1000) = Fin (2640991745545863 / 17592186044416)"
  "float_of_rat (15012 / 100) = Fin (1320469484493865 / 8796093022208)"
  "float_of_rat (41005 / 100) = Fin (7213675887512781 / 17592186044416)"
  "float_of_rat (2875 / 100) = Fin (115 / 4)"
  "float_of_rat (3275 / 1000) = Fin (7374644389819187 / 2251799813685248)"
  "float_of_rat (327 / 100) = Fin (7363385390750761 / 2251799813685248)"
  "float_of_rat (227 / 100) = Fin (5111585577065513 / 2251799813685248)"
  by (simp_all add: float_eval)

lemma round_half_even_near:
  assumes "0 < d"
  shows "\<bar>(of_int (round_half_even n d) :: rat) - of_int n / of_int d\<bar> \<le> 1 / 2"
proof -
  define q r where "q = n div d" and "r = n mod d"
  have n: "n = d * q + r" by (simp add: q_def r_def)
  have r0: "0 \<le> r" and r1: "r < d" using assms by (simp_all add: r_def)
  have d': "(0::rat) < of_int d" using assms by simp
  have nd: "(of_int n :: rat) / of_int d = of_int q + of_int r / of_int d"
    using assms by (simp add: n field_simps)
  have frac0: "(0::rat) \<le> of_int r / of_int d" using r0 d' by simp
  have frac1: "(of_int r :: rat) / of_int d < 1" using r1 d' by simp
  consider "2 * r < d" | "d < 2 * r" | "2 * r = d" by linarith
  then show ?thesis
  proof cases
    case 1
    then have h: "round_half_even n d = q"
      by (simp add: round_half_even_def Let_def q_def r_def)
    have "(of_int (2 * r) :: rat) < of_int d" using 1 by (simp only: of_int_less_iff)
    then have "(of_int r :: rat) / of_int d < 1 / 2" using d' by (simp add: field_simps)
    then show ?thesis using frac0 by (simp add: h nd)
  next
    case 2
    then have h: "round_half_even n d = q + 1"
      by (simp add: round_half_even_def Let_def q_def r_def)
    have "(of_int d :: rat) < of_int (2 * r)" using 2 by (simp only: of_int_less_iff)
    then have "1 / 2 < (of_int r :: rat) / of_int d" using d' by (simp add: field_simps)
    then show ?thesis using frac1 by (simp add: h nd)
  next
    case 3
    then have h: "round_half_even n d = q \<or> round_half_even n d = q + 1"
      by (simp add: round_half_even_def Let_def q_def r_def)
    have "(of_int (2 * r) :: rat) = of_int d" using 3 by (simp only: of_int_eq_iff)
    then have e: "(of_int r :: rat) / of_int d = 1 / 2" using d' by (simp add: field_simps)
    from h show ?thesis
    proof
      assume "round_half_even n d = q"
      then show ?thesis by (simp add: nd e)
    next
      assume "round_half_even n d = q + 1"
      then show ?thesis by (simp add: nd e)
    qed
  qed
qed

lemma round_hundredths_near: "\<bar>of_int (round_hundredths q) / 100 - q\<bar> \<le> 1 / 200"
proof -
  obtain n d where nd: "quotient_of q = (n, d)" by (cases "quotient_of q") auto
  have d: "0 < d" using quotient_of_denom_pos [OF nd] .
  have q: "q = of_int n / of_int d" using quotient_of_div [OF nd] .
  define h where "h = round_half_even (n * 100) d"
  have rh: "round_hundredths q = h"
    by (simp add: round_hundredths_def nd h_def)
  have near: "\<bar>(of_int h :: rat) - of_int n * 100 / of_int d\<bar> \<le> 1 / 2"
    using round_half_even_near [OF d, of "n * 100"] by (simp add: h_def)
  have eq: "of_int h / 100 - q = ((of_int h :: rat) - of_int n * 100 / of_int d) / 100"
    by (simp add: q diff_divide_distrib)
  have "\<bar>of_int h / 100 - q\<bar> = \<bar>(of_int h :: rat) - of_int n * 100 / of_int d\<bar> / 100"
    by (simp only: eq abs_divide)
  then have "\<bar>of_int h / 100 - q\<bar> \<le> 1 / 200"
    using near by simp
  then show ?thesis by (simp only: rh)
qed

lemma py_round2_special:
  "py_round2 NaN = NaN" "py_round2 PosInf = PosInf" "py_round2 NegInf = NegInf"
  "py_round2 NegZero = NegZero" "py_round2 (Fin 0) = Fin 0"
  by (simp_all add: py_round2_def round_hundredths_def round_half_even_def signed_zero_def)

lemma one_day_arithmetic:
  "fsub (Fin q) (Fin q) = Fin 0"
  "q \<noteq> 0 \<Longrightarrow> fdiv (Fin 0) (Fin q) = Inr (signed_zero (q < 0))"
  "fmul (signed_zero b) (Fin 100) = signed_zero b"
  "py_round2 (signed_zero b) = signed_zero b"
  by (simp_all add: fsub_def fdiv_def fmul_def is_inf_def is_zero_def float_value_def
      sign_bit_def signed_zero_def py_round2_special)

lemma one_day_special:
  "c = NaN \<or> c = PosInf \<or> c = NegInf \<Longrightarrow> fsub c c = NaN"
  "c = NaN \<or> c = PosInf \<or> c = NegInf \<Longrightarrow> fdiv NaN c = Inr NaN"
  "fmul NaN (Fin 100) = NaN"
  "c = NaN \<or> c = PosInf \<or> c = NegInf \<Longrightarrow> py_round2 c = c"
  by (auto simp: fsub_def fdiv_def fmul_def is_inf_def is_zero_def py_round2_special)

subsection \<open>The tool loop and the polling loop\<close>

lemma json_dumps_error_dict:
  "json_dumps fr (error_dict e) = Inr (''{'' @ json_string ''error'' @ '': '' @ json_string e @ ''}'')"
  by (simp add: error_dict_def)

lemma handle_function_call_total: "\<exists>out. handle_function_call E n a = Inr out"
  by (simp add: handle_function_call_def json_dumps_error_dict split: sum.splits)

lemma tool_outputs_loop_Inr:
  "tool_outputs_loop E calls outs evs = (Inr outs', evs') \<Longrightarrow>
     map tool_call_id outs' = map tool_call_id outs @ map tc_id calls \<and>
     (\<exists>hevs. evs' = evs @ hevs \<and> (\<forall>ev\<in>set hevs. handler_event ev))"
proof (induction calls arbitrary: outs evs)
  case Nil
  then show ?case by simp
next
  case (Cons tc calls)
  then show ?case
    by (fastforce simp: handler_event_def split: sum.splits)
qed

lemma tool_outputs_loop_parse:
  "(\<forall>tc\<in>set calls. \<exists>v. json_loads E (tc_function_arguments tc) = Inr v) \<Longrightarrow>
     \<exists>outs' evs'. tool_outputs_loop E calls outs evs = (Inr outs', evs')"
proof (induction calls arbitrary: outs evs)
  case Nil
  then show ?case by simp
next
  case (Cons tc calls)
  obtain v where v: "json_loads E (tc_function_arguments tc) = Inr v"
    using Cons.prems by auto
  obtain out where out: "handle_function_call E (tc_function_name tc) v = Inr out"
    using handle_function_call_total by blast
  show ?case using Cons.IH Cons.prems by (simp add: v out)
qed

lemma tool_outputs_loop_fail:
  "tc \<in> set calls \<Longrightarrow> json_loads E (tc_function_arguments tc) = Inl e \<Longrightarrow>
     \<exists>e' evs'. tool_outputs_loop E calls outs evs = (Inl e', evs') \<and>
        (\<exists>hevs. evs' = evs @ hevs \<and> (\<forall>ev\<in>set hevs. handler_event ev))"
proof (induction calls arbitrary: outs evs)
  case Nil
  then show ?case by simp
next
  case (Cons c calls)
  show ?case
  proof (cases "json_loads E (tc_function_arguments c)")
    case (Inl e0)
    then show ?thesis by simp
  next
    case (Inr v)
    then have "tc \<in> set calls" using Cons.prems by auto
    obtain out where out: "handle_function_call E (tc_function_name c) v = Inr out"
      using handle_function_call_total by blast
    from Cons.IH [OF \<open>tc \<in> set calls\<close> Cons.prems(2)]
    obtain e' evs' hevs where
      "tool_outputs_loop E calls (outs @ [\<lparr>tool_call_id = tc_id c, output_str = out\<rparr>])
         (evs @ [HandlerCall (tc_function_name c) v]) = (Inl e', evs')"
      "evs' = (evs @ [HandlerCall (tc_function_name c) v]) @ hevs" "\<forall>ev\<in>set hevs. handler_event ev"
      by blast
    then show ?thesis using Inr out by (auto simp: handler_event_def)
  qed
qed

lemma tool_outputs_loop_events:
  "tool_outputs_loop E calls outs evs = (res, evs') \<Longrightarrow>
     \<exists>hevs. evs' = evs @ hevs \<and> (\<forall>ev\<in>set hevs. handler_event ev)"
proof (induction calls arbitrary: outs evs)
  case Nil
  then show ?case by simp
next
  case (Cons tc calls)
  then show ?case
    by (fastforce simp: handler_event_def split: sum.splits)
qed

lemma handler_event_loop_event: "handler_event ev \<Longrightarrow> loop_event ev"
  by (cases ev) (simp_all add: handler_event_def loop_event_def)

lemma loop_body_events:
  assumes "loop_body R E t run s = (res, evs, s')"
  shows "\<forall>ev\<in>set evs. loop_event ev"
proof (cases "status run = ''requires_action''")
  case False
  then show ?thesis using assms
    by (auto simp: loop_body_def loop_event_def split: prod.splits)
next
  case True
  show ?thesis
  proof (cases "required_action run")
    case None
    then show ?thesis using assms True by (simp add: loop_body_def)
  next
    case (Some calls)
    obtain r hevs where tol: "tool_outputs_loop E calls [] [] = (r, hevs)"
      by (cases "tool_outputs_loop E calls [] []") auto
    from tool_outputs_loop_events [OF tol]
    have h: "\<forall>ev\<in>set hevs. loop_event ev"
      by (auto intro: handler_event_loop_event)
    show ?thesis
    proof (cases r)
      case (Inl e)
      then show ?thesis using assms True Some tol h by (simp add: loop_body_def)
    next
      case (Inr outs)
      then show ?thesis using assms True Some tol h
        by (auto simp: loop_body_def loop_event_def split: prod.splits)
    qed
  qed
qed

lemma poll_loop_events_raw:
  "poll_loop R E t run evs s = Some y \<Longrightarrow>
     \<exists>new. fst (snd y) = evs @ new \<and> (\<forall>ev\<in>set new. loop_event ev)"
proof (induction rule: poll_loop.raw_induct[rotated 1, consumes 1])
  case (1 poll_loop R E t run evs s y)
  show ?case
  proof (cases "active (status run)")
    case False
    then show ?thesis using "1.hyps" by auto
  next
    case True
    obtain r bevs s1 where b: "loop_body R E t run s = (r, bevs, s1)"
      by (cases "loop_body R E t run s") auto
    have be: "\<forall>ev\<in>set bevs. loop_event ev" using loop_body_events [OF b] .
    show ?thesis
    proof (cases r)
      case (Inl e)
      then show ?thesis using "1.hyps" True b be by auto
    next
      case (Inr run')
      then have "poll_loop R E t run' (evs @ bevs) s1 = Some y"
        using "1.hyps" True b by simp
      from "1.IH" [OF this] obtain new where
        "fst (snd y) = (evs @ bevs) @ new" "\<forall>ev\<in>set new. loop_event ev" by blast
      then show ?thesis using be by (intro exI [of _ "bevs @ new"]) auto
    qed
  qed
qed

lemma poll_loop_events:
  "poll_loop R E t run evs s = Some (res, evs', s') \<Longrightarrow>
     \<exists>new. evs' = evs @ new \<and> (\<forall>ev\<in>set new. loop_event ev)"
  using poll_loop_events_raw [of R E t run evs s "(res, evs', s')"] by simp

lemma poll_loop_halts:
  "halted (loop_state R E t n run s) \<Longrightarrow>
     \<exists>evs'. poll_loop R E t run evs s = Some (fst (loop_state R E t n run s), evs', snd (loop_state R E t n run s))"
proof (induction n arbitrary: run evs s)
  case 0
  then show ?case by (subst poll_loop.simps) (simp add: halted_def)
next
  case (Suc n)
  show ?case
  proof (cases "active (status run)")
    case False
    then show ?thesis by (subst poll_loop.simps) simp
  next
    case True
    obtain r bevs s1 where b: "loop_body R E t run s = (r, bevs, s1)"
      by (cases "loop_body R E t run s") auto
    show ?thesis
    proof (cases r)
      case (Inl e)
      then show ?thesis using True b by (subst poll_loop.simps) simp
    next
      case (Inr run')
      then have "halted (loop_state R E t n run' s1)" using Suc.prems True b by simp
      from Suc.IH [OF this, of "evs @ bevs"] show ?thesis
        using True b Inr by (subst poll_loop.simps) simp
    qed
  qed
qed

lemma poll_loop_Some_halted_raw:
  "poll_loop R E t run evs s = Some y \<Longrightarrow>
     \<exists>n. halted (loop_state R E t n run s) \<and> loop_state R E t n run s = (fst y, snd (snd y))"
proof (induction rule: poll_loop.raw_induct[rotated 1, consumes 1])
  case (1 poll_loop R E t run evs s y)
  show ?case
  proof (cases "active (status run)")
    case False
    then show ?thesis using "1.hyps" by (intro exI [of _ 0]) (auto simp: halted_def)
  next
    case True
    obtain r bevs s1 where b: "loop_body R E t run s = (r, bevs, s1)"
      by (cases "loop_body R E t run s") auto
    show ?thesis
    proof (cases r)
      case (Inl e)
      then show ?thesis using "1.hyps" True b
        by (intro exI [of _ "Suc 0"]) (auto simp: halted_def)
    next
      case (Inr run')
      then have "poll_loop R E t run' (evs @ bevs) s1 = Some y"
        using "1.hyps" True b by simp
      from "1.IH" [OF this] obtain n where
        "halted (loop_state R E t n run' s1)"
        "loop_state R E t n run' s1 = (fst y, snd (snd y))" by blast
      then show ?thesis using True b Inr by (intro exI [of _ "Suc n"]) simp
    qed
  qed
qed

lemma poll_loop_Some_halted:
  "poll_loop R E t run evs s = Some (res, evs', s') \<Longrightarrow>
     \<exists>n. halted (loop_state R E t n run s) \<and> loop_state R E t n run s = (res, s')"
  using poll_loop_Some_halted_raw [of R E t run evs s "(res, evs', s')"] by simp

lemma poll_loop_None:
  "(\<forall>n. \<not> halted (loop_state R E t n run s)) \<Longrightarrow> poll_loop R E t run evs s = None"
  by (metis poll_loop_Some_halted not_Some_eq prod_cases3)

lemma tool_outputs_loop_outputs:
  "tool_outputs_loop E calls outs0 evs = (Inr outs, evs') \<Longrightarrow>
     \<exists>new. outs = outs0 @ new \<and> length new = length calls \<and>
       (\<forall>i<length calls. \<exists>v out.
          json_loads E (tc_function_arguments (calls ! i)) = Inr v \<and>
          handle_function_call E (tc_function_name (calls ! i)) v = Inr out \<and>
          new ! i = \<lparr>tool_call_id = tc_id (calls ! i), output_str = out\<rparr>)"
proof (induction calls arbitrary: outs0 evs)
  case Nil
  then show ?case by simp
next
  case (Cons c calls)
  from Cons.prems obtain v where v: "json_loads E (tc_function_arguments c) = Inr v"
    by (cases "json_loads E (tc_function_arguments c)") auto
  from Cons.prems v obtain out where out: "handle_function_call E (tc_function_name c) v = Inr out"
    by (cases "handle_function_call E (tc_function_name c) v") auto
  let ?o = "\<lparr>tool_call_id = tc_id c, output_str = out\<rparr>"
  have rec: "tool_outputs_loop E calls (outs0 @ [?o]) (evs @ [HandlerCall (tc_function_name c) v])
               = (Inr outs, evs')"
    using Cons.prems v out by simp
  from Cons.IH [OF rec] obtain new where new:
    "outs = (outs0 @ [?o]) @ new" "length new = length calls"
    "\<forall>i<length calls. \<exists>v out.
        json_loads E (tc_function_arguments (calls ! i)) = Inr v \<and>
        handle_function_call E (tc_function_name (calls ! i)) v = Inr out \<and>
        new ! i = \<lparr>tool_call_id = tc_id (calls ! i), output_str = out\<rparr>"
    by blast
  have "\<forall>i<length (c # calls). \<exists>v out.
          json_loads E (tc_function_arguments ((c # calls) ! i)) = Inr v \<and>
          handle_function_call E (tc_function_name ((c # calls) ! i)) v = Inr out \<and>
          (?o # new) ! i = \<lparr>tool_call_id = tc_id ((c # calls) ! i), output_str = out\<rparr>"
  proof (intro allI impI)
    fix i assume "i < length (c # calls)"
    then show "\<exists>v out.
          json_loads E (tc_function_arguments ((c # calls) ! i)) = Inr v \<and>
          handle_function_call E (tc_function_name ((c # calls) ! i)) v = Inr out \<and>
          (?o # new) ! i = \<lparr>tool_call_id = tc_id ((c # calls) ! i), output_str = out\<rparr>"
      using v out new(3) by (cases i) auto
  qed
  then show ?case using new(1,2) by (intro exI [of _ "?o # new"]) simp
qed

lemma loop_body_requires_action:
  assumes "status run = ''requires_action''" "required_action run = Some calls"
    and "tool_outputs_loop E calls [] [] = (Inr outs, hevs)"
  shows "loop_body R E t run s =
           (fst (submit_tool_outputs R t (run_id run) outs s),
            hevs @ [SubmitToolOutputs t (run_id run) outs],
            snd (submit_tool_outputs R t (run_id run) outs s))"
  using assms by (simp add: loop_body_def split: prod.splits)

lemma loop_body_parse_error:
  assumes "status run = ''requires_action''" "required_action run = Some calls"
    and "tool_outputs_loop E calls [] [] = (Inl e, hevs)"
  shows "loop_body R E t run s = (Inl e, hevs, s)"
  using assms by (simp add: loop_body_def)

lemma handler_event_not_submit:
  "\<forall>ev\<in>set hevs. handler_event ev \<Longrightarrow> SubmitToolOutputs a b c \<notin> set hevs"
  by (auto simp: handler_event_def)

lemma poll_loop_continue:
  assumes "active (status run)" "loop_body R E t run s = (Inr run', bevs, s')"
  shows "poll_loop R E t run evs s = poll_loop R E t run' (evs @ bevs) s'"
  using assms by (subst poll_loop.simps) simp

lemma handle_unknown:
  assumes "function_name \<noteq> ''get_stock_data''" "function_name \<noteq> ''get_market_overview''"
  shows "handle_function_call E function_name arguments
           = Inr ''{\"error\": \"Function not implemented\"}''"
  using assms
  by (simp add: handle_function_call_def handle_function_call_try_def error_dict_def
      json_string_def escape_char_def)

lemma stub_remote_simps:
  "threads_create (stub_remote m) s = (Inr ''thread_1'', s)"
  "messages_create (stub_remote m) t r c s = (Inr (), s)"
  "runs_create (stub_remote m) t a s = next_run s"
  "submit_tool_outputs (stub_remote m) t rid outs s = next_run s"
  "runs_retrieve (stub_remote m) t rid s = next_run s"
  "messages_list (stub_remote m) t s = (Inr m, s)"
  by (simp_all add: stub_remote_def)

lemma stub_env_simps:
  "json_loads stub_env = stub_loads"
  "float_repr stub_env = stub_repr"
  by (simp_all add: stub_env_def)

lemma chat_with_assistant_loop:
  assumes "ensure_thread R thread_id s = (Inr t, evs0, s1)"
    and "messages_create R t ''user'' msg s1 = (Inr u, s2)"
    and "runs_create R t a s2 = (Inr run, s3)"
  shows "chat_with_assistant R E a msg thread_id s =
     (case poll_loop R E t run (evs0 @ [MessagesCreate t ''user'' msg, RunsCreate t a]) s3 of
        None \<Rightarrow> None
      | Some (Inl e, evs', s4) \<Rightarrow> Some ((''Error: '' @ e, Some t), evs', s4)
      | Some (Inr run', evs', s4) \<Rightarrow>
          if status run' = ''completed'' then
            (case messages_list R t s4 of
               (Inl e, s5) \<Rightarrow> Some ((''Error: '' @ e, Some t), evs' @ [MessagesList t], s5)
             | (Inr msgs, s5) \<Rightarrow>
                 (case first_text msgs of
                    Inl e \<Rightarrow> Some ((''Error: '' @ e, Some t), evs' @ [MessagesList t], s5)
                  | Inr response \<Rightarrow> Some ((response, Some t), evs' @ [MessagesList t], s5)))
          else Some ((''Error: Run failed with status '' @ status run', Some t), evs', s4))"
  using assms
  by (simp add: chat_with_assistant_def run_to_answer_def
      split: option.splits prod.splits sum.splits)

lemma ensure_thread_stub_None:
  "ensure_thread (stub_remote m) None s = (Inr ''thread_1'', [ThreadsCreate], s)"
  by (simp add: ensure_thread_def truthy_def stub_remote_simps)

lemma ensure_thread_events:
  "ensure_thread R thread_id s = (res, evs0, s1) \<Longrightarrow> evs0 = [] \<or> evs0 = [ThreadsCreate]"
  by (auto simp: ensure_thread_def split: if_splits prod.splits)

lemma loop_event_simps:
  "\<not> loop_event ThreadsCreate"
  "\<not> loop_event (MessagesCreate t r c)"
  "\<not> loop_event (RunsCreate t a)"
  "\<not> loop_event (MessagesList t)"
  "loop_event (HandlerCall n v)"
  by (simp_all add: loop_event_def)

lemma poll_loop_exit:
  "\<not> active (status run) \<Longrightarrow> poll_loop R E t run evs s = Some (Inr run, evs, s)"
  by (subst poll_loop.simps) simp

lemma poll_loop_final_status:
  assumes "poll_loop R E t run evs s = Some (Inr final, evs', s')"
  shows "\<not> active (status final)"
proof -
  from poll_loop_Some_halted [OF assms] obtain n where
    "halted (loop_state R E t n run s)" "loop_state R E t n run s = (Inr final, s')" by blast
  then show ?thesis by (simp add: halted_def)
qed

lemma loop_state_Suc:
  "loop_state R E t (Suc n) run s =
     (case loop_state R E t n run s of
        (Inl e, s') \<Rightarrow> (Inl e, s')
      | (Inr cur, sc) \<Rightarrow> loop_state R E t (Suc 0) cur sc)"
proof (induction n arbitrary: run s)
  case 0
  then show ?case by simp
next
  case (Suc n)
  show ?case
  proof (cases "active (status run)")
    case False
    then show ?thesis by simp
  next
    case True
    obtain r bevs s1 where b: "loop_body R E t run s = (r, bevs, s1)"
      by (cases "loop_body R E t run s") auto
    show ?thesis
    proof (cases r)
      case (Inl e)
      then show ?thesis using True b by simp
    next
      case (Inr run')
      have "loop_state R E t (Suc (Suc n)) run s = loop_state R E t (Suc n) run' s1"
        using True b Inr by simp
      also have "\<dots> = (case loop_state R E t n run' s1 of
                          (Inl e, s') \<Rightarrow> (Inl e, s')
                        | (Inr cur, sc) \<Rightarrow> loop_state R E t (Suc 0) cur sc)"
        by (rule Suc.IH)
      also have "loop_state R E t n run' s1 = loop_state R E t (Suc n) run s"
        using True b Inr by simp
      finally show ?thesis .
    qed
  qed
qed

lemma poll_loop_None_iff:
  "poll_loop R E t run evs s = None \<longleftrightarrow> (\<forall>n. \<not> halted (loop_state R E t n run s))"
proof
  assume n: "poll_loop R E t run evs s = None"
  show "\<forall>n. \<not> halted (loop_state R E t n run s)"
  proof (intro allI notI)
    fix k assume "halted (loop_state R E t k run s)"
    from poll_loop_halts [OF this, of evs] n show False by simp
  qed
next
  assume "\<forall>n. \<not> halted (loop_state R E t n run s)"
  then show "poll_loop R E t run evs s = None" by (rule poll_loop_None)
qed

lemma chat_with_assistant_halted:
  assumes e: "ensure_thread R thread_id s = (Inr t, evs0, s1)"
    and m: "messages_create R t ''user'' msg s1 = (Inr u, s2)"
    and r: "runs_create R t a s2 = (Inr run, s3)"
    and h: "halted (loop_state R E t n run s3)"
  shows "\<exists>evs'.
     chat_with_assistant R E a msg thread_id s =
       (case loop_state R E t n run s3 of
          (Inl e, s4) \<Rightarrow> Some ((''Error: '' @ e, Some t), evs', s4)
        | (Inr final, s4) \<Rightarrow>
            if status final = ''completed'' then
              (case messages_list R t s4 of
                 (Inl e, s5) \<Rightarrow> Some ((''Error: '' @ e, Some t), evs' @ [MessagesList t], s5)
               | (Inr msgs, s5) \<Rightarrow>
                   (case first_text msgs of
                      Inl e \<Rightarrow> Some ((''Error: '' @ e, Some t), evs' @ [MessagesList t], s5)
                    | Inr response \<Rightarrow> Some ((response, Some t), evs' @ [MessagesList t], s5)))
            else Some ((''Error: Run failed with status '' @ status final, Some t), evs', s4))"
proof -
  from poll_loop_halts [OF h, of "evs0 @ [MessagesCreate t ''user'' msg, RunsCreate t a]"]
  obtain evs' where
    p: "poll_loop R E t run (evs0 @ [MessagesCreate t ''user'' msg, RunsCreate t a]) s3
          = Some (fst (loop_state R E t n run s3), evs', snd (loop_state R E t n run s3))"
    by blast
  show ?thesis
    using chat_with_assistant_loop [OF e m r, of E] p
    by (intro exI [of _ evs']) (simp split: prod.splits sum.splits)
qed

lemma stuck_remote_never_halts:
  "loop_state stuck_remote E t n queued_run () = (Inr queued_run, ())"
proof (induction n)
  case 0
  then show ?case by simp
next
  case (Suc n)
  have "loop_body stuck_remote E t queued_run ()
          = (Inr queued_run, [Sleep 1, RunsRetrieve t (run_id queued_run)], ())"
    by (simp add: loop_body_def stuck_remote_def queued_run_def)
  moreover have "active (status queued_run)"
    by (simp add: queued_run_def active_def)
  ultimately show ?case using Suc by simp
qed

lemma loop_state_raise:
  assumes "loop_state R E t n run s = (Inr cur, sc)" and "active (status cur)"
    and "loop_body R E t cur sc = (Inl e, bevs, s')"
  shows "loop_state R E t (Suc n) run s = (Inl e, s')"
  using assms by (simp add: loop_state_Suc del: loop_state.simps) simp

lemma failing_remote_simps:
  "threads_create (failing_remote op) s =
     (if op = ''threads.create'' then (Inl ''Connection error.'', s) else (Inr ''thread_1'', s))"
  "messages_create (failing_remote op) t r c s =
     (if op = ''messages.create'' then (Inl ''Connection error.'', s) else (Inr (), s))"
  "runs_create (failing_remote op) t a s =
     (if op = ''runs.create'' then (Inl ''Connection error.'', s) else next_run s)"
  "submit_tool_outputs (failing_remote op) t rid outs s =
     (if op = ''runs.submit_tool_outputs'' then (Inl ''Connection error.'', s) else next_run s)"
  "runs_retrieve (failing_remote op) t rid s =
     (if op = ''runs.retrieve'' then (Inl ''Connection error.'', s) else next_run s)"
  "messages_list (failing_remote op) t s =
     (if op = ''messages.list'' then (Inl ''Connection error.'', s) else (Inr assistant_reply, s))"
  by (simp_all add: failing_remote_def)

lemma chat_with_assistant_Some:
  assumes e: "ensure_thread R thread_id s = (Inr t, evs0, s1)"
    and m: "messages_create R t ''user'' msg s1 = (Inr u, s2)"
    and r: "runs_create R t a s2 = (Inr run, s3)"
    and p: "poll_loop R E t run (evs0 @ [MessagesCreate t ''user'' msg, RunsCreate t a]) s3
              = Some (res, evs', s4)"
  shows "\<exists>response evs'' s'. chat_with_assistant R E a msg thread_id s
           = Some ((response, Some t), evs'', s')"
proof (cases res)
  case (Inl e)
  then show ?thesis using chat_with_assistant_loop [OF e m r, of E] p by simp
next
  case (Inr final)
  show ?thesis
  proof (cases "status final = ''completed''")
    case False
    then show ?thesis using chat_with_assistant_loop [OF e m r, of E] p Inr by simp
  next
    case True
    obtain lr s5 where l: "messages_list R t s4 = (lr, s5)"
      by (cases "messages_list R t s4") auto
    show ?thesis
    proof (cases lr)
      case (Inl e)
      then show ?thesis using chat_with_assistant_loop [OF e m r, of E] p Inr True l by simp
    next
      case msgs: (Inr msgs)
      show ?thesis
      proof (cases "first_text msgs")
        case (Inl e)
        then show ?thesis
          using chat_with_assistant_loop [OF e m r, of E] p Inr True l msgs by simp
      next
        case ft: (Inr response)
        then show ?thesis
          using chat_with_assistant_loop [OF e m r, of E] p Inr True l msgs by simp
      qed
    qed
  qed
qed

lemma run_to_answer_events:
  assumes "run_to_answer R E a msg t evs0 s = Some (res, evs', s')"
  shows "\<exists>new. evs' = evs0 @ new \<and> ThreadsCreate \<notin> set new"
proof -
  obtain mr s1 where m: "messages_create R t ''user'' msg s = (mr, s1)"
    by (cases "messages_create R t ''user'' msg s") auto
  show ?thesis
  proof (cases mr)
    case (Inl e)
    then show ?thesis using assms m by (auto simp: run_to_answer_def)
  next
    case (Inr u)
    obtain rr s2 where r: "runs_create R t a s1 = (rr, s2)"
      by (cases "runs_create R t a s1") auto
    show ?thesis
    proof (cases rr)
      case (Inl e)
      then show ?thesis using assms m Inr r by (auto simp: run_to_answer_def)
    next
      case run: (Inr run)
      let ?evs = "evs0 @ [MessagesCreate t ''user'' msg, RunsCreate t a]"
      show ?thesis
      proof (cases "poll_loop R E t run ?evs s2")
        case None
        then show ?thesis using assms m Inr r run by (simp add: run_to_answer_def)
      next
        case (Some y)
        obtain pr pevs s3 where y: "y = (pr, pevs, s3)" by (cases y) auto
        from poll_loop_events [of R E t run ?evs s2 pr pevs s3] Some y
        obtain new where new: "pevs = ?evs @ new" "\<forall>ev\<in>set new. loop_event ev" by auto
        have nt: "ThreadsCreate \<notin> set new"
          using new(2) loop_event_simps(1) by auto
        have "evs' = pevs \<or> evs' = pevs @ [MessagesList t]"
          using assms m Inr r run Some y
          by (auto simp: run_to_answer_def split: sum.splits if_splits prod.splits)
        then show ?thesis
        proof
          assume "evs' = pevs"
          then show ?thesis using new(1) nt
            by (intro exI [of _ "[MessagesCreate t ''user'' msg, RunsCreate t a] @ new"]) simp
        next
          assume "evs' = pevs @ [MessagesList t]"
          then show ?thesis using new(1) nt
            by (intro exI [of _ "[MessagesCreate t ''user'' msg, RunsCreate t a] @ new
                                   @ [MessagesList t]"]) simp
        qed
      qed
    qed
  qed
qed

lemma chat_with_assistant_truthy:
  assumes "truthy thread_id"
    and "chat_with_assistant R E a msg thread_id s = Some ((response, thread_id'), evs, s')"
  shows "thread_id' = thread_id \<and> ThreadsCreate \<notin> set evs"
proof -
  from assms(1) obtain t where t: "thread_id = Some t" "t \<noteq> []"
    by (cases thread_id) (auto simp: truthy_def)
  then have e: "ensure_thread R thread_id s = (Inr t, [], s)"
    by (simp add: ensure_thread_def truthy_def)
  from assms(2) e obtain res where
    "run_to_answer R E a msg t [] s = Some (res, evs, s')" and "thread_id' = Some t"
    by (auto simp: chat_with_assistant_def split: option.splits sum.splits)
  with run_to_answer_events [of R E a msg t "[]" s res evs s'] t show ?thesis by auto
qed

lemma chat_with_assistant_falsy:
  assumes "\<not> truthy thread_id"
    and "chat_with_assistant R E a msg thread_id s = Some ((response, thread_id'), evs, s')"
  shows "(\<exists>rest. evs = ThreadsCreate # rest \<and> ThreadsCreate \<notin> set rest) \<and>
         thread_id' = (case fst (threads_create R s) of Inr t \<Rightarrow> Some t | Inl e \<Rightarrow> thread_id)"
proof -
  obtain cr s1 where c: "threads_create R s = (cr, s1)"
    by (cases "threads_create R s") auto
  then have e: "ensure_thread R thread_id s = (cr, [ThreadsCreate], s1)"
    using assms(1) by (simp add: ensure_thread_def)
  show ?thesis
  proof (cases cr)
    case (Inl e0)
    then show ?thesis using assms(2) e c by (auto simp: chat_with_assistant_def)
  next
    case (Inr t)
    from assms(2) e Inr obtain res where
      ra: "run_to_answer R E a msg t [ThreadsCreate] s1 = Some (res, evs, s')"
      and tid: "thread_id' = Some t"
      by (auto simp: chat_with_assistant_def split: option.splits sum.splits)
    from run_to_answer_events [OF ra] tid c Inr show ?thesis by auto
  qed
qed

lemma text_to_speech_events:
  "text_to_speech R txt voice s = (audio, evs, s') \<Longrightarrow> ThreadsCreate \<notin> set evs"
  by (auto simp: text_to_speech_def Let_def split: prod.splits sum.splits)

lemma process_user_input_truthy:
  assumes "truthy (ss_thread_id sess)"
    and "process_user_input R E prompt sess s = Some (sess', evs, s')"
  shows "ss_thread_id sess' = ss_thread_id sess \<and> ThreadsCreate \<notin> set evs"
proof -
  let ?sess1 = "sess\<lparr>ss_messages := ss_messages sess @ [(''user'', prompt)]\<rparr>"
  from assms(2) obtain response thread_id cevs s1 where
    c: "chat_with_assistant R E (ss_assistant_id sess) prompt (ss_thread_id sess) s
          = Some ((response, thread_id), cevs, s1)"
    by (auto simp: process_user_input_def Let_def split: option.splits)
  from chat_with_assistant_truthy [OF assms(1) c]
  have tid: "thread_id = ss_thread_id sess" and nt: "ThreadsCreate \<notin> set cevs" by simp_all
  show ?thesis
  proof (cases "ss_enable_tts sess")
    case False
    then show ?thesis using assms(2) c tid nt
      by (auto simp: process_user_input_def Let_def)
  next
    case True
    obtain audio tevs s2 where
      t: "text_to_speech R response (ss_selected_voice sess) s1 = (audio, tevs, s2)"
      by (cases "text_to_speech R response (ss_selected_voice sess) s1") auto
    from text_to_speech_events [OF t] have "ThreadsCreate \<notin> set tevs" .
    then show ?thesis using assms(2) c tid nt True t
      by (auto simp: process_user_input_def Let_def split: option.splits if_splits)
  qed
qed

lemma process_user_input_chat:
  assumes "process_user_input R E prompt sess s = Some (sess', pevs, ps')"
  shows "\<exists>response cevs cs tevs.
     chat_with_assistant R E (ss_assistant_id sess) prompt (ss_thread_id sess) s
       = Some ((response, ss_thread_id sess'), cevs, cs) \<and>
     pevs = [StWrite prompt] @ cevs @ [StWrite response] @ tevs \<and>
     ThreadsCreate \<notin> set tevs"
proof -
  from assms obtain response thread_id cevs cs where
    c: "chat_with_assistant R E (ss_assistant_id sess) prompt (ss_thread_id sess) s
          = Some ((response, thread_id), cevs, cs)"
    by (auto simp: process_user_input_def Let_def split: option.splits)
  show ?thesis
  proof (cases "ss_enable_tts sess")
    case False
    then have "ss_thread_id sess' = thread_id" and "pevs = [StWrite prompt] @ cevs @ [StWrite response] @ []"
      using assms c by (auto simp: process_user_input_def Let_def)
    then show ?thesis using c by (metis empty_iff empty_set)
  next
    case True
    obtain audio tevs s2 where
      ts: "text_to_speech R response (ss_selected_voice sess) cs = (audio, tevs, s2)"
      by (cases "text_to_speech R response (ss_selected_voice sess) cs") auto
    from text_to_speech_events [OF ts] have nt: "ThreadsCreate \<notin> set tevs" .
    define aevs where
      "aevs = (case audio of Some a \<Rightarrow> if a \<noteq> [] then [StAudio a] else [] | None \<Rightarrow> [])"
    have na: "ThreadsCreate \<notin> set aevs"
      by (auto simp: aevs_def split: option.splits)
    have "ss_thread_id sess' = thread_id"
      and "pevs = [StWrite prompt] @ cevs @ [StWrite response] @ (tevs @ aevs)"
      using assms c True ts by (auto simp: process_user_input_def Let_def aevs_def)
    moreover have "ThreadsCreate \<notin> set (tevs @ aevs)" using nt na by simp
    ultimately show ?thesis using c by blast
  qed
qed

lemma process_user_input_falsy:
  assumes "\<not> truthy (ss_thread_id sess)"
    and "process_user_input R E prompt sess s = Some (sess', pevs, ps')"
  shows "length (filter (\<lambda>ev. ev = ThreadsCreate) pevs) = 1 \<and>
         ss_thread_id sess' =
           (case fst (threads_create R s) of Inr t \<Rightarrow> Some t | Inl e \<Rightarrow> ss_thread_id sess)"
proof -
  from process_user_input_chat [OF assms(2)] obtain response cevs cs tevs where
    c: "chat_with_assistant R E (ss_assistant_id sess) prompt (ss_thread_id sess) s
          = Some ((response, ss_thread_id sess'), cevs, cs)"
    and p: "pevs = [StWrite prompt] @ cevs @ [StWrite response] @ tevs"
    and nt: "ThreadsCreate \<notin> set tevs"
    by blast
  from chat_with_assistant_falsy [OF assms(1) c] obtain rest where
    rest: "cevs = ThreadsCreate # rest" "ThreadsCreate \<notin> set rest"
    and tid: "ss_thread_id sess' =
           (case fst (threads_create R s) of Inr t \<Rightarrow> Some t | Inl e \<Rightarrow> ss_thread_id sess)"
    by blast
  have f1: "filter (\<lambda>ev. ev = ThreadsCreate) rest = []"
    using rest(2) by (auto simp: filter_empty_conv)
  have f2: "filter (\<lambda>ev. ev = ThreadsCreate) tevs = []"
    using nt by (auto simp: filter_empty_conv)
  have "length (filter (\<lambda>ev. ev = ThreadsCreate) pevs) = 1"
    by (simp add: p rest(1) f1 f2)
  then show ?thesis using tid by simp
qed

lemma stub_chat_completed:
  assumes e: "ensure_thread (stub_remote assistant_reply) thread_id (completed_run # rest)
                = (Inr ''thread_1'', evs0, completed_run # rest)"
  shows "chat_with_assistant (stub_remote assistant_reply) E a msg thread_id (completed_run # rest)
           = Some ((''Apple trades at 150.12'', Some ''thread_1''),
                   evs0 @ [MessagesCreate ''thread_1'' ''user'' msg, RunsCreate ''thread_1'' a,
                           MessagesList ''thread_1''],
                   rest)"
proof -
  let ?R = "stub_remote assistant_reply"
  have m: "messages_create ?R ''thread_1'' ''user'' msg (completed_run # rest)
             = (Inr (), completed_run # rest)"
    by (simp add: stub_remote_simps)
  have r: "runs_create ?R ''thread_1'' a (completed_run # rest) = (Inr completed_run, rest)"
    by (simp add: stub_remote_simps next_run_def)
  have na: "\<not> active (status completed_run)"
    and st: "status completed_run = ''completed''"
    by (simp_all add: completed_run_def active_def)
  have ft: "first_text assistant_reply = Inr ''Apple trades at 150.12''"
    by (simp add: first_text_def assistant_reply_def)
  show ?thesis
    using chat_with_assistant_loop [OF e m r, of E] poll_loop_exit [OF na, of ?R E "''thread_1''"]
    by (simp add: st stub_remote_simps ft)
qed

lemma py_round2_example: "py_round2 (float_of_rat (150123 / 1000)) = float_of_rat (15012 / 100)"
  by (simp add: float_eval)

lemma upper_examples:
  "upper ''aapl'' = ''AAPL''" "upper ''ZZZZ'' = ''ZZZZ''" "upper ''FAIL'' = ''FAIL''"
  by (simp_all add: upper_def upper_char_def)

lemma distinct_indices: "distinct (map fst indices)"
  by (simp add: indices_def)

lemma length_indices: "length indices = 24"
  by (simp add: indices_def)

lemma dict_set_new: "k \<notin> fst ` set d \<Longrightarrow> dict_set d k v = d @ [(k, v)]"
  by (induction d) auto

lemma overview_entry_key: "(k, v) \<in> set (overview_entry E idx) \<Longrightarrow> k = fst idx"
  by (auto simp: overview_entry_def split: sum.splits option.splits)

lemma overview_step_entry:
  "name \<notin> fst ` set results \<Longrightarrow>
     overview_step E name symbol results = results @ overview_entry E (name, symbol)"
  by (simp add: overview_step_def overview_entry_def dict_set_new
      split: sum.splits option.splits)

lemma overview_loop_concat:
  "distinct (map fst idxs) \<Longrightarrow> fst ` set results \<inter> fst ` set idxs = {} \<Longrightarrow>
     overview_loop E idxs results = results @ concat (map (overview_entry E) idxs)"
proof (induction idxs arbitrary: results)
  case Nil
  then show ?case by simp
next
  case (Cons idx idxs)
  obtain name symbol where idx: "idx = (name, symbol)" by (cases idx) auto
  have fresh: "name \<notin> fst ` set results"
    using Cons.prems(2) idx by auto
  have step: "overview_step E name symbol results = results @ overview_entry E (name, symbol)"
    using fresh by (rule overview_step_entry)
  have "fst ` set (results @ overview_entry E (name, symbol)) \<inter> fst ` set idxs = {}"
  proof -
    have a: "name \<notin> fst ` set idxs" using Cons.prems(1) idx by simp
    have b: "fst ` set results \<inter> fst ` set idxs = {}" using Cons.prems(2) by auto
    have c: "k = name" if "(k, v) \<in> set (overview_entry E (name, symbol))" for k v
      using overview_entry_key [OF that] by simp
    have "k \<notin> fst ` set idxs" if "k \<in> fst ` set (results @ overview_entry E (name, symbol))" for k
    proof -
      from that consider "k \<in> fst ` set results" | "k \<in> fst ` set (overview_entry E (name, symbol))"
        by auto
      then show ?thesis
      proof cases
        case 1
        then show ?thesis using b by blast
      next
        case 2
        then obtain v where kv: "(k, v) \<in> set (overview_entry E (name, symbol))" by force
        show ?thesis using c [OF kv] a by simp
      qed
    qed
    then show ?thesis by blast
  qed
  moreover have "distinct (map fst idxs)" using Cons.prems(1) by simp
  ultimately show ?case
    using Cons.IH [of "results @ overview_entry E (name, symbol)"] idx step by simp
qed

lemma get_market_overview_concat:
  "get_market_overview E = concat (map (overview_entry E) indices)"
  using overview_loop_concat [OF distinct_indices, of "[]" E]
  by (simp add: get_market_overview_def)

lemma concat_entries_key:
  "(k, v) \<in> set (concat (map (overview_entry E) idxs)) \<Longrightarrow> k \<in> fst ` set idxs"
proof -
  assume "(k, v) \<in> set (concat (map (overview_entry E) idxs))"
  then obtain idx where "idx \<in> set idxs" "(k, v) \<in> set (overview_entry E idx)"
    by auto
  then show ?thesis using overview_entry_key [of k v E idx] by auto
qed

lemma map_of_concat_entries:
  "distinct (map fst idxs) \<Longrightarrow> (name, symbol) \<in> set idxs \<Longrightarrow>
     map_of (concat (map (overview_entry E) idxs)) name
       = map_of (overview_entry E (name, symbol)) name"
proof (induction idxs)
  case Nil
  then show ?case by simp
next
  case (Cons idx idxs)
  show ?case
  proof (cases "idx = (name, symbol)")
    case True
    then have "name \<notin> fst ` set idxs" using Cons.prems(1) by auto
    then have "name \<notin> fst ` set (concat (map (overview_entry E) idxs))"
      using concat_entries_key [of name _ E idxs] by force
    then have "map_of (concat (map (overview_entry E) idxs)) name = None"
      by (simp add: map_of_eq_None_iff)
    then show ?thesis using True
      by (simp add: map_add_def split: option.splits)
  next
    case False
    then have mem: "(name, symbol) \<in> set idxs" using Cons.prems(2) by auto
    then have "fst idx \<noteq> name"
      using Cons.prems(1) by (auto simp: image_iff)
    then have "name \<notin> fst ` set (overview_entry E idx)"
      using overview_entry_key [of name _ E idx] by force
    then have "map_of (overview_entry E idx) name = None"
      by (simp add: map_of_eq_None_iff)
    then show ?thesis using Cons.IH mem Cons.prems(1)
      by (simp add: map_add_def)
  qed
qed

lemma length_concat_entries:
  "length (concat (map (overview_entry E) idxs)) \<le> length idxs"
proof (induction idxs)
  case Nil
  then show ?case by simp
next
  case (Cons idx idxs)
  have "length (overview_entry E idx) \<le> 1"
    by (simp add: overview_entry_def split: sum.splits option.splits)
  then show ?case using Cons by simp
qed

lemma length_concat_entries_less:
  "idx \<in> set idxs \<Longrightarrow> overview_entry E idx = [] \<Longrightarrow>
     length (concat (map (overview_entry E) idxs)) < length idxs"
proof (induction idxs)
  case Nil
  then show ?case by simp
next
  case (Cons i idxs)
  have le: "length (overview_entry E i) \<le> 1"
    by (simp add: overview_entry_def split: sum.splits option.splits)
  show ?case
  proof (cases "i = idx")
    case True
    then show ?thesis
      using Cons.prems(2) length_concat_entries [of E idxs] by simp
  next
    case False
    then have "length (concat (map (overview_entry E) idxs)) < length idxs"
      using Cons by simp
    then show ?thesis using le by simp
  qed
qed

lemma overview_try_empty:
  "ticker_history E symbol ''2d'' = Inr [] \<Longrightarrow> overview_try E symbol = Inr None"
  by (simp add: overview_try_def)

lemma overview_try_raise:
  "ticker_history E symbol ''2d'' = Inl e \<Longrightarrow> overview_try E symbol = Inl e"
  by (simp add: overview_try_def)

lemma overview_try_days:
  "ticker_history E symbol ''2d'' = Inr hist \<Longrightarrow> hist \<noteq> [] \<Longrightarrow>
   prev = (if length hist > 1 then hist ! (length hist - 2) else last hist) \<Longrightarrow>
     overview_try E symbol =
       (case fdiv (fsub (last hist) prev) prev of
          Inl e \<Rightarrow> Inl e
        | Inr ratio \<Rightarrow>
            Inr (Some (PDict
              [(''current'', PFloat (py_round2 (last hist))),
               (''change'', PFloat (py_round2 (fsub (last hist) prev))),
               (''change_percent'', PFloat (py_round2 (fmul ratio (Fin 100))))])))"
  by (auto simp: overview_try_def Let_def split: sum.splits)

lemma overview_try_one_day:
  "ticker_history E symbol ''2d'' = Inr [Fin q] \<Longrightarrow> q \<noteq> 0 \<Longrightarrow>
     overview_try E symbol =
       Inr (Some (PDict [(''current'', PFloat (py_round2 (Fin q))),
                         (''change'', PFloat (Fin 0)),
                         (''change_percent'', PFloat (signed_zero (q < 0)))]))"
  by (simp add: overview_try_def one_day_arithmetic py_round2_special)

lemma overview_try_one_day_zero:
  "ticker_history E symbol ''2d'' = Inr [c] \<Longrightarrow> is_zero c \<Longrightarrow>
     overview_try E symbol = Inl ''float division by zero''"
  by (simp add: overview_try_def fdiv_def)

lemma overview_try_one_day_special:
  "ticker_history E symbol ''2d'' = Inr [c] \<Longrightarrow> c = NaN \<or> c = PosInf \<or> c = NegInf \<Longrightarrow>
     overview_try E symbol =
       Inr (Some (PDict [(''current'', PFloat c),
                         (''change'', PFloat NaN),
                         (''change_percent'', PFloat NaN)]))"
  by (simp add: overview_try_def one_day_special py_round2_special)

lemma fdiv_Inl: "fdiv x y = Inl e \<Longrightarrow> e = ''float division by zero'' \<and> is_zero y"
  by (auto simp: fdiv_def split: if_splits)

lemma overview_try_shape:
  "overview_try E symbol = Inl e \<Longrightarrow>
     ticker_history E symbol ''2d'' = Inl e \<or>
     (e = ''float division by zero'' \<and>
      (\<exists>hist. ticker_history E symbol ''2d'' = Inr hist \<and> hist \<noteq> [] \<and>
         is_zero (if length hist > 1 then hist ! (length hist - 2) else last hist)))"
  "overview_try E symbol = Inr (Some entry) \<Longrightarrow>
     \<exists>cur chg pct. entry = PDict [(''current'', PFloat (py_round2 cur)),
                                  (''change'', PFloat (py_round2 chg)),
                                  (''change_percent'', PFloat (py_round2 pct))]"
  by (auto simp: overview_try_def Let_def dest: fdiv_Inl split: sum.splits if_splits)

lemma stub_overview:
  "get_market_overview stub_env =
     [(''S&P 500'', PDict [(''current'', PFloat (Fin 4545)), (''change'', PFloat (Fin 45)),
                           (''change_percent'', PFloat (Fin 1))]),
      (''NASDAQ'', PDict [(''current'', PFloat (Fin 14000)), (''change'', PFloat (Fin 0)),
                          (''change_percent'', PFloat (Fin 0))]),
      (''NVIDIA'', PDict [(''error'', PStr ''Too Many Requests. Rate limited. Try after a while.'')]),
      (''Russell 2000'', PDict [(''current'', PFloat (float_of_rat (327 / 100))),
                                (''change'', PFloat (float_of_rat (227 / 100))),
                                (''change_percent'', PFloat (Fin (455 / 2)))]),
      (''Crude Oil'', PDict [(''error'', PStr ''float division by zero'')]),
      (''Silver'', PDict [(''current'', PFloat NaN), (''change'', PFloat NaN),
                          (''change_percent'', PFloat NaN)])]"
  by (simp add: get_market_overview_def indices_def overview_step_def overview_try_def
      stub_env_def error_dict_def float_literals float_eval)

lemma py_round2_14000: "py_round2 (Fin 14000) = Fin 14000"
  by (simp add: float_eval)

lemma py_round2_msft: "py_round2 (float_of_rat (41005 / 100)) = float_of_rat (41005 / 100)"
  by (simp add: float_eval)

lemma handler_failure_example:
  "handle_function_call stub_env ''get_stock_data'' (PDict [(''symbol'', PStr ''msft'')])
     = Inr ''{\"error\": \"Object of type int64 is not JSON serializable\"}''"
  by (simp add: handle_function_call_def handle_function_call_try_def py_get_def dict_get_def
      get_stock_data_def get_stock_data_try_def py_upper_def upper_def upper_char_def
      stub_env_def stub_repr_def py_round2_msft error_dict_def json_string_def escape_char_def
      Let_def)

lemma quote_json_example:
  "handle_function_call stub_env ''get_stock_data'' (PDict [(''symbol'', PStr ''aapl'')])
     = Inr (''{\"symbol\": \"AAPL\", \"current_price\": 150.12, \"company_name\": \"Apple Inc.\", ''
            @ ''\"market_cap\": 2300000000000, \"pe_ratio\": 28.75, \"52_week_high\": null, ''
            @ ''\"52_week_low\": null, \"volume\": 51000000}'')"
  by (simp add: handle_function_call_def handle_function_call_try_def py_get_def dict_get_def
      get_stock_data_def get_stock_data_try_def py_upper_def upper_def upper_char_def
      stub_env_def stub_repr_def float_text_def float_eval
      json_string_def escape_char_def dec_int_def digit_char_def)

section \<open>Speech synthesis\<close>

text \<open>
  Claim C8. A text of more than 4000 characters reaches the synthesis call as
  its first 4000 characters followed by the marker \<^verbatim>\<open>...\<close>; a text of at most
  4000 characters reaches it unchanged. In both cases there is exactly one
  synthesis call, and the audio returned is the service's answer to that text.
\<close>

theorem text_to_speech_truncates:
  "(length txt > 4000 \<longrightarrow>
      speech_inputs (fst (snd (text_to_speech R txt voice s))) = [take 4000 txt @ ''...''] \<and>
      fst (text_to_speech R txt voice s) =
        (case fst (speech_create R ''tts-1'' voice (take 4000 txt @ ''...'') ''mp3'' s) of
           Inr c \<Rightarrow> Some c
         | Inl e \<Rightarrow> None)) \<and>
   (length txt \<le> 4000 \<longrightarrow>
      speech_inputs (fst (snd (text_to_speech R txt voice s))) = [txt] \<and>
      fst (text_to_speech R txt voice s) =
        (case fst (speech_create R ''tts-1'' voice txt ''mp3'' s) of
           Inr c \<Rightarrow> Some c
         | Inl e \<Rightarrow> None))"
  by (auto simp: text_to_speech_def speech_inputs_def Let_def split: prod.splits sum.splits)

theorem text_to_speech_truncates_witness:
  "length (replicate 4001 (CHR ''a'')) > 4000 \<and>
   speech_inputs
       (fst (snd (text_to_speech (stub_remote []) (replicate 4001 (CHR ''a'')) ''alloy'' [])))
     = [replicate 4000 (CHR ''a'') @ ''...''] \<and>
   fst (text_to_speech (stub_remote []) (replicate 4001 (CHR ''a'')) ''alloy'' [])
     = Some (''mp3:'' @ replicate 4000 (CHR ''a'') @ ''...'') \<and>
   length ''Apple trades at 150.12'' \<le> 4000 \<and>
   speech_inputs
       (fst (snd (text_to_speech (stub_remote []) ''Apple trades at 150.12'' ''alloy'' [])))
     = [''Apple trades at 150.12'']"
  using text_to_speech_truncates [of "replicate 4001 (CHR ''a'')" "stub_remote []" "''alloy''" "[]"]
    text_to_speech_truncates [of "''Apple trades at 150.12''" "stub_remote []" "''alloy''" "[]"]
  by (simp add: stub_remote_def)

section \<open>Unknown tools\<close>

text \<open>
  \<^verbatim>\<open>handle_function_call\<close> gives every name that is neither \<^verbatim>\<open>get_stock_data\<close> nor
  \<^verbatim>\<open>get_market_overview\<close> the output \<^verbatim>\<open>{"error": "Function not implemented"}\<close>,
  whatever the arguments it is called with. In a batch all of whose arguments
  are JSON, this output is submitted at the position and under the id of the
  call, and the loop goes on with the run the submission returns.
\<close>

lemma unknown_tool_submitted_when_arguments_parse:
  assumes "tc_function_name tc \<noteq> ''get_stock_data''"
    and "tc_function_name tc \<noteq> ''get_market_overview''"
  shows "handle_function_call E (tc_function_name tc) arguments
           = Inr ''{\"error\": \"Function not implemented\"}'' \<and>
    (status run = ''requires_action'' \<and> required_action run = Some calls \<and>
     i < length calls \<and> calls ! i = tc \<and>
     (\<forall>c\<in>set calls. \<exists>v. json_loads E (tc_function_arguments c) = Inr v) \<longrightarrow>
       (\<exists>outs hevs.
          loop_body R E t run s =
            (fst (submit_tool_outputs R t (run_id run) outs s),
             hevs @ [SubmitToolOutputs t (run_id run) outs],
             snd (submit_tool_outputs R t (run_id run) outs s)) \<and>
          length outs = length calls \<and>
          outs ! i = \<lparr>tool_call_id = tc_id tc,
                       output_str = ''{\"error\": \"Function not implemented\"}''\<rparr> \<and>
          (\<forall>run' s'. submit_tool_outputs R t (run_id run) outs s = (Inr run', s') \<longrightarrow>
             poll_loop R E t run evs s =
               poll_loop R E t run' (evs @ hevs @ [SubmitToolOutputs t (run_id run) outs]) s')))"
proof (intro conjI impI)
  show h: "handle_function_call E (tc_function_name tc) arguments
             = Inr ''{\"error\": \"Function not implemented\"}''" for arguments
    using assms by (rule handle_unknown)
  assume a: "status run = ''requires_action'' \<and> required_action run = Some calls \<and>
     i < length calls \<and> calls ! i = tc \<and>
     (\<forall>c\<in>set calls. \<exists>v. json_loads E (tc_function_arguments c) = Inr v)"
  then obtain outs hevs where tol: "tool_outputs_loop E calls [] [] = (Inr outs, hevs)"
    using tool_outputs_loop_parse [of calls E "[]" "[]"] by blast
  from tool_outputs_loop_outputs [OF tol] a
  obtain v out where len: "length outs = length calls"
    and "handle_function_call E (tc_function_name tc) v = Inr out"
    and "outs ! i = \<lparr>tool_call_id = tc_id tc, output_str = out\<rparr>"
    by auto
  then have nth: "outs ! i = \<lparr>tool_call_id = tc_id tc,
                       output_str = ''{\"error\": \"Function not implemented\"}''\<rparr>"
    using h [of v] by simp
  have lb: "loop_body R E t run s =
            (fst (submit_tool_outputs R t (run_id run) outs s),
             hevs @ [SubmitToolOutputs t (run_id run) outs],
             snd (submit_tool_outputs R t (run_id run) outs s))"
    using a tol by (intro loop_body_requires_action) auto
  have cont: "\<forall>run' s'. submit_tool_outputs R t (run_id run) outs s = (Inr run', s') \<longrightarrow>
             poll_loop R E t run evs s =
               poll_loop R E t run' (evs @ hevs @ [SubmitToolOutputs t (run_id run) outs]) s'"
  proof (intro allI impI)
    fix run' s'
    assume "submit_tool_outputs R t (run_id run) outs s = (Inr run', s')"
    then have b: "loop_body R E t run s = (Inr run', hevs @ [SubmitToolOutputs t (run_id run) outs], s')"
      using lb by simp
    have act: "active (status run)" using a by (simp add: active_def)
    show "poll_loop R E t run evs s =
               poll_loop R E t run' (evs @ hevs @ [SubmitToolOutputs t (run_id run) outs]) s'"
      using poll_loop_continue [OF act b, of evs] by simp
  qed
  show "\<exists>outs hevs.
          loop_body R E t run s =
            (fst (submit_tool_outputs R t (run_id run) outs s),
             hevs @ [SubmitToolOutputs t (run_id run) outs],
             snd (submit_tool_outputs R t (run_id run) outs s)) \<and>
          length outs = length calls \<and>
          outs ! i = \<lparr>tool_call_id = tc_id tc,
                       output_str = ''{\"error\": \"Function not implemented\"}''\<rparr> \<and>
          (\<forall>run' s'. submit_tool_outputs R t (run_id run) outs s = (Inr run', s') \<longrightarrow>
             poll_loop R E t run evs s =
               poll_loop R E t run' (evs @ hevs @ [SubmitToolOutputs t (run_id run) outs]) s')"
    using lb len nth cont by blast
qed

lemma unknown_tool_submitted_example:
  "tc_function_name (batch_calls ! 2) = ''get_weather'' \<and>
   handle_function_call stub_env ''get_weather'' (PDict [(''city'', PStr ''Paris'')])
     = Inr ''{\"error\": \"Function not implemented\"}'' \<and>
   (\<exists>outs hevs.
      loop_body (stub_remote assistant_reply) stub_env ''thread_1'' batch_run [completed_run]
        = (Inr completed_run, hevs @ [SubmitToolOutputs ''thread_1'' ''run_1'' outs], []) \<and>
      length outs = 3 \<and>
      outs ! 2 = \<lparr>tool_call_id = ''call_3'',
                   output_str = ''{\"error\": \"Function not implemented\"}''\<rparr> \<and>
      poll_loop (stub_remote assistant_reply) stub_env ''thread_1'' batch_run [] [completed_run]
        = Some (Inr completed_run, hevs @ [SubmitToolOutputs ''thread_1'' ''run_1'' outs], []))"
proof -
  let ?R = "stub_remote assistant_reply"
  let ?nf = "''{\"error\": \"Function not implemented\"}''"
  have nm: "tc_function_name (batch_calls ! 2) = ''get_weather''"
    and cid: "tc_id (batch_calls ! 2) = ''call_3''"
    and len3: "length batch_calls = 3"
    by (simp_all add: batch_calls_def)
  have rid: "run_id batch_run = ''run_1''"
    by (simp add: batch_run_def)
  have n1: "tc_function_name (batch_calls ! 2) \<noteq> ''get_stock_data''"
    and n2: "tc_function_name (batch_calls ! 2) \<noteq> ''get_market_overview''"
    by (simp_all add: nm)
  have parse: "\<forall>c\<in>set batch_calls. \<exists>v. json_loads stub_env (tc_function_arguments c) = Inr v"
    by (simp add: batch_calls_def stub_env_simps stub_loads_def)
  have hyp: "status batch_run = ''requires_action'' \<and> required_action batch_run = Some batch_calls \<and>
     2 < length batch_calls \<and> batch_calls ! 2 = batch_calls ! 2 \<and>
     (\<forall>c\<in>set batch_calls. \<exists>v. json_loads stub_env (tc_function_arguments c) = Inr v)"
    using parse by (simp add: batch_run_def len3)
  have sub: "submit_tool_outputs ?R ''thread_1'' ''run_1'' outs [completed_run]
               = (Inr completed_run, [])" for outs
    by (simp add: stub_remote_simps next_run_def)
  have fin: "poll_loop ?R stub_env ''thread_1'' completed_run evs [] = Some (Inr completed_run, evs, [])"
    for evs
    by (subst poll_loop.simps) (simp add: completed_run_def active_def)
  note inst = unknown_tool_submitted_when_arguments_parse [OF n1 n2,
      where E = stub_env and arguments = "PDict [(''city'', PStr ''Paris'')]" and run = batch_run
        and calls = batch_calls and i = 2 and R = ?R and t = "''thread_1''"
        and s = "[completed_run]" and evs = "[]"]
  from inst have c1: "handle_function_call stub_env ''get_weather'' (PDict [(''city'', PStr ''Paris'')])
     = Inr ?nf"
    by (simp add: nm)
  from inst hyp obtain outs hevs where
    lb: "loop_body ?R stub_env ''thread_1'' batch_run [completed_run] =
           (fst (submit_tool_outputs ?R ''thread_1'' (run_id batch_run) outs [completed_run]),
            hevs @ [SubmitToolOutputs ''thread_1'' (run_id batch_run) outs],
            snd (submit_tool_outputs ?R ''thread_1'' (run_id batch_run) outs [completed_run]))"
    and len: "length outs = length batch_calls"
    and nth: "outs ! 2 = \<lparr>tool_call_id = tc_id (batch_calls ! 2), output_str = ?nf\<rparr>"
    and cont: "\<forall>run' s'. submit_tool_outputs ?R ''thread_1'' (run_id batch_run) outs [completed_run]
                  = (Inr run', s') \<longrightarrow>
             poll_loop ?R stub_env ''thread_1'' batch_run [] [completed_run] =
               poll_loop ?R stub_env ''thread_1'' run'
                 ([] @ hevs @ [SubmitToolOutputs ''thread_1'' (run_id batch_run) outs]) s'"
    by blast
  have lb': "loop_body ?R stub_env ''thread_1'' batch_run [completed_run]
        = (Inr completed_run, hevs @ [SubmitToolOutputs ''thread_1'' ''run_1'' outs], [])"
    using lb by (simp add: rid sub)
  have pl: "poll_loop ?R stub_env ''thread_1'' batch_run [] [completed_run]
        = Some (Inr completed_run, hevs @ [SubmitToolOutputs ''thread_1'' ''run_1'' outs], [])"
    using cont by (simp add: rid sub fin)
  show ?thesis
    using nm c1 lb' pl len nth by (auto simp: len3 cid)
qed

text \<open>
  Claim C7. The claim is that every pending call with an unknown name gets this
  output, that the output is submitted under the id of the call, and that the
  loop goes on. The handler does return the output for every unknown name. But
  the loop parses the arguments of a call before it calls the handler, outside
  the handler's \<^verbatim>\<open>try\<close>: for the pending call \<^verbatim>\<open>get_weather\<close> with the arguments
  \<^verbatim>\<open>{bad\<close> the handler is never called, no output is made for the call, nothing
  is submitted, and the call of \<^verbatim>\<open>chat_with_assistant\<close> ends with the text of the
  exception, the run left as it is. It is the defect shown below for arguments
  that are not JSON, met here on a call with an unknown name.
\<close>

theorem unknown_tool_malformed_arguments_abort:
  "handle_function_call E ''get_weather'' arguments
     = Inr ''{\"error\": \"Function not implemented\"}'' \<and>
   json_loads stub_env ''{bad''
     = Inl ''Expecting property name enclosed in double quotes: line 1 column 2 (char 1)'' \<and>
   loop_body R stub_env t weather_bad_run s
     = (Inl ''Expecting property name enclosed in double quotes: line 1 column 2 (char 1)'',
        [], s) \<and>
   chat_with_assistant (stub_remote assistant_reply) stub_env ''asst_1''
       ''What is the weather in Paris?'' None [weather_bad_run, completed_run]
     = Some ((''Error: Expecting property name enclosed in double quotes: line 1 column 2 (char 1)'',
              Some ''thread_1''),
             [ThreadsCreate,
              MessagesCreate ''thread_1'' ''user'' ''What is the weather in Paris?'',
              RunsCreate ''thread_1'' ''asst_1''],
             [completed_run])"
proof -
  let ?R = "stub_remote assistant_reply"
  let ?e = "''Expecting property name enclosed in double quotes: line 1 column 2 (char 1)''"
  have h: "handle_function_call E ''get_weather'' arguments
     = Inr ''{\"error\": \"Function not implemented\"}''"
    using handle_unknown [of "''get_weather''" E arguments] by simp
  have jl: "json_loads stub_env ''{bad'' = Inl ?e"
    by (simp add: stub_env_simps stub_loads_def)
  have lb: "loop_body R' stub_env t' weather_bad_run s' = (Inl ?e, [], s')" for R' :: "'b remote"
    and t' s'
    by (simp add: loop_body_def weather_bad_run_def jl)
  have pl: "poll_loop ?R stub_env ''thread_1'' weather_bad_run evs s' = Some (Inl ?e, evs, s')"
    for evs s'
    by (subst poll_loop.simps) (simp add: lb, simp add: weather_bad_run_def active_def)
  have e: "ensure_thread ?R None [weather_bad_run, completed_run]
             = (Inr ''thread_1'', [ThreadsCreate], [weather_bad_run, completed_run])"
    by (rule ensure_thread_stub_None)
  have m: "messages_create ?R ''thread_1'' ''user'' ''What is the weather in Paris?''
             [weather_bad_run, completed_run] = (Inr (), [weather_bad_run, completed_run])"
    by (simp add: stub_remote_simps)
  have r: "runs_create ?R ''thread_1'' ''asst_1'' [weather_bad_run, completed_run]
             = (Inr weather_bad_run, [completed_run])"
    by (simp add: stub_remote_simps next_run_def)
  note c = chat_with_assistant_loop [OF e m r, of stub_env]
  have chat: "chat_with_assistant ?R stub_env ''asst_1''
       ''What is the weather in Paris?'' None [weather_bad_run, completed_run]
     = Some ((''Error: '' @ ?e, Some ''thread_1''),
             [ThreadsCreate,
              MessagesCreate ''thread_1'' ''user'' ''What is the weather in Paris?'',
              RunsCreate ''thread_1'' ''asst_1''],
             [completed_run])"
    using c by (simp add: pl)
  show ?thesis
    using h jl lb [of R t s] chat by simp
qed

section \<open>One output for every pending call\<close>

text \<open>
  Claim C2. For a run that requires action with the pending calls \<open>calls\<close>, every
  submission the pass makes is for this thread and run and carries exactly one
  output for each pending call, with the ids of the calls unchanged and in
  their order; and whenever all arguments are JSON the pass makes exactly one
  submission, whatever the tool functions and the data provider do.
\<close>

theorem submission_one_output_per_call:
  assumes "status run = ''requires_action''" and "required_action run = Some calls"
  shows "(\<forall>t' r' outs. SubmitToolOutputs t' r' outs \<in> set (fst (snd (loop_body R E t run s))) \<longrightarrow>
            t' = t \<and> r' = run_id run \<and> length outs = length calls \<and>
            map tool_call_id outs = map tc_id calls) \<and>
         ((\<forall>c\<in>set calls. \<exists>v. json_loads E (tc_function_arguments c) = Inr v) \<longrightarrow>
            (\<exists>outs hevs.
               loop_body R E t run s =
                 (fst (submit_tool_outputs R t (run_id run) outs s),
                  hevs @ [SubmitToolOutputs t (run_id run) outs],
                  snd (submit_tool_outputs R t (run_id run) outs s)) \<and>
               (\<forall>ev\<in>set hevs. handler_event ev) \<and>
               length outs = length calls \<and>
               map tool_call_id outs = map tc_id calls))"
proof -
  obtain r hevs where tol: "tool_outputs_loop E calls [] [] = (r, hevs)"
    by (cases "tool_outputs_loop E calls [] []") auto
  from tool_outputs_loop_events [OF tol]
  have hev: "\<forall>ev\<in>set hevs. handler_event ev" by simp
  show ?thesis
  proof (cases r)
    case (Inl e)
    then have lb: "loop_body R E t run s = (Inl e, hevs, s)"
      using assms tol by (intro loop_body_parse_error) auto
    have "\<not> (\<forall>c\<in>set calls. \<exists>v. json_loads E (tc_function_arguments c) = Inr v)"
      using tool_outputs_loop_parse [of calls E "[]" "[]"] tol Inl by auto
    then show ?thesis
      using lb handler_event_not_submit [OF hev] by auto
  next
    case (Inr outs)
    then have lb: "loop_body R E t run s =
                 (fst (submit_tool_outputs R t (run_id run) outs s),
                  hevs @ [SubmitToolOutputs t (run_id run) outs],
                  snd (submit_tool_outputs R t (run_id run) outs s))"
      using assms tol by (intro loop_body_requires_action) auto
    have ids: "map tool_call_id outs = map tc_id calls"
      using tool_outputs_loop_Inr [of E calls "[]" "[]" outs hevs] tol Inr by simp
    then have len: "length outs = length calls"
      by (metis length_map)
    have one: "\<forall>t' r' outs'. SubmitToolOutputs t' r' outs' \<in> set (fst (snd (loop_body R E t run s))) \<longrightarrow>
            t' = t \<and> r' = run_id run \<and> outs' = outs"
      using lb handler_event_not_submit [OF hev] by auto
    show ?thesis
      using lb hev ids len one by blast
  qed
qed

theorem submission_one_output_per_call_witness:
  "status batch_run = ''requires_action'' \<and> required_action batch_run = Some batch_calls \<and>
   length batch_calls = 3 \<and>
   (\<exists>outs hevs.
      loop_body (stub_remote assistant_reply) stub_env ''thread_1'' batch_run [completed_run]
        = (Inr completed_run, hevs @ [SubmitToolOutputs ''thread_1'' ''run_1'' outs], []) \<and>
      list_all handler_event hevs \<and>
      length outs = 3 \<and>
      map tool_call_id outs = [''call_1'', ''call_2'', ''call_3''])"
proof -
  let ?R = "stub_remote assistant_reply"
  have h1: "status batch_run = ''requires_action''"
    and h2: "required_action batch_run = Some batch_calls"
    and rid: "run_id batch_run = ''run_1''"
    by (simp_all add: batch_run_def)
  have len3: "length batch_calls = 3"
    and ids: "map tc_id batch_calls = [''call_1'', ''call_2'', ''call_3'']"
    by (simp_all add: batch_calls_def)
  have parse: "\<forall>c\<in>set batch_calls. \<exists>v. json_loads stub_env (tc_function_arguments c) = Inr v"
    by (simp add: batch_calls_def stub_env_simps stub_loads_def)
  have sub: "submit_tool_outputs ?R ''thread_1'' ''run_1'' outs [completed_run]
               = (Inr completed_run, [])" for outs
    by (simp add: stub_remote_simps next_run_def)
  from submission_one_output_per_call [OF h1 h2,
      where R = ?R and E = stub_env and t = "''thread_1''" and s = "[completed_run]"] parse
  obtain outs hevs where
    lb: "loop_body ?R stub_env ''thread_1'' batch_run [completed_run] =
           (fst (submit_tool_outputs ?R ''thread_1'' (run_id batch_run) outs [completed_run]),
            hevs @ [SubmitToolOutputs ''thread_1'' (run_id batch_run) outs],
            snd (submit_tool_outputs ?R ''thread_1'' (run_id batch_run) outs [completed_run]))"
    and hev: "\<forall>ev\<in>set hevs. handler_event ev"
    and len: "length outs = length batch_calls"
    and m: "map tool_call_id outs = map tc_id batch_calls"
    by blast
  have lb': "loop_body ?R stub_env ''thread_1'' batch_run [completed_run]
        = (Inr completed_run, hevs @ [SubmitToolOutputs ''thread_1'' ''run_1'' outs], [])"
    using lb by (simp add: rid sub)
  show ?thesis
    using h1 h2 len3 lb' hev len m by (auto simp: ids list_all_iff)
qed

section \<open>Arguments that are not JSON\<close>

text \<open>
  Claim C1. The claim is that a call whose arguments are not JSON gets an error
  output of its own and the batch is still submitted. The code parses the
  arguments in the loop, outside \<^verbatim>\<open>handle_function_call\<close>, so the exception
  reaches the \<^verbatim>\<open>except\<close> clause of \<^verbatim>\<open>chat_with_assistant\<close>: on a batch of two calls,
  the second with the arguments \<^verbatim>\<open>{bad\<close>, the first tool runs, nothing is
  submitted, the run is left as it is and the text of the exception is returned
  as the answer.
\<close>

theorem malformed_arguments_abort_the_run:
  "chat_with_assistant (stub_remote assistant_reply) stub_env ''asst_1'' ''How is Apple doing?'' None
       [bad_batch_run, completed_run]
     = Some ((''Error: Expecting property name enclosed in double quotes: line 1 column 2 (char 1)'',
              Some ''thread_1''),
             [ThreadsCreate,
              MessagesCreate ''thread_1'' ''user'' ''How is Apple doing?'',
              RunsCreate ''thread_1'' ''asst_1'',
              HandlerCall ''get_stock_data'' (PDict [(''symbol'', PStr ''AAPL'')])],
             [completed_run])"
proof -
  let ?R = "stub_remote assistant_reply"
  let ?e = "''Expecting property name enclosed in double quotes: line 1 column 2 (char 1)''"
  obtain out where out:
    "handle_function_call stub_env ''get_stock_data'' (PDict [(''symbol'', PStr ''AAPL'')]) = Inr out"
    using handle_function_call_total by blast
  have lb: "loop_body ?R stub_env ''thread_1'' bad_batch_run s
              = (Inl ?e, [HandlerCall ''get_stock_data'' (PDict [(''symbol'', PStr ''AAPL'')])], s)"
    for s
    by (simp add: loop_body_def bad_batch_run_def stub_env_simps stub_loads_def out)
  have pl: "poll_loop ?R stub_env ''thread_1'' bad_batch_run evs s
              = Some (Inl ?e, evs @ [HandlerCall ''get_stock_data'' (PDict [(''symbol'', PStr ''AAPL'')])], s)"
    for evs s
    by (subst poll_loop.simps) (simp add: lb, simp add: bad_batch_run_def active_def)
  have e: "ensure_thread ?R None [bad_batch_run, completed_run]
             = (Inr ''thread_1'', [ThreadsCreate], [bad_batch_run, completed_run])"
    by (rule ensure_thread_stub_None)
  have m: "messages_create ?R ''thread_1'' ''user'' ''How is Apple doing?''
             [bad_batch_run, completed_run] = (Inr (), [bad_batch_run, completed_run])"
    by (simp add: stub_remote_simps)
  have r: "runs_create ?R ''thread_1'' ''asst_1'' [bad_batch_run, completed_run]
             = (Inr bad_batch_run, [completed_run])"
    by (simp add: stub_remote_simps next_run_def)
  note chat_with_assistant_loop [OF e m r, of stub_env]
  then show ?thesis by (simp add: pl)
qed

section \<open>A run that fails\<close>

text \<open>
  Claim C4. A run whose status is none of \<^verbatim>\<open>queued\<close>, \<^verbatim>\<open>in_progress\<close>,
  \<^verbatim>\<open>requires_action\<close> and \<^verbatim>\<open>completed\<close> ends the loop at once, with no further
  event. When the loop ends with such a run, the answer is
  \<^verbatim>\<open>Error: Run failed with status\<close> followed by that status, and the message log
  is never listed. When the run has such a status right after its creation,
  no tool function is called either.
\<close>

theorem failure_status_ends_the_loop:
  assumes "status run \<noteq> ''queued''" and "status run \<noteq> ''in_progress''"
    and "status run \<noteq> ''requires_action''" and "status run \<noteq> ''completed''"
  shows "poll_loop R E t run evs s = Some (Inr run, evs, s) \<and>
    (ensure_thread R thread_id s0 = (Inr t, evs0, s1) \<and>
     messages_create R t ''user'' msg s1 = (Inr u, s2) \<and>
     runs_create R t a s2 = (Inr first_run, s3) \<and>
     poll_loop R E t first_run (evs0 @ [MessagesCreate t ''user'' msg, RunsCreate t a]) s3
       = Some (Inr run, evs', s') \<longrightarrow>
       chat_with_assistant R E a msg thread_id s0
         = Some ((''Error: Run failed with status '' @ status run, Some t), evs', s') \<and>
       (\<forall>tid. MessagesList tid \<notin> set evs')) \<and>
    (ensure_thread R thread_id s0 = (Inr t, evs0, s1) \<and>
     messages_create R t ''user'' msg s1 = (Inr u, s2) \<and>
     runs_create R t a s2 = (Inr run, s3) \<longrightarrow>
       chat_with_assistant R E a msg thread_id s0
         = Some ((''Error: Run failed with status '' @ status run, Some t),
                 evs0 @ [MessagesCreate t ''user'' msg, RunsCreate t a], s3) \<and>
       (\<forall>n v. HandlerCall n v \<notin> set (evs0 @ [MessagesCreate t ''user'' msg, RunsCreate t a])) \<and>
       (\<forall>tid. MessagesList tid \<notin> set (evs0 @ [MessagesCreate t ''user'' msg, RunsCreate t a])))"
proof (intro conjI impI)
  have na: "\<not> active (status run)"
    using assms by (simp add: active_def)
  show ex: "poll_loop R E t run evs s = Some (Inr run, evs, s)" for evs s
    using na by (rule poll_loop_exit)
  {
    assume h: "ensure_thread R thread_id s0 = (Inr t, evs0, s1) \<and>
     messages_create R t ''user'' msg s1 = (Inr u, s2) \<and>
     runs_create R t a s2 = (Inr first_run, s3) \<and>
     poll_loop R E t first_run (evs0 @ [MessagesCreate t ''user'' msg, RunsCreate t a]) s3
       = Some (Inr run, evs', s')"
    then have e: "ensure_thread R thread_id s0 = (Inr t, evs0, s1)"
      and m: "messages_create R t ''user'' msg s1 = (Inr u, s2)"
      and r: "runs_create R t a s2 = (Inr first_run, s3)"
      and p: "poll_loop R E t first_run (evs0 @ [MessagesCreate t ''user'' msg, RunsCreate t a]) s3
       = Some (Inr run, evs', s')"
      by simp_all
    show "chat_with_assistant R E a msg thread_id s0
         = Some ((''Error: Run failed with status '' @ status run, Some t), evs', s')"
      using chat_with_assistant_loop [OF e m r, of E] p assms(4) by simp
    from poll_loop_events [OF p] obtain new where
      new: "evs' = (evs0 @ [MessagesCreate t ''user'' msg, RunsCreate t a]) @ new"
        "\<forall>ev\<in>set new. loop_event ev" by blast
    show "\<forall>tid. MessagesList tid \<notin> set evs'"
      using new ensure_thread_events [OF e] loop_event_simps(4) by auto
  }
  {
    assume h: "ensure_thread R thread_id s0 = (Inr t, evs0, s1) \<and>
     messages_create R t ''user'' msg s1 = (Inr u, s2) \<and>
     runs_create R t a s2 = (Inr run, s3)"
    then have e: "ensure_thread R thread_id s0 = (Inr t, evs0, s1)"
      and m: "messages_create R t ''user'' msg s1 = (Inr u, s2)"
      and r: "runs_create R t a s2 = (Inr run, s3)"
      by simp_all
    show "chat_with_assistant R E a msg thread_id s0
         = Some ((''Error: Run failed with status '' @ status run, Some t),
                 evs0 @ [MessagesCreate t ''user'' msg, RunsCreate t a], s3)"
      using chat_with_assistant_loop [OF e m r, of E] ex assms(4) by simp
    show "\<forall>n v. HandlerCall n v \<notin> set (evs0 @ [MessagesCreate t ''user'' msg, RunsCreate t a])"
      using ensure_thread_events [OF e] by auto
    show "\<forall>tid. MessagesList tid \<notin> set (evs0 @ [MessagesCreate t ''user'' msg, RunsCreate t a])"
      using ensure_thread_events [OF e] by auto
  }
qed

theorem failure_status_ends_the_loop_witness:
  "chat_with_assistant (stub_remote assistant_reply) stub_env ''asst_1'' ''How is Apple doing?'' None
       [failed_run]
     = Some ((''Error: Run failed with status failed'', Some ''thread_1''),
             [ThreadsCreate,
              MessagesCreate ''thread_1'' ''user'' ''How is Apple doing?'',
              RunsCreate ''thread_1'' ''asst_1''],
             []) \<and>
   chat_with_assistant (stub_remote assistant_reply) stub_env ''asst_1'' ''How is Apple doing?'' None
       [queued_run, expired_run]
     = Some ((''Error: Run failed with status expired'', Some ''thread_1''),
             [ThreadsCreate,
              MessagesCreate ''thread_1'' ''user'' ''How is Apple doing?'',
              RunsCreate ''thread_1'' ''asst_1'',
              Sleep 1, RunsRetrieve ''thread_1'' ''run_1''],
             [])"
proof -
  let ?R = "stub_remote assistant_reply"
  let ?q = "''How is Apple doing?''"
  have f: "status failed_run \<noteq> ''queued''" "status failed_run \<noteq> ''in_progress''"
    "status failed_run \<noteq> ''requires_action''" "status failed_run \<noteq> ''completed''"
    "status failed_run = ''failed''"
    by (simp_all add: failed_run_def)
  have x: "status expired_run \<noteq> ''queued''" "status expired_run \<noteq> ''in_progress''"
    "status expired_run \<noteq> ''requires_action''" "status expired_run \<noteq> ''completed''"
    "status expired_run = ''expired''"
    by (simp_all add: expired_run_def)
  have e: "ensure_thread ?R None s = (Inr ''thread_1'', [ThreadsCreate], s)" for s
    by (rule ensure_thread_stub_None)
  have m: "messages_create ?R ''thread_1'' ''user'' ?q s = (Inr (), s)" for s
    by (simp add: stub_remote_simps)
  have r1: "runs_create ?R ''thread_1'' ''asst_1'' [failed_run] = (Inr failed_run, [])"
    and r2: "runs_create ?R ''thread_1'' ''asst_1'' [queued_run, expired_run]
               = (Inr queued_run, [expired_run])"
    by (simp_all add: stub_remote_simps next_run_def)
  have lb: "loop_body ?R stub_env ''thread_1'' queued_run [expired_run]
              = (Inr expired_run, [Sleep 1, RunsRetrieve ''thread_1'' ''run_1''], [])"
    by (simp add: loop_body_def queued_run_def stub_remote_simps next_run_def)
  have aq: "active (status queued_run)"
    by (simp add: queued_run_def active_def)
  have p: "poll_loop ?R stub_env ''thread_1'' queued_run
             ([ThreadsCreate] @ [MessagesCreate ''thread_1'' ''user'' ?q, RunsCreate ''thread_1'' ''asst_1''])
             [expired_run]
           = Some (Inr expired_run,
                   [ThreadsCreate, MessagesCreate ''thread_1'' ''user'' ?q,
                    RunsCreate ''thread_1'' ''asst_1'', Sleep 1, RunsRetrieve ''thread_1'' ''run_1''], [])"
    using poll_loop_continue [OF aq lb] failure_status_ends_the_loop [OF x(1-4), of ?R stub_env]
    by simp
  from failure_status_ends_the_loop [OF f(1-4), where R = ?R and E = stub_env
      and thread_id = None and ?s0.0 = "[failed_run]" and t = "''thread_1''"
      and ?evs0.0 = "[ThreadsCreate]" and ?s1.0 = "[failed_run]" and msg = ?q and u = "()"
      and ?s2.0 = "[failed_run]" and a = "''asst_1''" and ?s3.0 = "[]"]
  have c1: "chat_with_assistant ?R stub_env ''asst_1'' ?q None [failed_run]
     = Some ((''Error: Run failed with status failed'', Some ''thread_1''),
             [ThreadsCreate, MessagesCreate ''thread_1'' ''user'' ?q,
              RunsCreate ''thread_1'' ''asst_1''], [])"
    by (simp add: e m r1 f(5))
  from failure_status_ends_the_loop [OF x(1-4), where R = ?R and E = stub_env
      and thread_id = None and ?s0.0 = "[queued_run, expired_run]" and t = "''thread_1''"
      and ?evs0.0 = "[ThreadsCreate]" and ?s1.0 = "[queued_run, expired_run]" and msg = ?q
      and u = "()" and ?s2.0 = "[queued_run, expired_run]" and a = "''asst_1''"
      and first_run = queued_run and ?s3.0 = "[expired_run]"
      and evs' = "[ThreadsCreate, MessagesCreate ''thread_1'' ''user'' ?q,
                    RunsCreate ''thread_1'' ''asst_1'', Sleep 1, RunsRetrieve ''thread_1'' ''run_1'']"
      and s' = "[]"]
  have c2: "chat_with_assistant ?R stub_env ''asst_1'' ?q None [queued_run, expired_run]
     = Some ((''Error: Run failed with status expired'', Some ''thread_1''),
             [ThreadsCreate, MessagesCreate ''thread_1'' ''user'' ?q,
              RunsCreate ''thread_1'' ''asst_1'', Sleep 1, RunsRetrieve ''thread_1'' ''run_1''], [])"
    using p by (simp add: e m r2 x(5))
  show ?thesis using c1 c2 by simp
qed

section \<open>The loop goes on until a terminal status\<close>

text \<open>
  Claim C5. After a batch of tool outputs is submitted, the loop goes on with
  the run the submission returned. While the status is \<^verbatim>\<open>queued\<close> or
  \<^verbatim>\<open>in_progress\<close> a pass sleeps for one second and retrieves the run again.
  When the loop ends with a run, the status of that run is none of the three
  the loop goes on with; and if after some number of passes the run at the head
  of the loop has such a status, the loop ends and returns that run.
\<close>

theorem loop_runs_until_terminal_status:
  "(status run = ''requires_action'' \<and> required_action run = Some calls \<and>
    tool_outputs_loop E calls [] [] = (Inr outs, hevs) \<and>
    submit_tool_outputs R t (run_id run) outs s = (Inr run', s') \<longrightarrow>
      poll_loop R E t run evs s =
        poll_loop R E t run' (evs @ hevs @ [SubmitToolOutputs t (run_id run) outs]) s') \<and>
   (status run \<in> {''queued'', ''in_progress''} \<and>
    runs_retrieve R t (run_id run) s = (Inr run', s') \<longrightarrow>
      poll_loop R E t run evs s =
        poll_loop R E t run' (evs @ [Sleep 1, RunsRetrieve t (run_id run)]) s') \<and>
   (poll_loop R E t run evs s = Some (Inr final, evs', s') \<longrightarrow>
      status final \<notin> {''queued'', ''in_progress'', ''requires_action''}) \<and>
   (loop_state R E t n run s = (Inr final, s') \<and>
    status final \<notin> {''queued'', ''in_progress'', ''requires_action''} \<longrightarrow>
      (\<exists>evs'. poll_loop R E t run evs s = Some (Inr final, evs', s')))"
proof (intro conjI impI)
  assume a: "status run = ''requires_action'' \<and> required_action run = Some calls \<and>
    tool_outputs_loop E calls [] [] = (Inr outs, hevs) \<and>
    submit_tool_outputs R t (run_id run) outs s = (Inr run', s')"
  then have "loop_body R E t run s = (Inr run', hevs @ [SubmitToolOutputs t (run_id run) outs], s')"
    using loop_body_requires_action [of run calls E outs hevs R t s] by simp
  moreover have "active (status run)" using a by (simp add: active_def)
  ultimately show "poll_loop R E t run evs s =
        poll_loop R E t run' (evs @ hevs @ [SubmitToolOutputs t (run_id run) outs]) s'"
    using poll_loop_continue [of run R E t s run' _ s' evs] by simp
next
  assume a: "status run \<in> {''queued'', ''in_progress''} \<and>
    runs_retrieve R t (run_id run) s = (Inr run', s')"
  then have "loop_body R E t run s = (Inr run', [Sleep 1, RunsRetrieve t (run_id run)], s')"
    by (auto simp: loop_body_def)
  moreover have "active (status run)" using a by (auto simp: active_def)
  ultimately show "poll_loop R E t run evs s =
        poll_loop R E t run' (evs @ [Sleep 1, RunsRetrieve t (run_id run)]) s'"
    using poll_loop_continue [of run R E t s run' _ s' evs] by simp
next
  assume "poll_loop R E t run evs s = Some (Inr final, evs', s')"
  from poll_loop_final_status [OF this]
  show "status final \<notin> {''queued'', ''in_progress'', ''requires_action''}"
    by (simp add: active_def)
next
  assume a: "loop_state R E t n run s = (Inr final, s') \<and>
    status final \<notin> {''queued'', ''in_progress'', ''requires_action''}"
  then have "halted (loop_state R E t n run s)"
    by (simp add: halted_def active_def)
  from poll_loop_halts [OF this, of evs] a
  show "\<exists>evs'. poll_loop R E t run evs s = Some (Inr final, evs', s')"
    by simp
qed

theorem loop_runs_until_terminal_status_witness:
  "loop_state (stub_remote assistant_reply) stub_env ''thread_1'' 2 stock_run
       [in_progress_run, completed_run] = (Inr completed_run, []) \<and>
   status completed_run \<notin> {''queued'', ''in_progress'', ''requires_action''} \<and>
   (\<exists>outs hevs.
      tool_outputs_loop stub_env
          [\<lparr>tc_id = ''call_1'', tc_function_name = ''get_stock_data'',
            tc_function_arguments = ''{\"symbol\": \"AAPL\"}''\<rparr>] [] []
        = (Inr outs, hevs) \<and>
      poll_loop (stub_remote assistant_reply) stub_env ''thread_1'' stock_run []
          [in_progress_run, completed_run]
        = Some (Inr completed_run,
                hevs @ [SubmitToolOutputs ''thread_1'' ''run_1'' outs,
                        Sleep 1, RunsRetrieve ''thread_1'' ''run_1''],
                []))"
proof -
  let ?R = "stub_remote assistant_reply"
  let ?calls = "[\<lparr>tc_id = ''call_1'', tc_function_name = ''get_stock_data'',
          tc_function_arguments = ''{\"symbol\": \"AAPL\"}''\<rparr>]"
  have st: "status stock_run = ''requires_action''"
    and ra: "required_action stock_run = Some ?calls"
    and rid: "run_id stock_run = ''run_1''"
    by (simp_all add: stock_run_def)
  have ip: "status in_progress_run \<in> {''queued'', ''in_progress''}"
    and rid2: "run_id in_progress_run = ''run_1''"
    by (simp_all add: in_progress_run_def)
  have fin: "status completed_run \<notin> {''queued'', ''in_progress'', ''requires_action''}"
    by (simp add: completed_run_def)
  have "\<forall>c\<in>set ?calls. \<exists>v. json_loads stub_env (tc_function_arguments c) = Inr v"
    by (simp add: stub_env_simps stub_loads_def)
  from tool_outputs_loop_parse [OF this, of "[]" "[]"]
  obtain outs hevs where tol: "tool_outputs_loop stub_env ?calls [] [] = (Inr outs, hevs)"
    by blast
  have sub: "submit_tool_outputs ?R ''thread_1'' (run_id stock_run) outs [in_progress_run, completed_run]
               = (Inr in_progress_run, [completed_run])"
    by (simp add: stub_remote_simps next_run_def)
  have ret: "runs_retrieve ?R ''thread_1'' (run_id in_progress_run) [completed_run]
               = (Inr completed_run, [])"
    by (simp add: stub_remote_simps next_run_def)
  have ls: "loop_state ?R stub_env ''thread_1'' 2 stock_run [in_progress_run, completed_run]
              = (Inr completed_run, [])"
    using tol sub ret
    by (simp add: numeral_2_eq_2 loop_body_def active_def st ra rid rid2
        in_progress_run_def completed_run_def)
  note step1 = loop_runs_until_terminal_status [where R = ?R and E = stub_env and t = "''thread_1''"
      and run = stock_run and calls = ?calls and outs = outs and hevs = hevs
      and s = "[in_progress_run, completed_run]" and run' = in_progress_run
      and s' = "[completed_run]" and evs = "[]"]
  note step2 = loop_runs_until_terminal_status [where R = ?R and E = stub_env and t = "''thread_1''"
      and run = in_progress_run and s = "[completed_run]" and run' = completed_run
      and s' = "[]" and evs = "hevs @ [SubmitToolOutputs ''thread_1'' ''run_1'' outs]"]
  have p3: "poll_loop ?R stub_env ''thread_1'' completed_run
              (hevs @ [SubmitToolOutputs ''thread_1'' ''run_1'' outs,
                        Sleep 1, RunsRetrieve ''thread_1'' ''run_1'']) []
            = Some (Inr completed_run,
                    hevs @ [SubmitToolOutputs ''thread_1'' ''run_1'' outs,
                        Sleep 1, RunsRetrieve ''thread_1'' ''run_1''], [])"
    using poll_loop_exit [of completed_run ?R stub_env "''thread_1''"] fin
    by (simp add: active_def)
  have p: "poll_loop ?R stub_env ''thread_1'' stock_run [] [in_progress_run, completed_run]
        = Some (Inr completed_run,
                hevs @ [SubmitToolOutputs ''thread_1'' ''run_1'' outs,
                        Sleep 1, RunsRetrieve ''thread_1'' ''run_1''], [])"
  proof -
    from step1 st ra tol sub
    have "poll_loop ?R stub_env ''thread_1'' stock_run [] [in_progress_run, completed_run]
            = poll_loop ?R stub_env ''thread_1'' in_progress_run
                ([] @ hevs @ [SubmitToolOutputs ''thread_1'' (run_id stock_run) outs]) [completed_run]"
      by blast
    also have "\<dots> = poll_loop ?R stub_env ''thread_1'' in_progress_run
                (hevs @ [SubmitToolOutputs ''thread_1'' ''run_1'' outs]) [completed_run]"
      by (simp add: rid)
    also from step2 ip ret
    have "\<dots> = poll_loop ?R stub_env ''thread_1'' completed_run
                ((hevs @ [SubmitToolOutputs ''thread_1'' ''run_1'' outs])
                   @ [Sleep 1, RunsRetrieve ''thread_1'' (run_id in_progress_run)]) []"
      by blast
    also have "\<dots> = poll_loop ?R stub_env ''thread_1'' completed_run
              (hevs @ [SubmitToolOutputs ''thread_1'' ''run_1'' outs,
                        Sleep 1, RunsRetrieve ''thread_1'' ''run_1'']) []"
      by (simp add: rid2)
    also note p3
    finally show ?thesis .
  qed
  show ?thesis
    using ls fin tol p by auto
qed

section \<open>Failures of the remote service\<close>

text \<open>
  Claim C3, as amended. \<^verbatim>\<open>chat_with_assistant\<close> never raises: when the call that
  creates the thread, posts the message, creates the run, retrieves the run,
  submits the tool outputs or lists the messages fails, the text of the
  exception, after \<^verbatim>\<open>Error:\<close>, is returned as the answer together with the thread
  id the function has at that point. The caller receives a pair of an answer
  and a thread id as soon as the loop has halted, and receives nothing exactly
  when the loop never halts: the run stays \<^verbatim>\<open>queued\<close>, \<^verbatim>\<open>in_progress\<close> or
  \<^verbatim>\<open>requires_action\<close> for ever and no call fails.
\<close>

theorem chat_with_assistant_error_text:
  "(\<not> truthy thread_id \<and> threads_create R s = (Inl e, s1) \<longrightarrow>
      chat_with_assistant R E a msg thread_id s
        = Some ((''Error: '' @ e, thread_id), [ThreadsCreate], s1)) \<and>
   (ensure_thread R thread_id s = (Inr t, evs0, s1) \<and>
    messages_create R t ''user'' msg s1 = (Inl e, s2) \<longrightarrow>
      chat_with_assistant R E a msg thread_id s
        = Some ((''Error: '' @ e, Some t), evs0 @ [MessagesCreate t ''user'' msg], s2)) \<and>
   (ensure_thread R thread_id s = (Inr t, evs0, s1) \<and>
    messages_create R t ''user'' msg s1 = (Inr u, s2) \<and>
    runs_create R t a s2 = (Inl e, s3) \<longrightarrow>
      chat_with_assistant R E a msg thread_id s
        = Some ((''Error: '' @ e, Some t),
                evs0 @ [MessagesCreate t ''user'' msg, RunsCreate t a], s3)) \<and>
   (ensure_thread R thread_id s = (Inr t, evs0, s1) \<and>
    messages_create R t ''user'' msg s1 = (Inr u, s2) \<and>
    runs_create R t a s2 = (Inr run, s3) \<longrightarrow>
      (loop_state R E t n run s3 = (Inr cur, sc) \<and>
       status cur \<in> {''queued'', ''in_progress''} \<and>
       runs_retrieve R t (run_id cur) sc = (Inl e, s4) \<longrightarrow>
         (\<exists>evs'. chat_with_assistant R E a msg thread_id s
                    = Some ((''Error: '' @ e, Some t), evs', s4))) \<and>
      (loop_state R E t n run s3 = (Inr cur, sc) \<and>
       status cur = ''requires_action'' \<and> required_action cur = Some calls \<and>
       tool_outputs_loop E calls [] [] = (Inr outs, hevs) \<and>
       submit_tool_outputs R t (run_id cur) outs sc = (Inl e, s4) \<longrightarrow>
         (\<exists>evs'. chat_with_assistant R E a msg thread_id s
                    = Some ((''Error: '' @ e, Some t), evs', s4))) \<and>
      (loop_state R E t n run s3 = (Inr final, s4) \<and> status final = ''completed'' \<and>
       messages_list R t s4 = (Inl e, s5) \<longrightarrow>
         (\<exists>evs'. chat_with_assistant R E a msg thread_id s
                    = Some ((''Error: '' @ e, Some t), evs', s5))) \<and>
      (halted (loop_state R E t n run s3) \<longrightarrow>
         (\<exists>response evs' s'. chat_with_assistant R E a msg thread_id s
                    = Some ((response, Some t), evs', s'))) \<and>
      ((chat_with_assistant R E a msg thread_id s = None)
         = (\<forall>k. \<not> halted (loop_state R E t k run s3))))"
proof (intro conjI impI)
  assume "\<not> truthy thread_id \<and> threads_create R s = (Inl e, s1)"
  then show "chat_with_assistant R E a msg thread_id s
        = Some ((''Error: '' @ e, thread_id), [ThreadsCreate], s1)"
    by (simp add: chat_with_assistant_def ensure_thread_def)
next
  assume "ensure_thread R thread_id s = (Inr t, evs0, s1) \<and>
    messages_create R t ''user'' msg s1 = (Inl e, s2)"
  then show "chat_with_assistant R E a msg thread_id s
        = Some ((''Error: '' @ e, Some t), evs0 @ [MessagesCreate t ''user'' msg], s2)"
    by (simp add: chat_with_assistant_def run_to_answer_def)
next
  assume "ensure_thread R thread_id s = (Inr t, evs0, s1) \<and>
    messages_create R t ''user'' msg s1 = (Inr u, s2) \<and>
    runs_create R t a s2 = (Inl e, s3)"
  then show "chat_with_assistant R E a msg thread_id s
        = Some ((''Error: '' @ e, Some t),
                evs0 @ [MessagesCreate t ''user'' msg, RunsCreate t a], s3)"
    by (simp add: chat_with_assistant_def run_to_answer_def)
next
  assume h: "ensure_thread R thread_id s = (Inr t, evs0, s1) \<and>
    messages_create R t ''user'' msg s1 = (Inr u, s2) \<and>
    runs_create R t a s2 = (Inr run, s3)"
  then have e: "ensure_thread R thread_id s = (Inr t, evs0, s1)"
    and m: "messages_create R t ''user'' msg s1 = (Inr u, s2)"
    and r: "runs_create R t a s2 = (Inr run, s3)"
    by simp_all
  note halted_case = chat_with_assistant_halted [OF e m r, of E]
  {
    assume c: "loop_state R E t n run s3 = (Inr cur, sc) \<and>
       status cur \<in> {''queued'', ''in_progress''} \<and>
       runs_retrieve R t (run_id cur) sc = (Inl e, s4)"
    then have lb: "loop_body R E t cur sc = (Inl e, [Sleep 1, RunsRetrieve t (run_id cur)], s4)"
      by (auto simp: loop_body_def)
    have act: "active (status cur)" using c by (auto simp: active_def)
    have ls0: "loop_state R E t n run s3 = (Inr cur, sc)" using c by simp
    have ls: "loop_state R E t (Suc n) run s3 = (Inl e, s4)"
      by (rule loop_state_raise [OF ls0 act lb])
    then have "halted (loop_state R E t (Suc n) run s3)" by (simp add: halted_def)
    from halted_case [OF this] ls
    show "\<exists>evs'. chat_with_assistant R E a msg thread_id s
                    = Some ((''Error: '' @ e, Some t), evs', s4)"
      by (simp del: loop_state.simps)
  }
  {
    assume c: "loop_state R E t n run s3 = (Inr cur, sc) \<and>
       status cur = ''requires_action'' \<and> required_action cur = Some calls \<and>
       tool_outputs_loop E calls [] [] = (Inr outs, hevs) \<and>
       submit_tool_outputs R t (run_id cur) outs sc = (Inl e, s4)"
    then have lb: "loop_body R E t cur sc
                 = (Inl e, hevs @ [SubmitToolOutputs t (run_id cur) outs], s4)"
      using loop_body_requires_action [of cur calls E outs hevs R t sc] by simp
    have act: "active (status cur)" using c by (simp add: active_def)
    have ls0: "loop_state R E t n run s3 = (Inr cur, sc)" using c by simp
    have ls: "loop_state R E t (Suc n) run s3 = (Inl e, s4)"
      by (rule loop_state_raise [OF ls0 act lb])
    then have "halted (loop_state R E t (Suc n) run s3)" by (simp add: halted_def)
    from halted_case [OF this] ls
    show "\<exists>evs'. chat_with_assistant R E a msg thread_id s
                    = Some ((''Error: '' @ e, Some t), evs', s4)"
      by (simp del: loop_state.simps)
  }
  {
    assume c: "loop_state R E t n run s3 = (Inr final, s4) \<and> status final = ''completed'' \<and>
       messages_list R t s4 = (Inl e, s5)"
    then have "halted (loop_state R E t n run s3)" by (simp add: halted_def active_def)
    from halted_case [OF this] c
    show "\<exists>evs'. chat_with_assistant R E a msg thread_id s
                    = Some ((''Error: '' @ e, Some t), evs', s5)"
      by auto
  }
  {
    assume "halted (loop_state R E t n run s3)"
    from poll_loop_halts [OF this, of "evs0 @ [MessagesCreate t ''user'' msg, RunsCreate t a]"]
    obtain evs' where
      "poll_loop R E t run (evs0 @ [MessagesCreate t ''user'' msg, RunsCreate t a]) s3
         = Some (fst (loop_state R E t n run s3), evs', snd (loop_state R E t n run s3))"
      by blast
    from chat_with_assistant_Some [OF e m r this]
    show "\<exists>response evs' s'. chat_with_assistant R E a msg thread_id s
                    = Some ((response, Some t), evs', s')" .
  }
  have "(chat_with_assistant R E a msg thread_id s = None)
          = (poll_loop R E t run (evs0 @ [MessagesCreate t ''user'' msg, RunsCreate t a]) s3 = None)"
  proof (cases "poll_loop R E t run (evs0 @ [MessagesCreate t ''user'' msg, RunsCreate t a]) s3")
    case None
    then show ?thesis using chat_with_assistant_loop [OF e m r, of E] by simp
  next
    case (Some y)
    obtain res evs' s4 where "y = (res, evs', s4)" by (cases y) auto
    with Some chat_with_assistant_Some [OF e m r, of E res evs' s4] show ?thesis by auto
  qed
  then show "(chat_with_assistant R E a msg thread_id s = None)
         = (\<forall>k. \<not> halted (loop_state R E t k run s3))"
    by (simp add: poll_loop_None_iff)
qed


theorem chat_with_assistant_error_text_witness:
  "chat_with_assistant (failing_remote ''threads.create'') stub_env ''asst_1'' ''Hi'' None []
     = Some ((''Error: Connection error.'', None), [ThreadsCreate], []) \<and>
   chat_with_assistant (failing_remote ''messages.create'') stub_env ''asst_1'' ''Hi'' None []
     = Some ((''Error: Connection error.'', Some ''thread_1''),
             [ThreadsCreate, MessagesCreate ''thread_1'' ''user'' ''Hi''], []) \<and>
   chat_with_assistant (failing_remote ''runs.create'') stub_env ''asst_1'' ''Hi'' None []
     = Some ((''Error: Connection error.'', Some ''thread_1''),
             [ThreadsCreate, MessagesCreate ''thread_1'' ''user'' ''Hi'',
              RunsCreate ''thread_1'' ''asst_1''], []) \<and>
   (\<exists>evs'. chat_with_assistant (failing_remote ''runs.retrieve'') stub_env ''asst_1'' ''Hi'' None
              [queued_run]
            = Some ((''Error: Connection error.'', Some ''thread_1''), evs', [])) \<and>
   (\<exists>evs'. chat_with_assistant (failing_remote ''runs.submit_tool_outputs'') stub_env ''asst_1''
              ''Hi'' None [stock_run]
            = Some ((''Error: Connection error.'', Some ''thread_1''), evs', [])) \<and>
   (\<exists>evs'. chat_with_assistant (failing_remote ''messages.list'') stub_env ''asst_1'' ''Hi'' None
              [completed_run]
            = Some ((''Error: Connection error.'', Some ''thread_1''), evs', [])) \<and>
   (\<exists>response evs' s'.
      chat_with_assistant (stub_remote assistant_reply) stub_env ''asst_1'' ''Hi'' None
          [completed_run]
        = Some ((response, Some ''thread_1''), evs', s')) \<and>
   chat_with_assistant stuck_remote stub_env ''asst_1'' ''Hi'' None () = None"
proof -
  note D = chat_with_assistant_error_text [THEN conjunct2, THEN conjunct2, THEN conjunct2, THEN mp]
  have et: "op \<noteq> ''threads.create'' \<Longrightarrow>
      ensure_thread (failing_remote op) None s = (Inr ''thread_1'', [ThreadsCreate], s)" for op s
    by (simp add: ensure_thread_def truthy_def failing_remote_simps)
  have c1: "chat_with_assistant (failing_remote ''threads.create'') stub_env ''asst_1'' ''Hi'' None []
     = Some ((''Error: Connection error.'', None), [ThreadsCreate], [])"
    using chat_with_assistant_error_text [where R = "failing_remote ''threads.create''" and thread_id = None and s = "[]"
        and e = "''Connection error.''" and ?s1.0 = "[]" and E = stub_env and a = "''asst_1''"
        and msg = "''Hi''", THEN conjunct1, THEN mp]
    by (simp add: truthy_def failing_remote_simps)
  have c2: "chat_with_assistant (failing_remote ''messages.create'') stub_env ''asst_1'' ''Hi'' None []
     = Some ((''Error: Connection error.'', Some ''thread_1''),
             [ThreadsCreate, MessagesCreate ''thread_1'' ''user'' ''Hi''], [])"
    using chat_with_assistant_error_text [where R = "failing_remote ''messages.create''" and thread_id = None and s = "[]"
        and t = "''thread_1''" and ?evs0.0 = "[ThreadsCreate]" and ?s1.0 = "[]"
        and e = "''Connection error.''" and ?s2.0 = "[]" and E = stub_env and a = "''asst_1''"
        and msg = "''Hi''", THEN conjunct2, THEN conjunct1, THEN mp]
    by (simp add: et failing_remote_simps)
  have c3: "chat_with_assistant (failing_remote ''runs.create'') stub_env ''asst_1'' ''Hi'' None []
     = Some ((''Error: Connection error.'', Some ''thread_1''),
             [ThreadsCreate, MessagesCreate ''thread_1'' ''user'' ''Hi'',
              RunsCreate ''thread_1'' ''asst_1''], [])"
    using chat_with_assistant_error_text [where R = "failing_remote ''runs.create''" and thread_id = None and s = "[]"
        and t = "''thread_1''" and ?evs0.0 = "[ThreadsCreate]" and ?s1.0 = "[]" and u = "()"
        and e = "''Connection error.''" and ?s2.0 = "[]" and ?s3.0 = "[]" and E = stub_env
        and a = "''asst_1''" and msg = "''Hi''",
        THEN conjunct2, THEN conjunct2, THEN conjunct1, THEN mp]
    by (simp add: et failing_remote_simps)
  have h4: "ensure_thread (failing_remote ''runs.retrieve'') None [queued_run]
              = (Inr ''thread_1'', [ThreadsCreate], [queued_run]) \<and>
            messages_create (failing_remote ''runs.retrieve'') ''thread_1'' ''user'' ''Hi'' [queued_run]
              = (Inr (), [queued_run]) \<and>
            runs_create (failing_remote ''runs.retrieve'') ''thread_1'' ''asst_1'' [queued_run]
              = (Inr queued_run, [])"
    by (simp add: et failing_remote_simps next_run_def)
  have k4: "loop_state (failing_remote ''runs.retrieve'') stub_env ''thread_1'' 0 queued_run []
              = (Inr queued_run, []) \<and>
            status queued_run \<in> {''queued'', ''in_progress''} \<and>
            runs_retrieve (failing_remote ''runs.retrieve'') ''thread_1'' (run_id queued_run) []
              = (Inl ''Connection error.'', [])"
    by (simp add: failing_remote_simps queued_run_def)
  have c4: "\<exists>evs'. chat_with_assistant (failing_remote ''runs.retrieve'') stub_env ''asst_1'' ''Hi'' None
              [queued_run]
            = Some ((''Error: Connection error.'', Some ''thread_1''), evs', [])"
    using D [OF h4, THEN conjunct1, THEN mp, OF k4] by simp
  let ?calls = "[\<lparr>tc_id = ''call_1'', tc_function_name = ''get_stock_data'',
          tc_function_arguments = ''{\"symbol\": \"AAPL\"}''\<rparr>]"
  have "\<forall>c\<in>set ?calls. \<exists>v. json_loads stub_env (tc_function_arguments c) = Inr v"
    by (simp add: stub_env_simps stub_loads_def)
  from tool_outputs_loop_parse [OF this, of "[]" "[]"]
  obtain outs hevs where tol: "tool_outputs_loop stub_env ?calls [] [] = (Inr outs, hevs)"
    by blast
  have h5: "ensure_thread (failing_remote ''runs.submit_tool_outputs'') None [stock_run]
              = (Inr ''thread_1'', [ThreadsCreate], [stock_run]) \<and>
            messages_create (failing_remote ''runs.submit_tool_outputs'') ''thread_1'' ''user'' ''Hi''
                [stock_run] = (Inr (), [stock_run]) \<and>
            runs_create (failing_remote ''runs.submit_tool_outputs'') ''thread_1'' ''asst_1'' [stock_run]
              = (Inr stock_run, [])"
    by (simp add: et failing_remote_simps next_run_def)
  have k5: "loop_state (failing_remote ''runs.submit_tool_outputs'') stub_env ''thread_1'' 0 stock_run []
              = (Inr stock_run, []) \<and>
            status stock_run = ''requires_action'' \<and> required_action stock_run = Some ?calls \<and>
            tool_outputs_loop stub_env ?calls [] [] = (Inr outs, hevs) \<and>
            submit_tool_outputs (failing_remote ''runs.submit_tool_outputs'') ''thread_1''
                (run_id stock_run) outs [] = (Inl ''Connection error.'', [])"
    using tol by (simp add: failing_remote_simps stock_run_def)
  have c5: "\<exists>evs'. chat_with_assistant (failing_remote ''runs.submit_tool_outputs'') stub_env ''asst_1''
              ''Hi'' None [stock_run]
            = Some ((''Error: Connection error.'', Some ''thread_1''), evs', [])"
    using D [OF h5, THEN conjunct2, THEN conjunct1, THEN mp, OF k5] by simp
  have h6: "ensure_thread (failing_remote ''messages.list'') None [completed_run]
              = (Inr ''thread_1'', [ThreadsCreate], [completed_run]) \<and>
            messages_create (failing_remote ''messages.list'') ''thread_1'' ''user'' ''Hi''
                [completed_run] = (Inr (), [completed_run]) \<and>
            runs_create (failing_remote ''messages.list'') ''thread_1'' ''asst_1'' [completed_run]
              = (Inr completed_run, [])"
    by (simp add: et failing_remote_simps next_run_def)
  have k6: "loop_state (failing_remote ''messages.list'') stub_env ''thread_1'' 0 completed_run []
              = (Inr completed_run, []) \<and>
            status completed_run = ''completed'' \<and>
            messages_list (failing_remote ''messages.list'') ''thread_1'' []
              = (Inl ''Connection error.'', [])"
    by (simp add: failing_remote_simps completed_run_def)
  have c6: "\<exists>evs'. chat_with_assistant (failing_remote ''messages.list'') stub_env ''asst_1'' ''Hi'' None
              [completed_run]
            = Some ((''Error: Connection error.'', Some ''thread_1''), evs', [])"
    using D [OF h6, THEN conjunct2, THEN conjunct2, THEN conjunct1, THEN mp, OF k6] by simp
  have h7: "ensure_thread (stub_remote assistant_reply) None [completed_run]
              = (Inr ''thread_1'', [ThreadsCreate], [completed_run]) \<and>
            messages_create (stub_remote assistant_reply) ''thread_1'' ''user'' ''Hi''
                [completed_run] = (Inr (), [completed_run]) \<and>
            runs_create (stub_remote assistant_reply) ''thread_1'' ''asst_1'' [completed_run]
              = (Inr completed_run, [])"
    by (simp add: ensure_thread_stub_None stub_remote_simps next_run_def)
  have k7: "halted (loop_state (stub_remote assistant_reply) stub_env ''thread_1'' 0 completed_run [])"
    by (simp add: halted_def active_def completed_run_def)
  have c7: "\<exists>response evs' s'.
      chat_with_assistant (stub_remote assistant_reply) stub_env ''asst_1'' ''Hi'' None
          [completed_run]
        = Some ((response, Some ''thread_1''), evs', s')"
    using D [OF h7, THEN conjunct2, THEN conjunct2, THEN conjunct2, THEN conjunct1, THEN mp, OF k7]
    by simp
  have h8: "ensure_thread stuck_remote None () = (Inr ''thread_1'', [ThreadsCreate], ()) \<and>
            messages_create stuck_remote ''thread_1'' ''user'' ''Hi'' () = (Inr (), ()) \<and>
            runs_create stuck_remote ''thread_1'' ''asst_1'' () = (Inr queued_run, ())"
    by (simp add: ensure_thread_def truthy_def stuck_remote_def)
  have "active (status queued_run)"
    by (simp add: queued_run_def active_def)
  then have k8: "\<forall>k. \<not> halted (loop_state stuck_remote stub_env ''thread_1'' k queued_run ())"
    by (simp add: stuck_remote_never_halts halted_def)
  have c8: "chat_with_assistant stuck_remote stub_env ''asst_1'' ''Hi'' None () = None"
    using D [OF h8, THEN conjunct2, THEN conjunct2, THEN conjunct2, THEN conjunct2]
      k8 by simp
  show ?thesis
    using c1 c2 c3 c4 c5 c6 c7 c8 by blast
qed

text \<open>
  Claim C3 as it is stated says that the caller always receives a pair. With a
  remote service that answers \<^verbatim>\<open>queued\<close> to every request, the loop polls for
  ever and \<^verbatim>\<open>chat_with_assistant\<close> does not return.
\<close>

theorem chat_with_assistant_never_returns_counterexample:
  "chat_with_assistant stuck_remote stub_env ''asst_1'' ''How is Apple doing?'' None () = None"
proof -
  have e: "ensure_thread stuck_remote None () = (Inr ''thread_1'', [ThreadsCreate], ())"
    by (simp add: ensure_thread_def truthy_def stuck_remote_def)
  have m: "messages_create stuck_remote ''thread_1'' ''user'' ''How is Apple doing?'' () = (Inr (), ())"
    by (simp add: stuck_remote_def)
  have r: "runs_create stuck_remote ''thread_1'' ''asst_1'' () = (Inr queued_run, ())"
    by (simp add: stuck_remote_def)
  have "active (status queued_run)"
    by (simp add: queued_run_def active_def)
  then have "\<forall>n. \<not> halted (loop_state stuck_remote stub_env ''thread_1'' n queued_run ())"
    by (simp add: stuck_remote_never_halts halted_def)
  then have "poll_loop stuck_remote stub_env ''thread_1'' queued_run evs () = None" for evs
    by (rule poll_loop_None)
  then show ?thesis
    using chat_with_assistant_loop [OF e m r, of stub_env] by simp
qed

section \<open>The thread of a session\<close>

text \<open>
  Claim C6. A thread is created only when the caller passes no thread id
  (\<^verbatim>\<open>None\<close> or the empty string): the call then starts by creating one thread,
  creates no other, and returns the id of the thread it created. When the
  caller passes a thread id, the call creates no thread and returns the id it
  was given; so a second call with the thread id the first call returned runs
  on the same thread.

  \<^verbatim>\<open>process_user_input\<close> calls \<^verbatim>\<open>chat_with_assistant\<close> with the thread id of the
  session and leaves in the session the id that call returned. So the first
  message of a session without a thread creates exactly one thread and the
  session holds its id; every later message of that session creates no thread
  and leaves the id as it is; only Clear Chat resets it.
\<close>

theorem thread_id_created_once_and_reused:
  "(truthy thread_id \<and>
    chat_with_assistant R E a msg thread_id s = Some ((response, thread_id'), evs, s') \<longrightarrow>
      thread_id' = thread_id \<and> ThreadsCreate \<notin> set evs) \<and>
   (\<not> truthy thread_id \<and>
    chat_with_assistant R E a msg thread_id s = Some ((response, thread_id'), evs, s') \<longrightarrow>
      (\<exists>rest. evs = ThreadsCreate # rest \<and> ThreadsCreate \<notin> set rest) \<and>
      thread_id' = (case fst (threads_create R s) of Inr t \<Rightarrow> Some t | Inl e \<Rightarrow> thread_id)) \<and>
   (chat_with_assistant R E a msg thread_id s = Some ((response, Some t), evs, s') \<and> t \<noteq> [] \<and>
    chat_with_assistant R E a msg2 (Some t) s' = Some ((response2, thread_id2), evs2, s2) \<longrightarrow>
      thread_id2 = Some t \<and> ThreadsCreate \<notin> set evs2) \<and>
   (truthy (ss_thread_id sess) \<and>
    process_user_input R E prompt sess s = Some (sess', pevs, ps') \<longrightarrow>
      ss_thread_id sess' = ss_thread_id sess \<and> ThreadsCreate \<notin> set pevs) \<and>
   (process_user_input R E prompt sess s = Some (sess', pevs, ps') \<longrightarrow>
      (\<exists>answer cevs cs.
         chat_with_assistant R E (ss_assistant_id sess) prompt (ss_thread_id sess) s
           = Some ((answer, ss_thread_id sess'), cevs, cs))) \<and>
   (\<not> truthy (ss_thread_id sess) \<and>
    process_user_input R E prompt sess s = Some (sess', pevs, ps') \<longrightarrow>
      length (filter (\<lambda>ev. ev = ThreadsCreate) pevs) = 1 \<and>
      ss_thread_id sess' =
        (case fst (threads_create R s) of Inr t \<Rightarrow> Some t | Inl e \<Rightarrow> ss_thread_id sess)) \<and>
   (\<not> truthy (ss_thread_id sess) \<and>
    process_user_input R E prompt sess s = Some (sess', pevs, ps') \<and>
    truthy (ss_thread_id sess') \<and>
    process_user_input R E prompt2 sess' ps' = Some (sess2, pevs2, ps2) \<longrightarrow>
      ss_thread_id sess2 = ss_thread_id sess' \<and>
      length (filter (\<lambda>ev. ev = ThreadsCreate) (pevs @ pevs2)) = 1) \<and>
   ss_thread_id (clear_chat sess) = None"
proof (intro conjI impI)
  assume "truthy thread_id \<and>
    chat_with_assistant R E a msg thread_id s = Some ((response, thread_id'), evs, s')"
  then show "thread_id' = thread_id" and "ThreadsCreate \<notin> set evs"
    using chat_with_assistant_truthy [of thread_id R E a msg s response thread_id' evs s']
    by simp_all
next
  assume "\<not> truthy thread_id \<and>
    chat_with_assistant R E a msg thread_id s = Some ((response, thread_id'), evs, s')"
  then show "\<exists>rest. evs = ThreadsCreate # rest \<and> ThreadsCreate \<notin> set rest"
    and "thread_id' = (case fst (threads_create R s) of Inr t \<Rightarrow> Some t | Inl e \<Rightarrow> thread_id)"
    using chat_with_assistant_falsy [of thread_id R E a msg s response thread_id' evs s']
    by simp_all
next
  assume h: "chat_with_assistant R E a msg thread_id s = Some ((response, Some t), evs, s') \<and>
    t \<noteq> [] \<and>
    chat_with_assistant R E a msg2 (Some t) s' = Some ((response2, thread_id2), evs2, s2)"
  then have "truthy (Some t)" by (simp add: truthy_def)
  then show "thread_id2 = Some t" and "ThreadsCreate \<notin> set evs2"
    using h chat_with_assistant_truthy [of "Some t" R E a msg2 s' response2 thread_id2 evs2 s2]
    by simp_all
next
  assume "truthy (ss_thread_id sess) \<and>
    process_user_input R E prompt sess s = Some (sess', pevs, ps')"
  then show "ss_thread_id sess' = ss_thread_id sess" and "ThreadsCreate \<notin> set pevs"
    using process_user_input_truthy [of sess R E prompt s sess' pevs ps'] by simp_all
next
  assume "process_user_input R E prompt sess s = Some (sess', pevs, ps')"
  from process_user_input_chat [OF this]
  show "\<exists>answer cevs cs.
         chat_with_assistant R E (ss_assistant_id sess) prompt (ss_thread_id sess) s
           = Some ((answer, ss_thread_id sess'), cevs, cs)"
    by blast
next
  assume "\<not> truthy (ss_thread_id sess) \<and>
    process_user_input R E prompt sess s = Some (sess', pevs, ps')"
  then show "length (filter (\<lambda>ev. ev = ThreadsCreate) pevs) = 1"
    and "ss_thread_id sess' =
        (case fst (threads_create R s) of Inr t \<Rightarrow> Some t | Inl e \<Rightarrow> ss_thread_id sess)"
    using process_user_input_falsy [of sess R E prompt s sess' pevs ps'] by simp_all
next
  assume h: "\<not> truthy (ss_thread_id sess) \<and>
    process_user_input R E prompt sess s = Some (sess', pevs, ps') \<and>
    truthy (ss_thread_id sess') \<and>
    process_user_input R E prompt2 sess' ps' = Some (sess2, pevs2, ps2)"
  then have one: "length (filter (\<lambda>ev. ev = ThreadsCreate) pevs) = 1"
    using process_user_input_falsy [of sess R E prompt s sess' pevs ps'] by simp
  from h have two: "ss_thread_id sess2 = ss_thread_id sess' \<and> ThreadsCreate \<notin> set pevs2"
    using process_user_input_truthy [of sess' R E prompt2 ps' sess2 pevs2 ps2] by simp
  then have "filter (\<lambda>ev. ev = ThreadsCreate) pevs2 = []"
    by (auto simp: filter_empty_conv)
  then show "ss_thread_id sess2 = ss_thread_id sess'"
    and "length (filter (\<lambda>ev. ev = ThreadsCreate) (pevs @ pevs2)) = 1"
    using one two by simp_all
next
  show "ss_thread_id (clear_chat sess) = None"
    by (simp add: clear_chat_def)
qed

theorem thread_id_created_once_and_reused_witness:
  "chat_with_assistant (stub_remote assistant_reply) stub_env ''asst_1'' ''How is Apple doing?''
       None [completed_run, completed_run]
     = Some ((''Apple trades at 150.12'', Some ''thread_1''),
             [ThreadsCreate,
              MessagesCreate ''thread_1'' ''user'' ''How is Apple doing?'',
              RunsCreate ''thread_1'' ''asst_1'',
              MessagesList ''thread_1''],
             [completed_run]) \<and>
   chat_with_assistant (stub_remote assistant_reply) stub_env ''asst_1'' ''And now?''
       (Some ''thread_1'') [completed_run]
     = Some ((''Apple trades at 150.12'', Some ''thread_1''),
             [MessagesCreate ''thread_1'' ''user'' ''And now?'',
              RunsCreate ''thread_1'' ''asst_1'',
              MessagesList ''thread_1''],
             []) \<and>
   ss_thread_id new_session = None \<and>
   process_user_input (stub_remote assistant_reply) stub_env ''How is Apple doing?''
       new_session [completed_run, completed_run]
     = Some (new_session
               \<lparr>ss_messages := [(''user'', ''How is Apple doing?''),
                                (''assistant'', ''Apple trades at 150.12'')],
                ss_thread_id := Some ''thread_1''\<rparr>,
             [StWrite ''How is Apple doing?'',
              ThreadsCreate,
              MessagesCreate ''thread_1'' ''user'' ''How is Apple doing?'',
              RunsCreate ''thread_1'' ''asst_1'',
              MessagesList ''thread_1'',
              StWrite ''Apple trades at 150.12''],
             [completed_run]) \<and>
   process_user_input (stub_remote assistant_reply) stub_env ''And now?''
       (new_session
          \<lparr>ss_messages := [(''user'', ''How is Apple doing?''),
                           (''assistant'', ''Apple trades at 150.12'')],
           ss_thread_id := Some ''thread_1''\<rparr>)
       [completed_run]
     = Some (new_session
               \<lparr>ss_messages := [(''user'', ''How is Apple doing?''),
                                (''assistant'', ''Apple trades at 150.12''),
                                (''user'', ''And now?''),
                                (''assistant'', ''Apple trades at 150.12'')],
                ss_thread_id := Some ''thread_1''\<rparr>,
             [StWrite ''And now?'',
              MessagesCreate ''thread_1'' ''user'' ''And now?'',
              RunsCreate ''thread_1'' ''asst_1'',
              MessagesList ''thread_1'',
              StWrite ''Apple trades at 150.12''],
             []) \<and>
   length (filter (\<lambda>ev. ev = ThreadsCreate)
     ([StWrite ''How is Apple doing?'',
       ThreadsCreate,
       MessagesCreate ''thread_1'' ''user'' ''How is Apple doing?'',
       RunsCreate ''thread_1'' ''asst_1'',
       MessagesList ''thread_1'',
       StWrite ''Apple trades at 150.12''] @
      [StWrite ''And now?'',
       MessagesCreate ''thread_1'' ''user'' ''And now?'',
       RunsCreate ''thread_1'' ''asst_1'',
       MessagesList ''thread_1'',
       StWrite ''Apple trades at 150.12''])) = 1 \<and>
   ss_thread_id (clear_chat (new_session
      \<lparr>ss_messages := [(''user'', ''How is Apple doing?''),
                       (''assistant'', ''Apple trades at 150.12''),
                       (''user'', ''And now?''),
                       (''assistant'', ''Apple trades at 150.12'')],
       ss_thread_id := Some ''thread_1''\<rparr>)) = None"
proof -
  let ?R = "stub_remote assistant_reply"
  let ?sess1 = "new_session
      \<lparr>ss_messages := [(''user'', ''How is Apple doing?''),
                       (''assistant'', ''Apple trades at 150.12'')],
       ss_thread_id := Some ''thread_1''\<rparr>"
  let ?sess2 = "new_session
      \<lparr>ss_messages := [(''user'', ''How is Apple doing?''),
                       (''assistant'', ''Apple trades at 150.12''),
                       (''user'', ''And now?''),
                       (''assistant'', ''Apple trades at 150.12'')],
       ss_thread_id := Some ''thread_1''\<rparr>"
  let ?pevs1 = "[StWrite ''How is Apple doing?'',
              ThreadsCreate,
              MessagesCreate ''thread_1'' ''user'' ''How is Apple doing?'',
              RunsCreate ''thread_1'' ''asst_1'',
              MessagesList ''thread_1'',
              StWrite ''Apple trades at 150.12'']"
  let ?pevs2 = "[StWrite ''And now?'',
              MessagesCreate ''thread_1'' ''user'' ''And now?'',
              RunsCreate ''thread_1'' ''asst_1'',
              MessagesList ''thread_1'',
              StWrite ''Apple trades at 150.12'']"
  have c1: "chat_with_assistant ?R stub_env ''asst_1'' ''How is Apple doing?''
       None [completed_run, completed_run]
     = Some ((''Apple trades at 150.12'', Some ''thread_1''),
             [ThreadsCreate,
              MessagesCreate ''thread_1'' ''user'' ''How is Apple doing?'',
              RunsCreate ''thread_1'' ''asst_1'',
              MessagesList ''thread_1''],
             [completed_run])"
    using stub_chat_completed [where E = stub_env and thread_id = None
        and rest = "[completed_run]", OF ensure_thread_stub_None] by simp
  have e2: "ensure_thread ?R (Some ''thread_1'') [completed_run]
              = (Inr ''thread_1'', [], [completed_run])"
    by (simp add: ensure_thread_def truthy_def)
  have c2: "chat_with_assistant ?R stub_env ''asst_1'' ''And now?''
       (Some ''thread_1'') [completed_run]
     = Some ((''Apple trades at 150.12'', Some ''thread_1''),
             [MessagesCreate ''thread_1'' ''user'' ''And now?'',
              RunsCreate ''thread_1'' ''asst_1'',
              MessagesList ''thread_1''],
             [])"
    using stub_chat_completed [where E = stub_env, OF e2] by simp
  have n0: "ss_thread_id new_session = None"
    by (simp add: new_session_def)
  have p1: "process_user_input ?R stub_env ''How is Apple doing?'' new_session
              [completed_run, completed_run] = Some (?sess1, ?pevs1, [completed_run])"
    using c1 by (simp add: process_user_input_def new_session_def)
  have p2: "process_user_input ?R stub_env ''And now?'' ?sess1 [completed_run]
              = Some (?sess2, ?pevs2, [])"
    using c2 by (simp add: process_user_input_def new_session_def)
  have h: "\<not> truthy (ss_thread_id new_session) \<and>
    process_user_input ?R stub_env ''How is Apple doing?'' new_session
      [completed_run, completed_run] = Some (?sess1, ?pevs1, [completed_run]) \<and>
    truthy (ss_thread_id ?sess1) \<and>
    process_user_input ?R stub_env ''And now?'' ?sess1 [completed_run]
      = Some (?sess2, ?pevs2, [])"
    using p1 p2 by (simp add: truthy_def new_session_def)
  note inst = thread_id_created_once_and_reused [where R = ?R and E = stub_env
      and s = "[completed_run, completed_run]" and sess = new_session
      and prompt = "''How is Apple doing?''" and sess' = ?sess1
      and pevs = ?pevs1 and ps' = "[completed_run]" and ?prompt2.0 = "''And now?''"
      and ?sess2.0 = ?sess2 and ?pevs2.0 = ?pevs2 and ?ps2.0 = "[]"]
  from inst [THEN conjunct2, THEN conjunct2, THEN conjunct2, THEN conjunct2, THEN conjunct2,
      THEN conjunct2, THEN conjunct1, THEN mp, OF h]
  have two: "ss_thread_id ?sess2 = ss_thread_id ?sess1 \<and>
      length (filter (\<lambda>ev. ev = ThreadsCreate) (?pevs1 @ ?pevs2)) = 1" .
  have cl: "ss_thread_id (clear_chat ?sess2) = None"
    using thread_id_created_once_and_reused [where sess = ?sess2, THEN conjunct2, THEN conjunct2,
        THEN conjunct2, THEN conjunct2, THEN conjunct2, THEN conjunct2, THEN conjunct2] .
  show ?thesis
    using c1 c2 n0 p1 p2 two cl by (intro conjI) simp_all
qed

section \<open>Quotes\<close>

text \<open>
  Claim C9. For every symbol string \<^verbatim>\<open>get_stock_data\<close> returns a dictionary,
  whatever the provider does: either a record with the keys \<^verbatim>\<open>symbol\<close>,
  \<^verbatim>\<open>current_price\<close>, \<^verbatim>\<open>company_name\<close>, \<^verbatim>\<open>market_cap\<close>, \<^verbatim>\<open>pe_ratio\<close>, \<^verbatim>\<open>52_week_high\<close>,
  \<^verbatim>\<open>52_week_low\<close> and \<^verbatim>\<open>volume\<close>, the last five \<^verbatim>\<open>None\<close> when the provider does
  not give them, or a dictionary with the single key \<^verbatim>\<open>error\<close> and a text. It
  is the error dictionary when the provider raises, and when the price history
  is empty.
\<close>

theorem get_stock_data_record_or_error:
  "((\<exists>msg. get_stock_data E (PStr symbol) = PDict [(''error'', PStr msg)]) \<or>
    (\<exists>price name cap pe hi lo vol.
       get_stock_data E (PStr symbol) =
         PDict [(''symbol'', PStr (upper symbol)),
                (''current_price'', PFloat price),
                (''company_name'', name),
                (''market_cap'', cap),
                (''pe_ratio'', pe),
                (''52_week_high'', hi),
                (''52_week_low'', lo),
                (''volume'', vol)])) \<and>
   (ticker_info E (upper symbol) = Inl e \<longrightarrow>
      get_stock_data E (PStr symbol) =
        PDict [(''error'', PStr (''Could not fetch data for '' @ symbol @ '': '' @ e))]) \<and>
   (ticker_info E (upper symbol) = Inr info \<and>
    ticker_history E (upper symbol) ''1d'' = Inl e \<longrightarrow>
      get_stock_data E (PStr symbol) =
        PDict [(''error'', PStr (''Could not fetch data for '' @ symbol @ '': '' @ e))]) \<and>
   (ticker_info E (upper symbol) = Inr info \<and>
    ticker_history E (upper symbol) ''1d'' = Inr [] \<longrightarrow>
      get_stock_data E (PStr symbol) =
        PDict [(''error'', PStr (''No data available for '' @ symbol))]) \<and>
   (ticker_info E (upper symbol) = Inr info \<and>
    ticker_history E (upper symbol) ''1d'' = Inr hist \<and> hist \<noteq> [] \<longrightarrow>
      get_stock_data E (PStr symbol) =
        PDict [(''symbol'', PStr (upper symbol)),
               (''current_price'', PFloat (py_round2 (last hist))),
               (''company_name'', dict_get info ''longName'' (PStr symbol)),
               (''market_cap'', dict_get info ''marketCap'' PNone),
               (''pe_ratio'', dict_get info ''trailingPE'' PNone),
               (''52_week_high'', dict_get info ''fiftyTwoWeekHigh'' PNone),
               (''52_week_low'', dict_get info ''fiftyTwoWeekLow'' PNone),
               (''volume'', dict_get info ''volume'' PNone)])"
proof (intro conjI impI)
  show "(\<exists>msg. get_stock_data E (PStr symbol) = PDict [(''error'', PStr msg)]) \<or>
    (\<exists>price name cap pe hi lo vol.
       get_stock_data E (PStr symbol) =
         PDict [(''symbol'', PStr (upper symbol)),
                (''current_price'', PFloat price),
                (''company_name'', name),
                (''market_cap'', cap),
                (''pe_ratio'', pe),
                (''52_week_high'', hi),
                (''52_week_low'', lo),
                (''volume'', vol)])"
  proof (cases "ticker_info E (upper symbol)")
    case (Inl e)
    then show ?thesis
      by (simp add: get_stock_data_def get_stock_data_try_def py_upper_def error_dict_def)
  next
    case info: (Inr info)
    show ?thesis
    proof (cases "ticker_history E (upper symbol) ''1d''")
      case (Inl e)
      then show ?thesis using info
        by (simp add: get_stock_data_def get_stock_data_try_def py_upper_def error_dict_def)
    next
      case (Inr hist)
      then show ?thesis using info
        by (cases "hist = []")
          (simp_all add: get_stock_data_def get_stock_data_try_def py_upper_def error_dict_def
            Let_def)
    qed
  qed
next
  assume "ticker_info E (upper symbol) = Inl e"
  then show "get_stock_data E (PStr symbol) =
        PDict [(''error'', PStr (''Could not fetch data for '' @ symbol @ '': '' @ e))]"
    by (simp add: get_stock_data_def get_stock_data_try_def py_upper_def error_dict_def
        py_format_def)
next
  assume "ticker_info E (upper symbol) = Inr info \<and>
    ticker_history E (upper symbol) ''1d'' = Inl e"
  then show "get_stock_data E (PStr symbol) =
        PDict [(''error'', PStr (''Could not fetch data for '' @ symbol @ '': '' @ e))]"
    by (simp add: get_stock_data_def get_stock_data_try_def py_upper_def error_dict_def
        py_format_def)
next
  assume "ticker_info E (upper symbol) = Inr info \<and>
    ticker_history E (upper symbol) ''1d'' = Inr []"
  then show "get_stock_data E (PStr symbol) =
        PDict [(''error'', PStr (''No data available for '' @ symbol))]"
    by (simp add: get_stock_data_def get_stock_data_try_def py_upper_def error_dict_def
        py_format_def)
next
  assume "ticker_info E (upper symbol) = Inr info \<and>
    ticker_history E (upper symbol) ''1d'' = Inr hist \<and> hist \<noteq> []"
  then show "get_stock_data E (PStr symbol) =
        PDict [(''symbol'', PStr (upper symbol)),
               (''current_price'', PFloat (py_round2 (last hist))),
               (''company_name'', dict_get info ''longName'' (PStr symbol)),
               (''market_cap'', dict_get info ''marketCap'' PNone),
               (''pe_ratio'', dict_get info ''trailingPE'' PNone),
               (''52_week_high'', dict_get info ''fiftyTwoWeekHigh'' PNone),
               (''52_week_low'', dict_get info ''fiftyTwoWeekLow'' PNone),
               (''volume'', dict_get info ''volume'' PNone)]"
    by (simp add: get_stock_data_def get_stock_data_try_def py_upper_def Let_def)
qed

theorem get_stock_data_record_or_error_witness:
  "get_stock_data stub_env (PStr ''aapl'') =
     PDict [(''symbol'', PStr ''AAPL''),
            (''current_price'', PFloat (float_of_rat (15012 / 100))),
            (''company_name'', PStr ''Apple Inc.''),
            (''market_cap'', PInt 2300000000000),
            (''pe_ratio'', PFloat (float_of_rat (2875 / 100))),
            (''52_week_high'', PNone),
            (''52_week_low'', PNone),
            (''volume'', PInt 51000000)] \<and>
   get_stock_data stub_env (PStr ''ZZZZ'') =
     PDict [(''error'', PStr ''No data available for ZZZZ'')] \<and>
   get_stock_data stub_env (PStr ''FAIL'') =
     PDict [(''error'', PStr ''Could not fetch data for FAIL: HTTP Error 404: Not Found'')]"
proof -
  let ?info = "[(''longName'', PStr ''Apple Inc.''), (''marketCap'', PInt 2300000000000),
               (''trailingPE'', PFloat (float_of_rat (2875 / 100))), (''volume'', PInt 51000000)]"
  have a: "ticker_info stub_env (upper ''aapl'') = Inr ?info \<and>
           ticker_history stub_env (upper ''aapl'') ''1d'' = Inr [float_of_rat (150123 / 1000)] \<and>
           [float_of_rat (150123 / 1000)] \<noteq> []"
    by (simp add: upper_examples stub_env_def)
  have z: "ticker_info stub_env (upper ''ZZZZ'') = Inr [] \<and>
           ticker_history stub_env (upper ''ZZZZ'') ''1d'' = Inr []"
    by (simp add: upper_examples stub_env_def)
  have f: "ticker_info stub_env (upper ''FAIL'') = Inl ''HTTP Error 404: Not Found''"
    by (simp add: upper_examples stub_env_def)
  have c1: "get_stock_data stub_env (PStr ''aapl'') =
     PDict [(''symbol'', PStr ''AAPL''),
            (''current_price'', PFloat (float_of_rat (15012 / 100))),
            (''company_name'', PStr ''Apple Inc.''),
            (''market_cap'', PInt 2300000000000),
            (''pe_ratio'', PFloat (float_of_rat (2875 / 100))),
            (''52_week_high'', PNone),
            (''52_week_low'', PNone),
            (''volume'', PInt 51000000)]"
    using get_stock_data_record_or_error [where E = stub_env and symbol = "''aapl''"
        and info = ?info and hist = "[float_of_rat (150123 / 1000)]",
        THEN conjunct2, THEN conjunct2, THEN conjunct2, THEN conjunct2, THEN mp, OF a]
    by (simp add: upper_examples py_round2_example dict_get_def)
  have c2: "get_stock_data stub_env (PStr ''ZZZZ'') =
     PDict [(''error'', PStr ''No data available for ZZZZ'')]"
    using get_stock_data_record_or_error [where E = stub_env and symbol = "''ZZZZ''"
        and info = "[]",
        THEN conjunct2, THEN conjunct2, THEN conjunct2, THEN conjunct1, THEN mp, OF z]
    by simp
  have c3: "get_stock_data stub_env (PStr ''FAIL'') =
     PDict [(''error'', PStr ''Could not fetch data for FAIL: HTTP Error 404: Not Found'')]"
    using get_stock_data_record_or_error [where E = stub_env and symbol = "''FAIL''"
        and e = "''HTTP Error 404: Not Found''",
        THEN conjunct2, THEN conjunct1, THEN mp, OF f]
    by simp
  show ?thesis using c1 c2 c3 by simp
qed

section \<open>The market overview\<close>

text \<open>
  Claim C10. \<^verbatim>\<open>get_market_overview\<close> goes through 24 indices. An index whose
  price history is empty gets no entry, neither values nor an error, so the
  result then has fewer than 24 entries. Every entry that is there belongs to
  one of the indices and is either \<^verbatim>\<open>current\<close>, \<^verbatim>\<open>change\<close> and \<^verbatim>\<open>change_percent\<close>, each
  the result of \<^verbatim>\<open>round(x, 2)\<close>, or an \<^verbatim>\<open>error\<close> with the text of the exception raised
  for that index: the provider's, or the \<^verbatim>\<open>ZeroDivisionError\<close> of the division when
  the previous close is zero. With the closes \<open>hist\<close>, the last of them \<open>current\<close>
  and the one before it \<open>prev\<close> (\<open>current\<close> itself when there is one day only),
  the three values are the rounded \<open>current\<close>, \<open>current - prev\<close> and
  \<open>(current - prev) / prev * 100\<close>, in float arithmetic.

  With one day of history the outcome depends on the close. A finite close
  other than zero gives the change 0 and the change in percent 0 (\<^verbatim>\<open>-0.0\<close> when
  the close is negative). A close of zero gives the \<^verbatim>\<open>error\<close> entry of the division
  by zero, although nothing failed in fetching. A close that is NaN or an infinity
  gives NaN for the change and for the change in percent.

  \<^verbatim>\<open>round(x, 2)\<close> of a finite float is the float nearest to the multiple of 1/100
  nearest to it, which is at most 1/200 away; NaN and the infinities are returned
  as they are.
\<close>

theorem market_overview_entries:
  "length (get_market_overview E) \<le> 24 \<and>
   ((name, symbol) \<in> set indices \<and> ticker_history E symbol ''2d'' = Inr [] \<longrightarrow>
      map_of (get_market_overview E) name = None \<and> length (get_market_overview E) < 24) \<and>
   ((name, entry) \<in> set (get_market_overview E) \<longrightarrow>
      (\<exists>symbol. (name, symbol) \<in> set indices \<and>
         ((\<exists>e. entry = PDict [(''error'', PStr e)] \<and>
               (ticker_history E symbol ''2d'' = Inl e \<or>
                (e = ''float division by zero'' \<and>
                 (\<exists>hist. ticker_history E symbol ''2d'' = Inr hist \<and> hist \<noteq> [] \<and>
                    is_zero (if length hist > 1 then hist ! (length hist - 2) else last hist))))) \<or>
          (\<exists>cur chg pct.
              entry = PDict [(''current'', PFloat (py_round2 cur)),
                             (''change'', PFloat (py_round2 chg)),
                             (''change_percent'', PFloat (py_round2 pct))])))) \<and>
   ((name, symbol) \<in> set indices \<and> ticker_history E symbol ''2d'' = Inl e \<longrightarrow>
      map_of (get_market_overview E) name = Some (PDict [(''error'', PStr e)])) \<and>
   ((name, symbol) \<in> set indices \<and> ticker_history E symbol ''2d'' = Inr hist \<and> hist \<noteq> [] \<and>
    prev = (if length hist > 1 then hist ! (length hist - 2) else last hist) \<longrightarrow>
      map_of (get_market_overview E) name =
        (case fdiv (fsub (last hist) prev) prev of
           Inl err \<Rightarrow> Some (PDict [(''error'', PStr err)])
         | Inr ratio \<Rightarrow>
             Some (PDict
               [(''current'', PFloat (py_round2 (last hist))),
                (''change'', PFloat (py_round2 (fsub (last hist) prev))),
                (''change_percent'', PFloat (py_round2 (fmul ratio (Fin 100))))]))) \<and>
   ((name, symbol) \<in> set indices \<and> ticker_history E symbol ''2d'' = Inr [Fin q] \<and> q \<noteq> 0 \<longrightarrow>
      map_of (get_market_overview E) name =
        Some (PDict [(''current'', PFloat (py_round2 (Fin q))),
                     (''change'', PFloat (Fin 0)),
                     (''change_percent'', PFloat (if q < 0 then NegZero else Fin 0))])) \<and>
   ((name, symbol) \<in> set indices \<and> ticker_history E symbol ''2d'' = Inr [c] \<and> is_zero c \<longrightarrow>
      map_of (get_market_overview E) name =
        Some (PDict [(''error'', PStr ''float division by zero'')])) \<and>
   ((name, symbol) \<in> set indices \<and> ticker_history E symbol ''2d'' = Inr [c] \<and>
    (c = NaN \<or> c = PosInf \<or> c = NegInf) \<longrightarrow>
      map_of (get_market_overview E) name =
        Some (PDict [(''current'', PFloat c),
                     (''change'', PFloat NaN),
                     (''change_percent'', PFloat NaN)])) \<and>
   py_round2 (Fin x) =
     (if round_hundredths x = 0 then (if x < 0 then NegZero else Fin 0)
      else float_of_ratio (round_hundredths x) 100) \<and>
   \<bar>of_int (round_hundredths x) / 100 - x\<bar> \<le> 1 / 200 \<and>
   py_round2 NegZero = NegZero \<and> py_round2 NaN = NaN \<and>
   py_round2 PosInf = PosInf \<and> py_round2 NegInf = NegInf"
proof (intro conjI impI)
  note gc = get_market_overview_concat [of E]
  note look = map_of_concat_entries [OF distinct_indices, of _ _ E]
  show "length (get_market_overview E) \<le> 24"
    using length_concat_entries [of E indices] by (simp add: gc length_indices)
  {
    assume h: "(name, symbol) \<in> set indices \<and> ticker_history E symbol ''2d'' = Inr []"
    then have ent: "overview_entry E (name, symbol) = []"
      by (simp add: overview_entry_def overview_try_empty)
    show "map_of (get_market_overview E) name = None"
      using h look [of name symbol] ent by (simp add: gc)
    show "length (get_market_overview E) < 24"
      using h length_concat_entries_less [of "(name, symbol)" indices E] ent
      by (simp add: gc length_indices)
  }
  {
    assume "(name, entry) \<in> set (get_market_overview E)"
    then obtain idx where idx: "idx \<in> set indices"
      and mem: "(name, entry) \<in> set (overview_entry E idx)"
      by (auto simp: gc)
    from overview_entry_key [OF mem] have nm: "name = fst idx" .
    then have in_idx: "(name, snd idx) \<in> set indices" using idx by simp
    show "\<exists>symbol. (name, symbol) \<in> set indices \<and>
         ((\<exists>e. entry = PDict [(''error'', PStr e)] \<and>
               (ticker_history E symbol ''2d'' = Inl e \<or>
                (e = ''float division by zero'' \<and>
                 (\<exists>hist. ticker_history E symbol ''2d'' = Inr hist \<and> hist \<noteq> [] \<and>
                    is_zero (if length hist > 1 then hist ! (length hist - 2) else last hist))))) \<or>
          (\<exists>cur chg pct.
              entry = PDict [(''current'', PFloat (py_round2 cur)),
                             (''change'', PFloat (py_round2 chg)),
                             (''change_percent'', PFloat (py_round2 pct))]))"
    proof (cases "overview_try E (snd idx)")
      case (Inl e)
      then have "entry = PDict [(''error'', PStr e)]"
        using mem by (simp add: overview_entry_def error_dict_def)
      then show ?thesis
        using in_idx overview_try_shape(1) [OF Inl] by blast
    next
      case (Inr r)
      then obtain ent where r: "r = Some ent" and "entry = ent"
        using mem by (cases r) (auto simp: overview_entry_def)
      then have "overview_try E (snd idx) = Inr (Some entry)" using Inr by simp
      from overview_try_shape(2) [OF this] show ?thesis
        using in_idx by blast
    qed
  }
  {
    assume h: "(name, symbol) \<in> set indices \<and> ticker_history E symbol ''2d'' = Inl e"
    then have "overview_entry E (name, symbol) = [(name, PDict [(''error'', PStr e)])]"
      by (simp add: overview_entry_def overview_try_raise error_dict_def)
    then show "map_of (get_market_overview E) name = Some (PDict [(''error'', PStr e)])"
      using h look [of name symbol] by (simp add: gc)
  }
  {
    assume h: "(name, symbol) \<in> set indices \<and> ticker_history E symbol ''2d'' = Inr hist \<and>
      hist \<noteq> [] \<and> prev = (if length hist > 1 then hist ! (length hist - 2) else last hist)"
    then have t: "overview_try E symbol =
       (case fdiv (fsub (last hist) prev) prev of
          Inl e \<Rightarrow> Inl e
        | Inr ratio \<Rightarrow>
            Inr (Some (PDict
              [(''current'', PFloat (py_round2 (last hist))),
               (''change'', PFloat (py_round2 (fsub (last hist) prev))),
               (''change_percent'', PFloat (py_round2 (fmul ratio (Fin 100))))])))"
      using overview_try_days [of E symbol hist prev] by blast
    have "map_of (overview_entry E (name, symbol)) name =
        (case fdiv (fsub (last hist) prev) prev of
           Inl err \<Rightarrow> Some (PDict [(''error'', PStr err)])
         | Inr ratio \<Rightarrow>
             Some (PDict
               [(''current'', PFloat (py_round2 (last hist))),
                (''change'', PFloat (py_round2 (fsub (last hist) prev))),
                (''change_percent'', PFloat (py_round2 (fmul ratio (Fin 100))))]))"
      by (cases "fdiv (fsub (last hist) prev) prev")
        (simp_all add: overview_entry_def t error_dict_def)
    then show "map_of (get_market_overview E) name =
        (case fdiv (fsub (last hist) prev) prev of
           Inl err \<Rightarrow> Some (PDict [(''error'', PStr err)])
         | Inr ratio \<Rightarrow>
             Some (PDict
               [(''current'', PFloat (py_round2 (last hist))),
                (''change'', PFloat (py_round2 (fsub (last hist) prev))),
                (''change_percent'', PFloat (py_round2 (fmul ratio (Fin 100))))]))"
      using h look [of name symbol] by (simp add: gc)
  }
  {
    assume h: "(name, symbol) \<in> set indices \<and> ticker_history E symbol ''2d'' = Inr [Fin q] \<and>
      q \<noteq> 0"
    then have "overview_entry E (name, symbol) =
        [(name, PDict [(''current'', PFloat (py_round2 (Fin q))),
                       (''change'', PFloat (Fin 0)),
                       (''change_percent'', PFloat (if q < 0 then NegZero else Fin 0))])]"
      by (simp add: overview_entry_def overview_try_one_day signed_zero_def)
    then show "map_of (get_market_overview E) name =
        Some (PDict [(''current'', PFloat (py_round2 (Fin q))),
                     (''change'', PFloat (Fin 0)),
                     (''change_percent'', PFloat (if q < 0 then NegZero else Fin 0))])"
      using h look [of name symbol] by (simp add: gc)
  }
  {
    assume h: "(name, symbol) \<in> set indices \<and> ticker_history E symbol ''2d'' = Inr [c] \<and>
      is_zero c"
    then have "overview_entry E (name, symbol) =
        [(name, PDict [(''error'', PStr ''float division by zero'')])]"
      by (simp add: overview_entry_def overview_try_one_day_zero error_dict_def)
    then show "map_of (get_market_overview E) name =
        Some (PDict [(''error'', PStr ''float division by zero'')])"
      using h look [of name symbol] by (simp add: gc)
  }
  {
    assume h: "(name, symbol) \<in> set indices \<and> ticker_history E symbol ''2d'' = Inr [c] \<and>
      (c = NaN \<or> c = PosInf \<or> c = NegInf)"
    then have "overview_try E symbol =
       Inr (Some (PDict [(''current'', PFloat c),
                         (''change'', PFloat NaN),
                         (''change_percent'', PFloat NaN)]))"
      using overview_try_one_day_special [of E symbol c] by blast
    then have "overview_entry E (name, symbol) =
        [(name, PDict [(''current'', PFloat c),
                       (''change'', PFloat NaN),
                       (''change_percent'', PFloat NaN)])]"
      by (simp add: overview_entry_def)
    then show "map_of (get_market_overview E) name =
        Some (PDict [(''current'', PFloat c),
                     (''change'', PFloat NaN),
                     (''change_percent'', PFloat NaN)])"
      using h look [of name symbol] by (simp add: gc)
  }
  show "py_round2 (Fin x) =
     (if round_hundredths x = 0 then (if x < 0 then NegZero else Fin 0)
      else float_of_ratio (round_hundredths x) 100)"
    by (simp add: py_round2_def signed_zero_def)
  show "\<bar>of_int (round_hundredths x) / 100 - x\<bar> \<le> 1 / 200"
    by (rule round_hundredths_near)
  show "py_round2 NegZero = NegZero" "py_round2 NaN = NaN"
    "py_round2 PosInf = PosInf" "py_round2 NegInf = NegInf"
    by (simp_all add: py_round2_special)
qed

theorem market_overview_entries_witness:
  "get_market_overview stub_env =
     [(''S&P 500'', PDict [(''current'', PFloat (Fin 4545)), (''change'', PFloat (Fin 45)),
                           (''change_percent'', PFloat (Fin 1))]),
      (''NASDAQ'', PDict [(''current'', PFloat (Fin 14000)), (''change'', PFloat (Fin 0)),
                          (''change_percent'', PFloat (Fin 0))]),
      (''NVIDIA'', PDict [(''error'', PStr ''Too Many Requests. Rate limited. Try after a while.'')]),
      (''Russell 2000'', PDict [(''current'', PFloat (float_of_rat (327 / 100))),
                                (''change'', PFloat (float_of_rat (227 / 100))),
                                (''change_percent'', PFloat (Fin (455 / 2)))]),
      (''Crude Oil'', PDict [(''error'', PStr ''float division by zero'')]),
      (''Silver'', PDict [(''current'', PFloat NaN), (''change'', PFloat NaN),
                          (''change_percent'', PFloat NaN)])] \<and>
   (''Gold'', ''GC=F'') \<in> set indices \<and> ticker_history stub_env ''GC=F'' ''2d'' = Inr [] \<and>
   map_of (get_market_overview stub_env) ''Gold'' = None \<and>
   length (get_market_overview stub_env) < 24 \<and>
   (''NASDAQ'', ''^IXIC'') \<in> set indices \<and>
   ticker_history stub_env ''^IXIC'' ''2d'' = Inr [Fin 14000] \<and>
   map_of (get_market_overview stub_env) ''NASDAQ'' =
     Some (PDict [(''current'', PFloat (Fin 14000)), (''change'', PFloat (Fin 0)),
                  (''change_percent'', PFloat (Fin 0))]) \<and>
   (''NVIDIA'', ''NVDA'') \<in> set indices \<and>
   map_of (get_market_overview stub_env) ''NVIDIA'' =
     Some (PDict [(''error'', PStr ''Too Many Requests. Rate limited. Try after a while.'')]) \<and>
   (''Russell 2000'', ''^RUT'') \<in> set indices \<and>
   ticker_history stub_env ''^RUT'' ''2d'' = Inr [Fin 1, float_of_rat (3275 / 1000)] \<and>
   map_of (get_market_overview stub_env) ''Russell 2000'' =
     Some (PDict [(''current'', PFloat (float_of_rat (327 / 100))),
                  (''change'', PFloat (float_of_rat (227 / 100))),
                  (''change_percent'', PFloat (Fin (455 / 2)))]) \<and>
   (''Crude Oil'', ''CL=F'') \<in> set indices \<and>
   ticker_history stub_env ''CL=F'' ''2d'' = Inr [Fin 0] \<and>
   map_of (get_market_overview stub_env) ''Crude Oil'' =
     Some (PDict [(''error'', PStr ''float division by zero'')]) \<and>
   (''Silver'', ''SI=F'') \<in> set indices \<and> ticker_history stub_env ''SI=F'' ''2d'' = Inr [NaN] \<and>
   map_of (get_market_overview stub_env) ''Silver'' =
     Some (PDict [(''current'', PFloat NaN), (''change'', PFloat NaN),
                  (''change_percent'', PFloat NaN)])"
proof -
  have g: "(''Gold'', ''GC=F'') \<in> set indices \<and> ticker_history stub_env ''GC=F'' ''2d'' = Inr []"
    by (simp add: indices_def stub_env_def)
  have n: "(''NASDAQ'', ''^IXIC'') \<in> set indices \<and>
           ticker_history stub_env ''^IXIC'' ''2d'' = Inr [Fin 14000] \<and> (14000 :: rat) \<noteq> 0"
    by (simp add: indices_def stub_env_def)
  have v: "(''NVIDIA'', ''NVDA'') \<in> set indices \<and>
           ticker_history stub_env ''NVDA'' ''2d''
             = Inl ''Too Many Requests. Rate limited. Try after a while.''"
    by (simp add: indices_def stub_env_def)
  have r: "(''Russell 2000'', ''^RUT'') \<in> set indices \<and>
           ticker_history stub_env ''^RUT'' ''2d'' = Inr [Fin 1, float_of_rat (3275 / 1000)] \<and>
           [Fin 1, float_of_rat (3275 / 1000)] \<noteq> [] \<and>
           Fin 1 = (if length [Fin 1, float_of_rat (3275 / 1000)] > 1
                    then [Fin 1, float_of_rat (3275 / 1000)]
                           ! (length [Fin 1, float_of_rat (3275 / 1000)] - 2)
                    else last [Fin 1, float_of_rat (3275 / 1000)])"
    by (simp add: indices_def stub_env_def)
  have o: "(''Crude Oil'', ''CL=F'') \<in> set indices \<and>
           ticker_history stub_env ''CL=F'' ''2d'' = Inr [Fin 0] \<and> is_zero (Fin 0)"
    by (simp add: indices_def stub_env_def is_zero_def)
  have s: "(''Silver'', ''SI=F'') \<in> set indices \<and>
           ticker_history stub_env ''SI=F'' ''2d'' = Inr [NaN] \<and>
           (NaN = NaN \<or> NaN = PosInf \<or> NaN = NegInf)"
    by (simp add: indices_def stub_env_def)
  note c1 = market_overview_entries [where E = stub_env and name = "''Gold''"
      and symbol = "''GC=F''", THEN conjunct2, THEN conjunct1, THEN mp, OF g]
  note c2 = market_overview_entries [where E = stub_env and name = "''NASDAQ''"
      and symbol = "''^IXIC''" and q = 14000,
      THEN conjunct2, THEN conjunct2, THEN conjunct2, THEN conjunct2, THEN conjunct2,
      THEN conjunct1, THEN mp, OF n]
  note c3 = market_overview_entries [where E = stub_env and name = "''NVIDIA''"
      and symbol = "''NVDA''" and e = "''Too Many Requests. Rate limited. Try after a while.''",
      THEN conjunct2, THEN conjunct2, THEN conjunct2, THEN conjunct1, THEN mp, OF v]
  note c4 = market_overview_entries [where E = stub_env and name = "''Russell 2000''"
      and symbol = "''^RUT''" and hist = "[Fin 1, float_of_rat (3275 / 1000)]" and prev = "Fin 1",
      THEN conjunct2, THEN conjunct2, THEN conjunct2, THEN conjunct2, THEN conjunct1, THEN mp,
      OF r]
  note c5 = market_overview_entries [where E = stub_env and name = "''Crude Oil''"
      and symbol = "''CL=F''" and c = "Fin 0",
      THEN conjunct2, THEN conjunct2, THEN conjunct2, THEN conjunct2, THEN conjunct2,
      THEN conjunct2, THEN conjunct1, THEN mp, OF o]
  note c6 = market_overview_entries [where E = stub_env and name = "''Silver''"
      and symbol = "''SI=F''" and c = NaN,
      THEN conjunct2, THEN conjunct2, THEN conjunct2, THEN conjunct2, THEN conjunct2,
      THEN conjunct2, THEN conjunct2, THEN conjunct1, THEN mp, OF s]
  have c4': "map_of (get_market_overview stub_env) ''Russell 2000'' =
     Some (PDict [(''current'', PFloat (float_of_rat (327 / 100))),
                  (''change'', PFloat (float_of_rat (227 / 100))),
                  (''change_percent'', PFloat (Fin (455 / 2)))])"
    using c4 by (simp add: float_eval)
  show ?thesis
    using stub_overview g n v r o s c1 c2 [unfolded py_round2_14000] c3 c4' c5 c6
    by (intro conjI) simp_all
qed

text \<open>
  As the claim is worded it fails. Crude Oil has one day of history here, with
  the close 0.0: nothing is raised in fetching, and the entry is the \<^verbatim>\<open>error\<close> of
  the division by zero, not a \<^verbatim>\<open>change\<close> and a \<^verbatim>\<open>change_percent\<close> of 0. Silver has
  one day of history with a close that is NaN: its change and change in percent
  are NaN.
\<close>

theorem one_day_history_without_zero_change_counterexample:
  "ticker_history stub_env ''CL=F'' ''2d'' = Inr [Fin 0] \<and>
   map_of (get_market_overview stub_env) ''Crude Oil'' =
     Some (PDict [(''error'', PStr ''float division by zero'')]) \<and>
   ticker_history stub_env ''SI=F'' ''2d'' = Inr [NaN] \<and>
   map_of (get_market_overview stub_env) ''Silver'' =
     Some (PDict [(''current'', PFloat NaN), (''change'', PFloat NaN),
                  (''change_percent'', PFloat NaN)]) \<and>
   PFloat NaN \<noteq> PFloat (Fin 0)"
  by (simp add: stub_overview) (simp add: stub_env_def)

end
